(* ===== verification/Covid_Prelude.thy ===== *)
theory Covid_Prelude
  imports Complex_Main "HOL-Library.Char_ord" "HOL-Library.List_Lexorder"
    "HOL-Library.While_Combinator"
begin

text \<open>
  Shared vocabulary of the development: the fact collections the component
  theories add to, the type names of the table model, and the facts about
  lists that more than one component needs.  The one piece of Python here
  is the \<^verbatim>\<open>for\<close> statement over a list, \<open>for_each\<close>; the definitions
  translated from the lines of \<^verbatim>\<open>src/covid_traker.py\<close> start in
  \<^verbatim>\<open>Float_Cell\<close> and \<^verbatim>\<open>Frame\<close>.

  Strings are \<^typ>\<open>string\<close> (lists of 8-bit characters) ordered
  lexicographically by character code (\<^verbatim>\<open>Char_ord\<close>, \<^verbatim>\<open>List_Lexorder\<close>),
  which is Python's order on \<^verbatim>\<open>str\<close> for the ASCII country names the
  script works with.
\<close>

section \<open>Fact collections\<close>

named_theorems frame_defs
  \<open>definitions of the pipeline stages, unfolded together to run a stage on a concrete table\<close>

named_theorems frame_simps
  \<open>rewrite rules about table operations that are safe in any simpset\<close>

section \<open>Names for the model's types\<close>

type_synonym label = string

type_synonym 'a column = "'a list"

abbreviation valid_in :: "('a \<Rightarrow> bool) \<Rightarrow> 'a list \<Rightarrow> 'a list" where
  "valid_in null xs \<equiv> filter (\<lambda>x. \<not> null x) xs"

section \<open>Loops over a list\<close>

text \<open>
  A \<^verbatim>\<open>for x in xs: ...\<close> whose body appends one result per element, as a
  loop over the state of the iteration: the elements still to visit and the
  results so far.  The loop ends, with nothing left to visit, and its
  results are those of \<^const>\<open>map\<close>.
\<close>

definition for_each :: "('a \<Rightarrow> 'b) \<Rightarrow> 'a list \<Rightarrow> ('a list \<times> 'b list) option" where
  "for_each body xs =
     while_option (\<lambda>(todo, out). todo \<noteq> [])
       (\<lambda>(todo, out). (tl todo, out @ [body (hd todo)])) (xs, [])"

lemma for_each_from:
  "while_option (\<lambda>(todo, out). todo \<noteq> [])
     (\<lambda>(todo, out). (tl todo, out @ [body (hd todo)])) (xs, acc) = Some ([], acc @ map body xs)"
proof (induction xs arbitrary: acc)
  case Nil
  show ?case by (subst while_option_unfold) simp
next
  case (Cons x xs)
  show ?case by (subst while_option_unfold) (simp add: Cons.IH)
qed

lemma for_each_map: "for_each body xs = Some ([], map body xs)"
  by (simp add: for_each_def for_each_from)

section \<open>Lists\<close>

lemma take_Suc_snoc: "i < length xs \<Longrightarrow> take (Suc i) xs = take i xs @ [xs ! i]"
  by (simp add: take_Suc_conv_app_nth)

lemma set_map_filter: "set (List.map_filter f xs) = {y. \<exists>x \<in> set xs. f x = Some y}"
  by (induction xs) (auto simp: List.map_filter_def)

text \<open>Two columns computed from the same rows, combined element by element.\<close>

lemma map2_map_same: "map2 f (map g xs) (map h xs) = map (\<lambda>x. f (g x) (h x)) xs"
  by (induction xs) auto

lemma map2_rows_map: "map2 f xs (map g xs) = map (\<lambda>x. f x (g x)) xs"
  by (induction xs) auto

text \<open>
  Selecting the rows of a key and then a column is selecting from the
  column paired with the keys.
\<close>

lemma map_filter_key_zip:
  "map col (filter (\<lambda>r. key r = k) rs) =
     map snd (filter (\<lambda>(k', x). k' = k) (zip (map key rs) (map col rs)))"
  by (induction rs) auto

lemma keyed_filter_key:
  "map snd (filter (\<lambda>(k', x). k' = k) (map (\<lambda>r. (key r, col r)) rs)) =
     map col (filter (\<lambda>r. key r = k) rs)"
  by (induction rs) auto

section \<open>Sorted duplicate-free key lists\<close>

text \<open>
  The keys of a group-by are the distinct values of the key column in
  ascending order; the three facts below are all the components use of
  \<^term>\<open>sort (remdups ks)\<close>.
\<close>

lemma set_sort_remdups [frame_simps]: "set (sort (remdups ks)) = set ks"
  by simp

lemma distinct_sort_remdups [frame_simps]: "distinct (sort (remdups ks))"
  by simp

lemma sorted_sort_remdups [frame_simps]: "sorted (sort (remdups ks))"
  by simp

lemma length_remdups_subset:
  assumes "set ks \<subseteq> set cs"
  shows "length (remdups ks) \<le> length (remdups cs)"
proof -
  have "card (set ks) \<le> card (set cs)"
    using assms by (simp add: card_mono)
  then show ?thesis
    by (simp add: length_remdups_card_conv)
qed

end
