(* ===== verification/Float_Cell.thy ===== *)
theory Float_Cell
  imports Covid_Prelude
begin

text \<open>
  The values of a numeric column.  pandas keeps the count columns of the
  data set as \<^verbatim>\<open>float64\<close>, where a missing entry is NaN, so a cell is a
  float: NaN, an infinity, or a finite number.  The script tests such
  cells for missing (\<^verbatim>\<open>isnull\<close>, \<^verbatim>\<open>fillna\<close>, lines 47, 69--74, 78, 95),
  divides them (lines 94, 166), multiplies by 100 (line 166), and has
  pandas add, subtract, sort and take the root of them for the statistics
  of line 91.

  Finite arithmetic is exact here: a finite cell is a \<^typ>\<open>real\<close>, so
  rounding to 53 bits, overflow of a finite result to infinity, and the
  sign of zero are not modelled.  The special values follow IEEE 754 as
  numpy implements it for \<^verbatim>\<open>float64\<close> arrays: no exception is raised,
  \<open>0/0\<close> and \<open>\<infinity>/\<infinity>\<close> are NaN, \<open>x/0\<close> is an infinity of the sign of \<open>x\<close>,
  and NaN propagates.
\<close>

section \<open>Cells\<close>

datatype fval = NaN | PInf | NInf | Fin real

definition isnull :: "fval \<Rightarrow> bool" where
  "isnull x \<longleftrightarrow> x = NaN"

definition fillna :: "fval \<Rightarrow> fval \<Rightarrow> fval" where
  "fillna v x = (if isnull x then v else x)"

fun is_finite :: "fval \<Rightarrow> bool" where
  "is_finite (Fin x) = True"
| "is_finite _ = False"

text \<open>What a count of the data set is: a number, or nothing.\<close>

fun finite_or_missing :: "fval \<Rightarrow> bool" where
  "finite_or_missing PInf = False"
| "finite_or_missing NInf = False"
| "finite_or_missing x = True"

section \<open>Arithmetic\<close>

fun fdiv :: "fval \<Rightarrow> fval \<Rightarrow> fval" where
  "fdiv NaN b = NaN"
| "fdiv a NaN = NaN"
| "fdiv (Fin x) (Fin y) =
     (if y \<noteq> 0 then Fin (x / y)
      else if x = 0 then NaN
      else if 0 < x then PInf else NInf)"
| "fdiv (Fin x) b = Fin 0"
| "fdiv PInf (Fin y) = (if 0 \<le> y then PInf else NInf)"
| "fdiv NInf (Fin y) = (if 0 \<le> y then NInf else PInf)"
| "fdiv a b = NaN"

fun fmul :: "fval \<Rightarrow> fval \<Rightarrow> fval" where
  "fmul NaN b = NaN"
| "fmul a NaN = NaN"
| "fmul (Fin x) (Fin y) = Fin (x * y)"
| "fmul (Fin x) PInf = (if x = 0 then NaN else if 0 < x then PInf else NInf)"
| "fmul (Fin x) NInf = (if x = 0 then NaN else if 0 < x then NInf else PInf)"
| "fmul PInf (Fin y) = (if y = 0 then NaN else if 0 < y then PInf else NInf)"
| "fmul NInf (Fin y) = (if y = 0 then NaN else if 0 < y then NInf else PInf)"
| "fmul PInf PInf = PInf"
| "fmul NInf NInf = PInf"
| "fmul a b = NInf"

text \<open>
  Addition, subtraction and the square root, which the descriptive
  statistics of line 91 need: \<open>\<infinity> - \<infinity>\<close> is NaN, the root of a negative
  number is NaN.
\<close>

fun fadd :: "fval \<Rightarrow> fval \<Rightarrow> fval" where
  "fadd NaN b = NaN"
| "fadd a NaN = NaN"
| "fadd (Fin x) (Fin y) = Fin (x + y)"
| "fadd PInf NInf = NaN"
| "fadd NInf PInf = NaN"
| "fadd (Fin x) b = b"
| "fadd a b = a"

fun fneg :: "fval \<Rightarrow> fval" where
  "fneg NaN = NaN"
| "fneg PInf = NInf"
| "fneg NInf = PInf"
| "fneg (Fin x) = Fin (- x)"

definition fsub :: "fval \<Rightarrow> fval \<Rightarrow> fval" where
  "fsub a b = fadd a (fneg b)"

fun fsqrt :: "fval \<Rightarrow> fval" where
  "fsqrt (Fin x) = (if x < 0 then NaN else Fin (sqrt x))"
| "fsqrt PInf = PInf"
| "fsqrt a = NaN"

text \<open>
  With \<open>fadd\<close> and zero the cells are a commutative monoid, so the sum of
  a column is \<^const>\<open>sum_list\<close>.
\<close>

instantiation fval :: comm_monoid_add
begin

definition zero_fval :: fval where
  "zero_fval = Fin 0"

definition plus_fval :: "fval \<Rightarrow> fval \<Rightarrow> fval" where
  "plus_fval a b = fadd a b"

instance
proof
  fix a b c :: fval
  show "a + b + c = a + (b + c)"
    by (cases a; cases b; cases c) (simp_all add: plus_fval_def)
  show "a + b = b + a"
    by (cases a; cases b) (simp_all add: plus_fval_def)
  show "0 + a = a"
    by (cases a) (simp_all add: plus_fval_def zero_fval_def)
qed

end

section \<open>Comparison\<close>

text \<open>
  The IEEE order: every comparison with NaN is false, the infinities bound
  the finite values.
\<close>

fun fle :: "fval \<Rightarrow> fval \<Rightarrow> bool" where
  "fle NaN b = False"
| "fle a NaN = False"
| "fle NInf b = True"
| "fle a PInf = True"
| "fle (Fin x) (Fin y) = (x \<le> y)"
| "fle a b = False"

text \<open>
  The order in which a column is sorted (\<^verbatim>\<open>np.sort\<close>, used by the
  quantiles): the IEEE order on what is not NaN, and NaN after everything
  else.  It is total, so the cells are a linear order and \<^const>\<open>sort\<close>,
  \<^const>\<open>sorted\<close>, \<^const>\<open>min\<close> and \<^const>\<open>max\<close> apply to columns.
\<close>

fun sort_rank :: "fval \<Rightarrow> nat" where
  "sort_rank NInf = 0"
| "sort_rank (Fin x) = 1"
| "sort_rank PInf = 2"
| "sort_rank NaN = 3"

fun the_fin :: "fval \<Rightarrow> real" where
  "the_fin (Fin x) = x"
| "the_fin a = 0"

instantiation fval :: linorder
begin

definition less_eq_fval :: "fval \<Rightarrow> fval \<Rightarrow> bool" where
  "less_eq_fval a b \<longleftrightarrow>
     sort_rank a < sort_rank b \<or> (sort_rank a = sort_rank b \<and> the_fin a \<le> the_fin b)"

definition less_fval :: "fval \<Rightarrow> fval \<Rightarrow> bool" where
  "less_fval a b \<longleftrightarrow>
     sort_rank a < sort_rank b \<or> (sort_rank a = sort_rank b \<and> the_fin a < the_fin b)"

instance
proof
  fix a b c :: fval
  show "a < b \<longleftrightarrow> a \<le> b \<and> \<not> b \<le> a"
    by (auto simp: less_eq_fval_def less_fval_def)
  show "a \<le> a"
    by (simp add: less_eq_fval_def)
  show "a \<le> b \<Longrightarrow> b \<le> c \<Longrightarrow> a \<le> c"
    by (auto simp: less_eq_fval_def)
  show "a \<le> b \<Longrightarrow> b \<le> a \<Longrightarrow> a = b"
    by (cases a; cases b) (auto simp: less_eq_fval_def)
  show "a \<le> b \<or> b \<le> a"
    by (auto simp: less_eq_fval_def)
qed

end

section \<open>Facts about cells\<close>

lemma isnull_simps [simp]:
  "isnull NaN" "\<not> isnull PInf" "\<not> isnull NInf" "\<not> isnull (Fin x)"
  by (simp_all add: isnull_def)

lemma isnull_iff: "isnull x \<longleftrightarrow> x = NaN"
  by (simp add: isnull_def)

lemma fillna_simps [simp]:
  "fillna v NaN = v" "fillna v PInf = PInf" "fillna v NInf = NInf" "fillna v (Fin x) = Fin x"
  by (simp_all add: fillna_def)

lemma fillna_notnull [simp]: "\<not> isnull v \<Longrightarrow> \<not> isnull (fillna v x)"
  by (simp add: fillna_def)

lemma fillna_id [simp]: "\<not> isnull x \<Longrightarrow> fillna v x = x"
  by (simp add: fillna_def)

lemma fillna_idem [simp]: "fillna v (fillna v x) = fillna v x"
  by (simp add: fillna_def)

lemma is_finite_notnull [simp]: "is_finite x \<Longrightarrow> \<not> isnull x"
  by (cases x) auto

lemma finite_or_missing_iff: "finite_or_missing x \<longleftrightarrow> is_finite x \<or> isnull x"
  by (cases x) simp_all

lemma finite_or_missing_fillna [simp]:
  "finite_or_missing v \<Longrightarrow> finite_or_missing x \<Longrightarrow> finite_or_missing (fillna v x)"
  by (simp add: fillna_def)

lemma is_finite_iff: "is_finite x \<longleftrightarrow> (\<exists>r. x = Fin r)"
  by (cases x) auto

lemma fdiv_NaN_right [simp]: "fdiv a NaN = NaN"
  by (cases a) auto

lemma fmul_NaN_right [simp]: "fmul a NaN = NaN"
  by (cases a) auto

lemma fdiv_Fin_nonzero [simp]: "y \<noteq> 0 \<Longrightarrow> fdiv (Fin x) (Fin y) = Fin (x / y)"
  by simp

lemma fdiv_zero_zero [simp]: "fdiv (Fin 0) (Fin 0) = NaN"
  by simp

text \<open>Exactly when a quotient is missing: a missing operand, \<open>0/0\<close>, or \<open>\<infinity>/\<infinity>\<close>.\<close>

lemma fdiv_isnull_iff:
  "isnull (fdiv a b) \<longleftrightarrow>
     isnull a \<or> isnull b \<or> (a = Fin 0 \<and> b = Fin 0) \<or> (\<not> is_finite a \<and> \<not> is_finite b)"
  by (cases a; cases b) auto

lemma fmul_Fin_pos_isnull_iff: "0 < c \<Longrightarrow> isnull (fmul a (Fin c)) \<longleftrightarrow> isnull a"
  by (cases a) auto

lemma fle_refl [simp]: "\<not> isnull x \<Longrightarrow> fle x x"
  by (cases x) auto

lemma fle_trans: "fle a b \<Longrightarrow> fle b c \<Longrightarrow> fle a c"
  by (cases a; cases b; cases c) auto

lemma fle_notnull: "fle a b \<Longrightarrow> \<not> isnull a \<and> \<not> isnull b"
  by (cases a; cases b) auto

lemma fle_antisym: "fle a b \<Longrightarrow> fle b a \<Longrightarrow> a = b"
  by (cases a; cases b) auto

lemma fle_total: "\<not> isnull a \<Longrightarrow> \<not> isnull b \<Longrightarrow> fle a b \<or> fle b a"
  by (cases a; cases b) auto

lemma fle_Fin_iff [simp]: "fle (Fin x) (Fin y) \<longleftrightarrow> x \<le> y"
  by simp

section \<open>Facts about the sorting order\<close>

lemma fval_le_simps [simp]:
  "Fin x \<le> Fin y \<longleftrightarrow> x \<le> y"
  "a \<le> NaN"
  "NInf \<le> a"
  "Fin x \<le> PInf"
  "NaN \<le> a \<longleftrightarrow> a = NaN"
  "a \<le> NInf \<longleftrightarrow> a = NInf"
  "PInf \<le> Fin x \<longleftrightarrow> False"
  "PInf \<le> a \<longleftrightarrow> a = PInf \<or> a = NaN"
  by (cases a; simp add: less_eq_fval_def)+

lemma fval_less_simps [simp]:
  "Fin x < Fin y \<longleftrightarrow> x < y"
  "a < NaN \<longleftrightarrow> a \<noteq> NaN"
  "NInf < a \<longleftrightarrow> a \<noteq> NInf"
  "Fin x < PInf"
  "\<not> NaN < a"
  "\<not> a < NInf"
  by (cases a; simp add: less_fval_def)+

text \<open>On cells that are not NaN the sorting order is the IEEE comparison.\<close>

lemma fle_iff_le: "\<not> isnull a \<Longrightarrow> \<not> isnull b \<Longrightarrow> fle a b \<longleftrightarrow> a \<le> b"
  by (cases a; cases b) simp_all

lemma min_Fin [simp]: "min (Fin x) (Fin y) = Fin (min x y)"
  by (simp add: min_def)

lemma max_Fin [simp]: "max (Fin x) (Fin y) = Fin (max x y)"
  by (simp add: max_def)

section \<open>Facts about sums\<close>

lemma fadd_Fin_zero [simp]: "fadd (Fin 0) a = a" "fadd a (Fin 0) = a"
  by (cases a; simp)+

lemma plus_Fin [simp]: "Fin x + Fin y = Fin (x + y)"
  by (simp add: plus_fval_def)

lemma plus_NaN [simp]: "NaN + a = NaN" "a + NaN = NaN"
  by (cases a; simp add: plus_fval_def)+

lemma fsub_Fin [simp]: "fsub (Fin x) (Fin y) = Fin (x - y)"
  by (simp add: fsub_def)

lemma sum_list_Fin: "sum_list (map Fin xs) = Fin (sum_list xs)"
  by (induction xs) (simp_all add: zero_fval_def)

lemma is_finite_the_fin [simp]: "is_finite a \<Longrightarrow> Fin (the_fin a) = a"
  by (cases a) auto

lemma map_Fin_the_fin: "list_all is_finite xs \<Longrightarrow> map Fin (map the_fin xs) = xs"
  by (induction xs) auto

end
