(* ===== verification/Frame.thy ===== *)
theory Frame
  imports Float_Cell
begin

text \<open>
  The table the script works on and the pandas operations it applies to it.

  A \<^verbatim>\<open>DataFrame\<close> is modelled row by row: a table is a list of records
  in file order, one field per column the script reads
  (\<^verbatim>\<open>key_columns\<close>, line 46, and \<^verbatim>\<open>population\<close>, line 166).  The
  operations are stated over the record scheme, so that they apply
  unchanged to the rows with the derived columns and to rows that carry
  further columns of the file in the record's extension part.  The type
  parameter \<open>'d\<close> is the representation of the \<^verbatim>\<open>date\<close> column: strings
  as read, dates after \<^verbatim>\<open>pd.to_datetime\<close>.  A missing string or date is
  \<^term>\<open>None\<close>, a missing number is \<^term>\<open>NaN\<close>.

  The operations are stated once, over any row type, and instantiated by
  the stages: boolean-mask selection, \<^verbatim>\<open>isin\<close>, \<^verbatim>\<open>dropna(subset=...)\<close>,
  column assignment, forward fill, the null count of a column, the maximum
  of a date column, and the sorted keys and the \<^verbatim>\<open>last\<close> aggregate of a
  group-by.
\<close>

section \<open>Rows\<close>

datatype py_error = KeyError "label list" | DateParseError string

record 'd row =
  location :: "label option"
  date :: "'d option"
  total_cases :: fval
  new_cases :: fval
  total_deaths :: fval
  new_deaths :: fval
  total_vaccinations :: fval
  people_vaccinated :: fval
  population :: fval

section \<open>Selection\<close>

fun isin :: "label list \<Rightarrow> label option \<Rightarrow> bool" where
  "isin vs None = False"
| "isin vs (Some l) = (l \<in> set vs)"

definition dropna_subset :: "('r \<Rightarrow> bool) list \<Rightarrow> 'r list \<Rightarrow> 'r list" where
  "dropna_subset nulls rs = filter (\<lambda>r. \<not> list_ex (\<lambda>null. null r) nulls) rs"

section \<open>Column assignment\<close>

definition set_column :: "(('a \<Rightarrow> 'a) \<Rightarrow> 'r \<Rightarrow> 'r) \<Rightarrow> 'a column \<Rightarrow> 'r list \<Rightarrow> 'r list" where
  "set_column upd vs rs = map (\<lambda>(r, v). upd (\<lambda>_. v) r) (zip rs vs)"

section \<open>Forward fill and the last valid entry\<close>

fun ffill_by :: "('a \<Rightarrow> bool) \<Rightarrow> 'a \<Rightarrow> 'a column \<Rightarrow> 'a column" where
  "ffill_by null prev [] = []"
| "ffill_by null prev (x # xs) =
     (if null x then prev # ffill_by null prev xs else x # ffill_by null x xs)"

definition ffill :: "fval column \<Rightarrow> fval column" where
  "ffill xs = ffill_by isnull NaN xs"

definition last_valid_by :: "('a \<Rightarrow> bool) \<Rightarrow> 'a \<Rightarrow> 'a column \<Rightarrow> 'a" where
  "last_valid_by null d xs = (if valid_in null xs = [] then d else last (valid_in null xs))"

definition last_valid :: "fval column \<Rightarrow> fval" where
  "last_valid xs = last_valid_by isnull NaN xs"

definition settled :: "('a \<Rightarrow> bool) \<Rightarrow> 'a column \<Rightarrow> bool" where
  "settled null ys \<longleftrightarrow> (\<forall>y \<in> set (dropWhile null ys). \<not> null y)"

definition isnull_sum :: "('a \<Rightarrow> bool) \<Rightarrow> 'a column \<Rightarrow> nat" where
  "isnull_sum null xs = length (filter null xs)"

definition nondecreasing :: "fval column \<Rightarrow> bool" where
  "nondecreasing xs \<longleftrightarrow> sorted_wrt fle (valid_in isnull xs)"

section \<open>Maximum of a date column\<close>

fun date_max :: "('d::linorder) option column \<Rightarrow> 'd option" where
  "date_max [] = None"
| "date_max (None # ds) = date_max ds"
| "date_max (Some d # ds) = (case date_max ds of None \<Rightarrow> Some d | Some m \<Rightarrow> Some (max d m))"

section \<open>Group-by\<close>

definition group_keys :: "label option column \<Rightarrow> label list" where
  "group_keys ks = sort (remdups (List.map_filter id ks))"

definition group_of :: "('r \<Rightarrow> label option) \<Rightarrow> label \<Rightarrow> 'r list \<Rightarrow> 'r list" where
  "group_of key k rs = filter (\<lambda>r. key r = Some k) rs"

section \<open>Facts: selection\<close>

lemma isin_iff: "isin vs x \<longleftrightarrow> (\<exists>l. x = Some l \<and> l \<in> set vs)"
  by (cases x) auto

lemma isin_not_None [simp]: "isin vs x \<Longrightarrow> x \<noteq> None"
  by (cases x) auto

lemma dropna_subset_Nil [simp]: "dropna_subset nulls [] = []"
  by (simp add: dropna_subset_def)

lemma set_dropna_subset:
  "set (dropna_subset nulls rs) = {r \<in> set rs. \<forall>null \<in> set nulls. \<not> null r}"
  by (auto simp: dropna_subset_def list_ex_iff)

lemma dropna_subset_id:
  "(\<And>r null. r \<in> set rs \<Longrightarrow> null \<in> set nulls \<Longrightarrow> \<not> null r) \<Longrightarrow> dropna_subset nulls rs = rs"
  by (auto simp: dropna_subset_def list_ex_iff filter_id_conv)

lemma dropna_subset_idem [simp]:
  "dropna_subset nulls (dropna_subset nulls rs) = dropna_subset nulls rs"
  by (simp add: dropna_subset_def)

lemma length_dropna_subset: "length (dropna_subset nulls rs) \<le> length rs"
  by (simp add: dropna_subset_def)

section \<open>Facts: column assignment\<close>

lemma length_set_column [simp]:
  "length (set_column upd vs rs) = min (length rs) (length vs)"
  by (simp add: set_column_def)

lemma set_column_map:
  "set_column upd (map f rs) rs = map (\<lambda>r. upd (\<lambda>_. f r) r) rs"
  by (induction rs) (auto simp: set_column_def)

lemma set_column_Nil [simp]: "set_column upd vs [] = []"
  by (simp add: set_column_def)

lemma set_column_Cons [simp]:
  "set_column upd (v # vs) (r # rs) = upd (\<lambda>_. v) r # set_column upd vs rs"
  by (simp add: set_column_def)

lemma map_set_column_other:
  assumes "\<And>f r. sel (upd f r) = sel r" and "length vs = length rs"
  shows "map sel (set_column upd vs rs) = map sel rs"
  using assms(2) by (induction vs rs rule: list_induct2) (auto simp: assms(1))

lemma map_set_column_same:
  assumes "\<And>f r. sel (upd f r) = f (sel r)" and "length vs = length rs"
  shows "map sel (set_column upd vs rs) = vs"
  using assms(2) by (induction vs rs rule: list_induct2) (auto simp: assms(1))

lemma filter_set_column_other:
  assumes "\<And>f r. P (upd f r) = P r" and "length vs = length rs"
  shows "map P (set_column upd vs rs) = map P rs"
  using assms(2) by (induction vs rs rule: list_induct2) (auto simp: assms(1))

lemma set_column_nth:
  "i < length rs \<Longrightarrow> length vs = length rs \<Longrightarrow>
     set_column upd vs rs ! i = upd (\<lambda>_. vs ! i) (rs ! i)"
  by (simp add: set_column_def)

section \<open>Facts: forward fill\<close>

lemma length_ffill_by [simp]: "length (ffill_by null p xs) = length xs"
  by (induction xs arbitrary: p) auto

lemma ffill_by_eq_Nil [simp]: "ffill_by null p xs = [] \<longleftrightarrow> xs = []"
  by (cases xs) auto

lemma ffill_by_append:
  "ffill_by null p (xs @ ys) =
     ffill_by null p xs @ ffill_by null (last_valid_by null p xs) ys"
  by (induction xs arbitrary: p) (auto simp: last_valid_by_def)

lemma last_valid_by_Nil [simp]: "last_valid_by null d [] = d"
  by (simp add: last_valid_by_def)

lemma last_valid_by_Cons:
  "last_valid_by null d (x # xs) = last_valid_by null (if null x then d else x) xs"
  by (simp add: last_valid_by_def)

lemma last_valid_by_snoc [simp]:
  "last_valid_by null d (xs @ [x]) = (if null x then last_valid_by null d xs else x)"
  by (simp add: last_valid_by_def)

lemma last_valid_by_valid: "\<not> null d \<Longrightarrow> \<not> null (last_valid_by null d xs)"
  by (induction xs arbitrary: d) (auto simp: last_valid_by_Cons)

lemma last_valid_by_in: "last_valid_by null d xs \<in> insert d (set xs)"
proof (induction xs arbitrary: d)
  case Nil
  show ?case by simp
next
  case (Cons x xs)
  from Cons.IH [of "if null x then d else x"] show ?case
    by (auto simp: last_valid_by_Cons split: if_splits)
qed

text \<open>
  The characteristic equation of forward fill: position \<open>i\<close> of the result
  holds the last valid entry among the first \<open>i + 1\<close> inputs, or the
  initial value when there is none.
\<close>

lemma ffill_by_nth:
  "i < length xs \<Longrightarrow> ffill_by null p xs ! i = last_valid_by null p (take (Suc i) xs)"
proof (induction xs arbitrary: p i)
  case Nil
  then show ?case by simp
next
  case (Cons x xs)
  show ?case
  proof (cases i)
    case 0
    then show ?thesis by (simp add: last_valid_by_Cons)
  next
    case (Suc j)
    with Cons.prems have "j < length xs" by simp
    with Suc Cons.IH show ?thesis by (simp add: last_valid_by_Cons)
  qed
qed

lemma last_ffill_by:
  "xs \<noteq> [] \<Longrightarrow> last (ffill_by null p xs) = last_valid_by null p xs"
  by (induction xs arbitrary: p) (auto simp: last_valid_by_Cons)

lemma ffill_by_idem [simp]:
  "ffill_by null p (ffill_by null p xs) = ffill_by null p xs"
  by (induction xs arbitrary: p) auto

lemma ffill_by_no_null:
  "(\<And>x. x \<in> set xs \<Longrightarrow> \<not> null x) \<Longrightarrow> ffill_by null p xs = xs"
  by (induction xs arbitrary: p) auto

lemma ffill_by_valid_start:
  "\<not> null p \<Longrightarrow> y \<in> set (ffill_by null p xs) \<Longrightarrow> \<not> null y"
  by (induction xs arbitrary: p) (auto split: if_splits)

lemma set_ffill_by: "set (ffill_by null p xs) \<subseteq> insert p (set xs)"
  by (induction xs arbitrary: p) (auto split: if_splits)

lemma ffill_by_keeps_valid:
  "i < length xs \<Longrightarrow> \<not> null (xs ! i) \<Longrightarrow> ffill_by null p xs ! i = xs ! i"
  by (simp add: ffill_by_nth take_Suc_snoc)

text \<open>
  After the first valid entry nothing is missing: the missing entries of a
  filled column form a prefix.
\<close>

lemma ffill_by_null_prefix:
  assumes "null p" and "i \<le> j" and "j < length xs" and "null (ffill_by null p xs ! j)"
  shows "null (ffill_by null p xs ! i)"
  using assms
proof (induction xs arbitrary: i j)
  case Nil
  then show ?case by simp
next
  case (Cons x xs)
  show ?case
  proof (cases "null x")
    case True
    show ?thesis
    proof (cases i)
      case 0
      with True Cons.prems(1) show ?thesis by simp
    next
      case (Suc i')
      with Cons.prems obtain j' where j: "j = Suc j'" "i' \<le> j'" "j' < length xs"
        by (cases j) auto
      with True Cons.prems(4) have "null (ffill_by null p xs ! j')" by simp
      with Cons.IH [OF Cons.prems(1) j(2,3)] True Suc show ?thesis by simp
    qed
  next
    case False
    have "\<not> null (ffill_by null p (x # xs) ! j)"
      using False Cons.prems(3) ffill_by_valid_start [of null x _ xs]
      by (cases j) (auto simp: nth_mem)
    with Cons.prems(4) show ?thesis by simp
  qed
qed

text \<open>Forward fill never disturbs the order of the valid entries.\<close>

lemma sorted_wrt_ffill_by:
  assumes refl: "\<And>x. \<not> null x \<Longrightarrow> R x x"
    and trans: "\<And>x y z. R x y \<Longrightarrow> R y z \<Longrightarrow> R x z"
  shows "sorted_wrt R (valid_in null (p # xs)) \<Longrightarrow>
         sorted_wrt R (valid_in null (p # ffill_by null p xs))"
proof (induction xs arbitrary: p)
  case Nil
  then show ?case by simp
next
  case (Cons x xs)
  show ?case
  proof (cases "null x")
    case True
    with Cons.prems have "sorted_wrt R (valid_in null (p # xs))"
      by (simp split: if_splits)
    then have "sorted_wrt R (valid_in null (p # ffill_by null p xs))" by (rule Cons.IH)
    with True show ?thesis by (auto simp: refl)
  next
    case False
    with Cons.prems have "sorted_wrt R (valid_in null (x # xs))"
      by (auto split: if_splits)
    then have IH: "sorted_wrt R (valid_in null (x # ffill_by null x xs))" by (rule Cons.IH)
    show ?thesis
    proof (cases "null p")
      case True
      with False IH show ?thesis by simp
    next
      case np: False
      from Cons.prems False np have px: "R p x" by simp
      have "R p y" if "y \<in> set (valid_in null (ffill_by null x xs))" for y
      proof -
        from IH False that have "R x y" by simp
        with px show ?thesis by (rule trans)
      qed
      with False np px IH show ?thesis by auto
    qed
  qed
qed

text \<open>
  A column is settled when its missing entries form a prefix.  Forward fill
  settles a column, selecting rows keeps it settled, and in a settled column
  the last valid entry is simply the last entry.
\<close>

lemma settled_Nil [simp]: "settled null []"
  by (simp add: settled_def)

lemma settled_Cons:
  "settled null (y # ys) \<longleftrightarrow> (if null y then settled null ys else \<forall>z \<in> set ys. \<not> null z)"
  by (auto simp: settled_def)

lemma settled_all_valid: "(\<And>y. y \<in> set ys \<Longrightarrow> \<not> null y) \<Longrightarrow> settled null ys"
  by (auto simp: settled_def dest: set_dropWhileD)

lemma settled_ffill_by: "settled null (ffill_by null p xs)"
proof (induction xs arbitrary: p)
  case Nil
  show ?case by (simp add: settled_def)
next
  case (Cons x xs)
  show ?case
  proof (cases "null x")
    case True
    then show ?thesis
      by (cases "null p") (auto simp: settled_Cons Cons.IH dest: ffill_by_valid_start)
  next
    case False
    then show ?thesis by (auto simp: settled_Cons dest: ffill_by_valid_start)
  qed
qed

lemma settled_filter: "settled null (map col rs) \<Longrightarrow> settled null (map col (filter P rs))"
proof (induction rs)
  case Nil
  then show ?case by simp
next
  case (Cons r rs)
  show ?case
  proof (cases "null (col r)")
    case True
    with Cons show ?thesis by (simp add: settled_Cons)
  next
    case False
    with Cons.prems have "\<forall>z \<in> set (map col (r # rs)). \<not> null z"
      by (simp add: settled_Cons)
    then have "\<forall>z \<in> set (map col (filter P (r # rs))). \<not> null z" by auto
    then show ?thesis by (blast intro: settled_all_valid)
  qed
qed

lemma last_valid_by_settled:
  assumes "settled null zs" and "zs \<noteq> []"
  shows "last_valid_by null d zs = (if null (last zs) then d else last zs)"
  using assms
proof (induction zs)
  case Nil
  then show ?case by simp
next
  case (Cons z zs)
  show ?case
  proof (cases "zs = []")
    case True
    then show ?thesis by (simp add: last_valid_by_Cons)
  next
    case False
    show ?thesis
    proof (cases "null z")
      case True
      with Cons False show ?thesis by (simp add: last_valid_by_Cons settled_Cons)
    next
      case nz: False
      with Cons.prems have all: "\<forall>y \<in> set zs. \<not> null y" by (simp add: settled_Cons)
      then have "settled null zs" by (auto intro: settled_all_valid)
      moreover from all False have "\<not> null (last zs)" by simp
      ultimately show ?thesis
        using False nz all
        by (simp add: last_valid_by_Cons last_valid_by_def filter_id_conv)
    qed
  qed
qed

section \<open>Facts: float columns\<close>

lemma length_ffill [simp]: "length (ffill xs) = length xs"
  by (simp add: ffill_def)

lemma ffill_nth: "i < length xs \<Longrightarrow> ffill xs ! i = last_valid (take (Suc i) xs)"
  by (simp add: ffill_def last_valid_def ffill_by_nth)

text \<open>A filled entry is missing exactly when nothing up to it has a value.\<close>

lemma last_valid_by_null_iff:
  "null d \<Longrightarrow> null (last_valid_by null d xs) \<longleftrightarrow> (\<forall>x \<in> set xs. null x)"
proof (induction xs arbitrary: d)
  case Nil
  then show ?case by simp
next
  case (Cons x xs)
  then show ?case
    using last_valid_by_valid [of null x xs] by (simp add: last_valid_by_Cons)
qed

lemma ffill_null_iff:
  assumes "i < length xs"
  shows "isnull (ffill xs ! i) \<longleftrightarrow> (\<forall>j \<le> i. isnull (xs ! j))"
  using assms
  by (auto simp: ffill_nth last_valid_def last_valid_by_null_iff all_set_conv_all_nth
      less_Suc_eq_le)

lemma ffill_nth_in:
  assumes "i < length xs" and "\<not> isnull (ffill xs ! i)"
  shows "\<exists>j \<le> i. ffill xs ! i = xs ! j"
proof -
  have "ffill xs ! i \<in> insert NaN (set (take (Suc i) xs))"
    using assms(1) last_valid_by_in [of isnull NaN "take (Suc i) xs"]
    by (simp add: ffill_nth last_valid_def)
  with assms(2) have "ffill xs ! i \<in> set (take (Suc i) xs)" by auto
  then obtain j where "j < length (take (Suc i) xs)" "take (Suc i) xs ! j = ffill xs ! i"
    unfolding in_set_conv_nth by blast
  with assms(1) show ?thesis by (intro exI [of _ j]) auto
qed

lemma ffill_idem [simp]: "ffill (ffill xs) = ffill xs"
  by (simp add: ffill_def)

lemma ffill_finite_or_missing:
  "list_all finite_or_missing xs \<Longrightarrow> list_all finite_or_missing (ffill xs)"
  using set_ffill_by [of isnull NaN xs] by (auto simp: ffill_def list_all_iff)

lemma ffill_no_null: "(\<And>x. x \<in> set xs \<Longrightarrow> \<not> isnull x) \<Longrightarrow> ffill xs = xs"
  by (simp add: ffill_def ffill_by_no_null)

lemma settled_ffill [simp]: "settled isnull (ffill xs)"
  by (simp add: ffill_def settled_ffill_by)

lemma last_ffill: "xs \<noteq> [] \<Longrightarrow> last (ffill xs) = last_valid xs"
  by (simp add: ffill_def last_valid_def last_ffill_by)

lemma nondecreasing_ffill: "nondecreasing xs \<Longrightarrow> nondecreasing (ffill xs)"
  using sorted_wrt_ffill_by [of isnull fle NaN xs]
  by (auto simp: nondecreasing_def ffill_def intro: fle_trans)

lemma nondecreasing_nth:
  assumes "nondecreasing xs" and "i \<le> j" and "j < length xs"
    and "\<not> isnull (xs ! i)" and "\<not> isnull (xs ! j)"
  shows "fle (xs ! i) (xs ! j)"
proof (cases "i = j")
  case True
  with assms(4) show ?thesis by simp
next
  case False
  with assms(2) have ij: "i < j" by simp
  have "xs = take i xs @ xs ! i # take (j - Suc i) (drop (Suc i) xs) @ xs ! j # drop (Suc j) xs"
    using ij assms(3)
    by (metis Cons_nth_drop_Suc Suc_leI append_take_drop_id drop_drop le_add_diff_inverse2
        less_imp_le_nat order_less_trans take_drop)
  then obtain as bs cs where "xs = as @ xs ! i # bs @ xs ! j # cs" by blast
  then have "valid_in isnull xs =
      valid_in isnull as @ xs ! i # valid_in isnull bs @ xs ! j # valid_in isnull cs"
    using assms(4,5) by (metis (mono_tags, lifting) filter.simps(2) filter_append)
  with assms(1) show ?thesis
    by (auto simp: nondecreasing_def sorted_wrt_append)
qed

text \<open>Counting the missing entries (\<^verbatim>\<open>isnull().sum()\<close>).\<close>

lemma isnull_sum_le: "isnull_sum null xs \<le> length xs"
  by (simp add: isnull_sum_def)

lemma isnull_sum_zero_iff: "isnull_sum null xs = 0 \<longleftrightarrow> (\<forall>x \<in> set xs. \<not> null x)"
  by (simp add: isnull_sum_def filter_empty_conv)

lemma isnull_sum_map_zero: "(\<And>r. r \<in> set rs \<Longrightarrow> \<not> null (col r)) \<Longrightarrow> isnull_sum null (map col rs) = 0"
  by (simp add: isnull_sum_zero_iff)

text \<open>
  A forward fill leaves missing exactly the entries before the first valid
  one.
\<close>

lemma isnull_sum_ffill_by:
  "isnull_sum null (ffill_by null p xs) = (if null p then length (takeWhile null xs) else 0)"
proof (induction xs arbitrary: p)
  case Nil
  show ?case by (simp add: isnull_sum_def)
next
  case (Cons x xs)
  show ?case using Cons.IH [of p] Cons.IH [of x] by (auto simp: isnull_sum_def split: if_splits)
qed

lemma isnull_sum_ffill: "isnull_sum isnull (ffill xs) = length (takeWhile isnull xs)"
  by (simp add: ffill_def isnull_sum_ffill_by)

section \<open>Facts: maximum of a date column\<close>

lemma date_max_None_iff: "date_max ds = None \<longleftrightarrow> (\<forall>d \<in> set ds. d = None)"
  by (induction ds rule: date_max.induct) (auto split: option.splits)

lemma date_max_in: "date_max ds = Some m \<Longrightarrow> Some m \<in> set ds"
  by (induction ds arbitrary: m rule: date_max.induct)
    (auto split: option.splits simp: max_def)

lemma date_max_ge: "date_max ds = Some m \<Longrightarrow> Some d \<in> set ds \<Longrightarrow> d \<le> m"
  by (induction ds arbitrary: m rule: date_max.induct)
    (auto split: option.splits simp: date_max_None_iff le_max_iff_disj)

lemma date_max_Some_iff:
  "date_max ds = Some m \<longleftrightarrow> Some m \<in> set ds \<and> (\<forall>d. Some d \<in> set ds \<longrightarrow> d \<le> m)"
proof
  assume "date_max ds = Some m"
  then show "Some m \<in> set ds \<and> (\<forall>d. Some d \<in> set ds \<longrightarrow> d \<le> m)"
    by (auto dest: date_max_in date_max_ge)
next
  assume r: "Some m \<in> set ds \<and> (\<forall>d. Some d \<in> set ds \<longrightarrow> d \<le> m)"
  then obtain m' where m': "date_max ds = Some m'"
    by (cases "date_max ds") (auto simp: date_max_None_iff)
  with r have "m' \<le> m" "m \<le> m'"
    by (auto dest: date_max_in date_max_ge)
  with m' show "date_max ds = Some m" by simp
qed

section \<open>Facts: group-by\<close>

lemma set_group_keys [frame_simps]: "set (group_keys ks) = {k. Some k \<in> set ks}"
  by (auto simp: group_keys_def set_map_filter)

lemma distinct_group_keys [frame_simps]: "distinct (group_keys ks)"
  by (simp add: group_keys_def)

lemma sorted_group_keys [frame_simps]: "sorted (group_keys ks)"
  by (simp add: group_keys_def)

lemma group_of_nonempty_iff: "group_of key k rs \<noteq> [] \<longleftrightarrow> Some k \<in> key ` set rs"
  by (auto simp: group_of_def filter_empty_conv image_iff) metis+

lemma group_keys_length_le:
  assumes "\<And>k. Some k \<in> set ks \<Longrightarrow> k \<in> set cs"
  shows "length (group_keys ks) \<le> length (remdups cs)"
proof -
  have "set (List.map_filter id ks) \<subseteq> set cs"
    using assms by (auto simp: set_map_filter)
  then have "length (remdups (List.map_filter id ks)) \<le> length (remdups cs)"
    by (rule length_remdups_subset)
  then show ?thesis by (simp add: group_keys_def)
qed

end
