(* ===== verification/Dates.thy ===== *)
theory Dates
  imports Covid_Prelude
begin

text \<open>
  Calendar dates, the values of the \<^verbatim>\<open>date\<close> column after line 59.

  The pipeline itself uses two things of a date only: equality and the
  order (\<^verbatim>\<open>df['date'].max()\<close>, \<^verbatim>\<open>df['date'] == ...\<close>, lines 98 and 167), so
  its definitions are stated over any linearly ordered type.  This theory
  gives the instance the data set needs: a date is a year, a month and a
  day, ordered chronologically, and \<open>parse_iso\<close> reads the
  \<^verbatim>\<open>YYYY-MM-DD\<close> strings of the data set.  The parser stands for
  \<^verbatim>\<open>pd.to_datetime\<close> on that one format; pandas itself accepts more
  formats, and its source is not part of the repository.
\<close>

section \<open>Dates and their order\<close>

datatype date = Date (year: nat) (month: nat) (day: nat)

instantiation date :: linorder
begin

definition less_eq_date :: "date \<Rightarrow> date \<Rightarrow> bool" where
  "less_eq_date a b \<longleftrightarrow>
     year a < year b \<or> (year a = year b \<and> (month a < month b \<or> (month a = month b \<and> day a \<le> day b)))"

definition less_date :: "date \<Rightarrow> date \<Rightarrow> bool" where
  "less_date a b \<longleftrightarrow>
     year a < year b \<or> (year a = year b \<and> (month a < month b \<or> (month a = month b \<and> day a < day b)))"

instance
  by standard (auto simp: less_eq_date_def less_date_def date.expand)

end

section \<open>The Gregorian calendar\<close>

definition leap_year :: "nat \<Rightarrow> bool" where
  "leap_year y \<longleftrightarrow> (4 dvd y \<and> \<not> 100 dvd y) \<or> 400 dvd y"

definition days_in_month :: "nat \<Rightarrow> nat \<Rightarrow> nat" where
  "days_in_month y m =
     (if m = 2 then (if leap_year y then 29 else 28)
      else if m \<in> {4, 6, 9, 11} then 30 else 31)"

definition valid_date :: "date \<Rightarrow> bool" where
  "valid_date d \<longleftrightarrow>
     1 \<le> month d \<and> month d \<le> 12 \<and> 1 \<le> day d \<and> day d \<le> days_in_month (year d) (month d)"

section \<open>Reading and writing \<^verbatim>\<open>YYYY-MM-DD\<close>\<close>

definition digit_val :: "char \<Rightarrow> nat option" where
  "digit_val c =
     (let n = (of_char c :: nat) in if 48 \<le> n \<and> n \<le> 57 then Some (n - 48) else None)"

fun number_from :: "nat \<Rightarrow> string \<Rightarrow> nat option" where
  "number_from acc [] = Some acc"
| "number_from acc (c # cs) =
     (case digit_val c of None \<Rightarrow> None | Some v \<Rightarrow> number_from (10 * acc + v) cs)"

definition number :: "string \<Rightarrow> nat option" where
  "number cs = (if cs = [] then None else number_from 0 cs)"

definition parse_iso :: "string \<Rightarrow> date option" where
  "parse_iso s =
     (if length s = 10 \<and> s ! 4 = CHR ''-'' \<and> s ! 7 = CHR ''-'' then
        (case (number (take 4 s), number (take 2 (drop 5 s)), number (drop 8 s)) of
           (Some y, Some m, Some d) \<Rightarrow>
              if valid_date (Date y m d) then Some (Date y m d) else None
         | _ \<Rightarrow> None)
      else None)"

section \<open>Facts: order\<close>

lemma date_le_iff:
  "Date y m d \<le> Date y' m' d' \<longleftrightarrow> y < y' \<or> (y = y' \<and> (m < m' \<or> (m = m' \<and> d \<le> d')))"
  by (simp add: less_eq_date_def)

lemma date_less_iff:
  "Date y m d < Date y' m' d' \<longleftrightarrow> y < y' \<or> (y = y' \<and> (m < m' \<or> (m = m' \<and> d < d')))"
  by (simp add: less_date_def)

lemmas date_order_simps [simp] = date_le_iff date_less_iff

lemma max_date_simp [simp]:
  "max (Date y m d) (Date y' m' d') =
     (if Date y m d \<le> Date y' m' d' then Date y' m' d' else Date y m d)"
  by (simp add: max_def)

section \<open>Facts: calendar\<close>

lemma days_in_month_bounds: "28 \<le> days_in_month y m \<and> days_in_month y m \<le> 31"
  by (simp add: days_in_month_def)

lemma valid_date_bounds:
  "valid_date d \<Longrightarrow> 1 \<le> month d \<and> month d \<le> 12 \<and> 1 \<le> day d \<and> day d \<le> 31"
  using days_in_month_bounds [of "year d" "month d"] by (auto simp: valid_date_def)

section \<open>Facts: the reader\<close>

lemma digit_val_Some_iff: "digit_val c = Some v \<longleftrightarrow> 48 \<le> (of_char c :: nat) \<and> of_char c = 48 + v \<and> v \<le> 9"
  by (auto simp: digit_val_def Let_def)

lemma parse_iso_valid: "parse_iso s = Some d \<Longrightarrow> valid_date d"
  by (auto simp: parse_iso_def split: if_splits option.splits)

lemma parse_iso_length: "parse_iso s = Some d \<Longrightarrow> length s = 10"
  by (auto simp: parse_iso_def split: if_splits)

end
