(* ===== verification/Sample_Data.thy ===== *)
theory Sample_Data
  imports Frame Dates
begin

text \<open>
  A small table in the layout of the data set, used as the concrete input
  of the example theorems.  It is laid out as the file is: sorted by
  location, then by date, with the gaps that the cleaning stage is there
  to handle.  The rows are chosen so that every branch of the pipeline is
  taken at least once:
  \<^item> a location outside the three countries and a row without location
    (removed by line 63);
  \<^item> a row without date (removed by line 66);
  \<^item> missing case and death counts (lines 69--72);
  \<^item> missing vaccination counts in the middle of a location's rows and at
    the start of the next location's rows (lines 73--74);
  \<^item> a location with zero cases (line 95);
  \<^item> a location with no row on the latest date of the table (line 98).
\<close>

definition raw_row ::
  "label option \<Rightarrow> string option \<Rightarrow> fval \<Rightarrow> fval \<Rightarrow> fval \<Rightarrow> fval \<Rightarrow> fval \<Rightarrow> fval \<Rightarrow> fval \<Rightarrow> string row"
where
  "raw_row l d tc nc td nd tv pv pop =
     \<lparr>location = l, date = d, total_cases = tc, new_cases = nc, total_deaths = td,
      new_deaths = nd, total_vaccinations = tv, people_vaccinated = pv, population = pop\<rparr>"

definition sample_raw :: "string row list" where
  "sample_raw =
     [raw_row (Some ''Germany'') (Some ''2021-05-02'')
        (Fin 3400000) (Fin 9000) (Fin 83000) (Fin 100) (Fin 30000000) (Fin 23000000) (Fin 83000000),
      raw_row (Some ''India'') (Some ''2021-04-30'')
        (Fin 19000000) (Fin 400000) (Fin 210000) (Fin 3500) (Fin 150000000) (Fin 125000000)
        (Fin 1380000000),
      raw_row (Some ''India'') (Some ''2021-05-01'')
        (Fin 20000000) NaN (Fin 220000) NaN NaN NaN (Fin 1380000000),
      raw_row (Some ''Kenya'') (Some ''2021-04-30'')
        NaN NaN NaN NaN NaN NaN (Fin 53000000),
      raw_row (Some ''Kenya'') (Some ''2021-05-01'')
        (Fin 0) (Fin 0) (Fin 0) (Fin 0) (Fin 900000) NaN (Fin 53000000),
      raw_row (Some ''United States'') (Some ''2021-04-30'')
        (Fin 32000000) (Fin 58000) (Fin 575000) (Fin 800) (Fin 240000000) (Fin 144000000)
        (Fin 331000000),
      raw_row (Some ''United States'') None
        (Fin 32100000) (Fin 50000) (Fin 576000) (Fin 700) (Fin 243000000) (Fin 146000000)
        (Fin 331000000),
      raw_row None (Some ''2021-05-01'')
        (Fin 150000000) (Fin 800000) (Fin 3200000) (Fin 13000) NaN NaN NaN]"

definition dated_row ::
  "label \<Rightarrow> date \<Rightarrow> fval \<Rightarrow> fval \<Rightarrow> fval \<Rightarrow> fval \<Rightarrow> fval \<Rightarrow> fval \<Rightarrow> fval \<Rightarrow> date row"
where
  "dated_row l d tc nc td nd tv pv pop =
     \<lparr>location = Some l, date = Some d, total_cases = tc, new_cases = nc, total_deaths = td,
      new_deaths = nd, total_vaccinations = tv, people_vaccinated = pv, population = pop\<rparr>"

lemma raw_row_simps [simp]:
  "location (raw_row l d tc nc td nd tv pv pop) = l"
  "date (raw_row l d tc nc td nd tv pv pop) = d"
  "total_cases (raw_row l d tc nc td nd tv pv pop) = tc"
  "new_cases (raw_row l d tc nc td nd tv pv pop) = nc"
  "total_deaths (raw_row l d tc nc td nd tv pv pop) = td"
  "new_deaths (raw_row l d tc nc td nd tv pv pop) = nd"
  "total_vaccinations (raw_row l d tc nc td nd tv pv pop) = tv"
  "people_vaccinated (raw_row l d tc nc td nd tv pv pop) = pv"
  "population (raw_row l d tc nc td nd tv pv pop) = pop"
  by (simp_all add: raw_row_def)

lemma dated_row_simps [simp]:
  "location (dated_row l d tc nc td nd tv pv pop) = Some l"
  "date (dated_row l d tc nc td nd tv pv pop) = Some d"
  "total_cases (dated_row l d tc nc td nd tv pv pop) = tc"
  "new_cases (dated_row l d tc nc td nd tv pv pop) = nc"
  "total_deaths (dated_row l d tc nc td nd tv pv pop) = td"
  "new_deaths (dated_row l d tc nc td nd tv pv pop) = nd"
  "total_vaccinations (dated_row l d tc nc td nd tv pv pop) = tv"
  "people_vaccinated (dated_row l d tc nc td nd tv pv pop) = pv"
  "population (dated_row l d tc nc td nd tv pv pop) = pop"
  by (simp_all add: dated_row_def)

text \<open>The date strings of the sample, read.\<close>

lemma parse_iso_sample [simp]:
  "parse_iso ''2021-04-30'' = Some (Date 2021 4 30)"
  "parse_iso ''2021-05-01'' = Some (Date 2021 5 1)"
  "parse_iso ''2021-05-02'' = Some (Date 2021 5 2)"
  by (simp_all add: parse_iso_def number_def digit_val_def valid_date_def days_in_month_def
      leap_year_def)

end
