(* ===== verification/Cleaner.thy ===== *)
theory Cleaner
  imports Sample_Data
begin

text \<open>
  Section 3 of the script, ``Data Cleaning'' (lines 55--84): the date column
  is parsed, the table is restricted to the three countries, rows without a
  date or a location are dropped, missing case and death counts become 0 and
  missing vaccination counts are forward filled.

  Every statement of the script is one definition here, applied in the
  script's order by \<open>clean_rows\<close>; \<open>clean\<close> puts the date conversion, which
  can raise, in front.  The parser of date strings is a parameter: the
  stages only need that a string either parses to a date or does not.

  \<open>ffill_grouped\<close> is not code of the script: it is the forward fill that
  the specification asks for (grouped by location), against which the
  script's fill is compared.
\<close>

section \<open>Date conversion (line 59)\<close>

definition with_date :: "'e option \<Rightarrow> ('d, 'x) row_scheme \<Rightarrow> ('e, 'x) row_scheme" where
  "with_date d r =
     \<lparr>location = location r, date = d, total_cases = total_cases r,
      new_cases = new_cases r, total_deaths = total_deaths r,
      new_deaths = new_deaths r, total_vaccinations = total_vaccinations r,
      people_vaccinated = people_vaccinated r, population = population r,
      \<dots> = row.more r\<rparr>"

fun parse_cell :: "(string \<Rightarrow> 'd option) \<Rightarrow> string option \<Rightarrow> py_error + 'd option" where
  "parse_cell parse None = Inr None"
| "parse_cell parse (Some s) =
     (case parse s of None \<Rightarrow> Inl (DateParseError s) | Some d \<Rightarrow> Inr (Some d))"

fun to_datetime ::
  "(string \<Rightarrow> 'd option) \<Rightarrow> (string, 'x) row_scheme list \<Rightarrow> py_error + ('d, 'x) row_scheme list"
where
  "to_datetime parse [] = Inr []"
| "to_datetime parse (r # rs) =
     (case parse_cell parse (date r) of
        Inl e \<Rightarrow> Inl e
      | Inr d \<Rightarrow>
          (case to_datetime parse rs of
             Inl e \<Rightarrow> Inl e
           | Inr rs' \<Rightarrow> Inr (with_date d r # rs')))"

section \<open>Row selection (lines 61--66)\<close>

definition countries :: "label list" where
  "countries = [''Kenya'', ''United States'', ''India'']"

definition filter_countries :: "('d, 'x) row_scheme list \<Rightarrow> ('d, 'x) row_scheme list" where
  "filter_countries rs = filter (\<lambda>r. isin countries (location r)) rs"

definition drop_missing_keys :: "('d, 'x) row_scheme list \<Rightarrow> ('d, 'x) row_scheme list" where
  "drop_missing_keys rs = dropna_subset [\<lambda>r. date r = None, \<lambda>r. location r = None] rs"

section \<open>Missing numbers (lines 68--74)\<close>

definition fill_counts :: "('d, 'x) row_scheme list \<Rightarrow> ('d, 'x) row_scheme list" where
  "fill_counts rs =
     (let rs1 = set_column total_cases_update (map (fillna (Fin 0)) (map total_cases rs)) rs;
          rs2 = set_column new_cases_update (map (fillna (Fin 0)) (map new_cases rs1)) rs1;
          rs3 = set_column total_deaths_update (map (fillna (Fin 0)) (map total_deaths rs2)) rs2
      in set_column new_deaths_update (map (fillna (Fin 0)) (map new_deaths rs3)) rs3)"

definition ffill_vaccinations :: "('d, 'x) row_scheme list \<Rightarrow> ('d, 'x) row_scheme list" where
  "ffill_vaccinations rs =
     (let rs1 = set_column total_vaccinations_update (ffill (map total_vaccinations rs)) rs
      in set_column people_vaccinated_update (ffill (map people_vaccinated rs1)) rs1)"

section \<open>The cleaning stage\<close>

definition clean_rows :: "('d, 'x) row_scheme list \<Rightarrow> ('d, 'x) row_scheme list" where
  "clean_rows rs = ffill_vaccinations (fill_counts (drop_missing_keys (filter_countries rs)))"

definition clean ::
  "(string \<Rightarrow> 'd option) \<Rightarrow> (string, 'x) row_scheme list \<Rightarrow> py_error + ('d, 'x) row_scheme list"
where
  "clean parse raw = (case to_datetime parse raw of Inl e \<Rightarrow> Inl e | Inr rs \<Rightarrow> Inr (clean_rows rs))"

section \<open>The rows that survive cleaning\<close>

definition kept :: "('d, 'x) row_scheme \<Rightarrow> bool" where
  "kept r \<longleftrightarrow> isin countries (location r) \<and> date r \<noteq> None"

definition fill_row :: "('d, 'x) row_scheme \<Rightarrow> ('d, 'x) row_scheme" where
  "fill_row r =
     r\<lparr>total_cases := fillna (Fin 0) (total_cases r),
       new_cases := fillna (Fin 0) (new_cases r),
       total_deaths := fillna (Fin 0) (total_deaths r),
       new_deaths := fillna (Fin 0) (new_deaths r)\<rparr>"

definition cleaned :: "('d, 'x) row_scheme \<Rightarrow> bool" where
  "cleaned r \<longleftrightarrow>
     isin countries (location r) \<and> date r \<noteq> None \<and>
     \<not> isnull (total_cases r) \<and> \<not> isnull (new_cases r) \<and>
     \<not> isnull (total_deaths r) \<and> \<not> isnull (new_deaths r)"

definition bad_date :: "(string \<Rightarrow> 'd option) \<Rightarrow> string option \<Rightarrow> bool" where
  "bad_date parse c = (case c of None \<Rightarrow> False | Some s \<Rightarrow> parse s = None)"

text \<open>
  A row whose six counts are numbers or missing.  Cleaning makes nothing
  else of such rows: it writes zeros and copies of counts.
\<close>

definition numeric_row :: "('d, 'x) row_scheme \<Rightarrow> bool" where
  "numeric_row r \<longleftrightarrow>
     finite_or_missing (total_cases r) \<and> finite_or_missing (new_cases r) \<and>
     finite_or_missing (total_deaths r) \<and> finite_or_missing (new_deaths r) \<and>
     finite_or_missing (total_vaccinations r) \<and> finite_or_missing (people_vaccinated r)"

section \<open>The forward fill the specification asks for\<close>

fun ffill_grouped_from :: "('k \<Rightarrow> fval) \<Rightarrow> ('k \<times> fval) list \<Rightarrow> fval column" where
  "ffill_grouped_from prev [] = []"
| "ffill_grouped_from prev ((k, x) # kxs) =
     (if isnull x then prev k # ffill_grouped_from prev kxs
      else x # ffill_grouped_from (prev(k := x)) kxs)"

definition ffill_grouped :: "('k \<times> fval) list \<Rightarrow> fval column" where
  "ffill_grouped kxs = ffill_grouped_from (\<lambda>_. NaN) kxs"

fun starts_filled_from :: "'k \<Rightarrow> ('k \<times> fval) list \<Rightarrow> bool" where
  "starts_filled_from k [] = True"
| "starts_filled_from k ((k', x) # kxs) = ((k' \<noteq> k \<longrightarrow> \<not> isnull x) \<and> starts_filled_from k' kxs)"

definition starts_filled :: "('k \<times> fval) list \<Rightarrow> bool" where
  "starts_filled kxs = (case kxs of [] \<Rightarrow> True | (k, x) # _ \<Rightarrow> starts_filled_from k kxs)"

abbreviation keyed ::
  "(('d, 'x) row_scheme \<Rightarrow> fval) \<Rightarrow> ('d, 'x) row_scheme list \<Rightarrow> (label option \<times> fval) list"
where
  "keyed col rs \<equiv> map (\<lambda>r. (location r, col r)) rs"

section \<open>The sample table, cleaned\<close>

definition sample_clean :: "date row list" where
  "sample_clean =
     [dated_row ''India'' (Date 2021 4 30)
        (Fin 19000000) (Fin 400000) (Fin 210000) (Fin 3500) (Fin 150000000) (Fin 125000000)
        (Fin 1380000000),
      dated_row ''India'' (Date 2021 5 1)
        (Fin 20000000) (Fin 0) (Fin 220000) (Fin 0) (Fin 150000000) (Fin 125000000)
        (Fin 1380000000),
      dated_row ''Kenya'' (Date 2021 4 30)
        (Fin 0) (Fin 0) (Fin 0) (Fin 0) (Fin 150000000) (Fin 125000000) (Fin 53000000),
      dated_row ''Kenya'' (Date 2021 5 1)
        (Fin 0) (Fin 0) (Fin 0) (Fin 0) (Fin 900000) (Fin 125000000) (Fin 53000000),
      dated_row ''United States'' (Date 2021 4 30)
        (Fin 32000000) (Fin 58000) (Fin 575000) (Fin 800) (Fin 240000000) (Fin 144000000)
        (Fin 331000000)]"

definition sample_filled :: "string row list" where
  "sample_filled = filter (\<lambda>r. location r \<noteq> Some ''Kenya'') sample_raw"

section \<open>Facts: date conversion\<close>

lemma with_date_simps [simp]:
  "location (with_date d r) = location r"
  "date (with_date d r) = d"
  "total_cases (with_date d r) = total_cases r"
  "new_cases (with_date d r) = new_cases r"
  "total_deaths (with_date d r) = total_deaths r"
  "new_deaths (with_date d r) = new_deaths r"
  "total_vaccinations (with_date d r) = total_vaccinations r"
  "people_vaccinated (with_date d r) = people_vaccinated r"
  "population (with_date d r) = population r"
  "row.more (with_date d r) = row.more r"
  by (simp_all add: with_date_def)

lemma parse_cell_Inr_iff:
  "parse_cell parse c = Inr d \<longleftrightarrow>
     (c = None \<and> d = None) \<or> (\<exists>s x. c = Some s \<and> parse s = Some x \<and> d = Some x)"
  by (cases c) (auto split: option.splits)

lemma parse_cell_Inl_iff:
  "parse_cell parse c = Inl e \<longleftrightarrow> (\<exists>s. c = Some s \<and> parse s = None \<and> e = DateParseError s)"
  by (cases c) (auto split: option.splits)

lemma to_datetime_Inr_length: "to_datetime parse rs = Inr rs' \<Longrightarrow> length rs' = length rs"
  by (induction rs arbitrary: rs') (auto split: sum.splits)

lemma to_datetime_Inr_map:
  "to_datetime parse rs = Inr rs' \<Longrightarrow>
     rs' = map (\<lambda>r. with_date (Option.bind (date r) parse) r) rs"
  by (induction rs arbitrary: rs') (auto split: sum.splits simp: parse_cell_Inr_iff)

text \<open>The conversion succeeds exactly when every date string present parses.\<close>

lemma to_datetime_Inr_iff:
  "(\<exists>rs'. to_datetime parse rs = Inr rs') \<longleftrightarrow>
     (\<forall>r \<in> set rs. \<forall>s. date r = Some s \<longrightarrow> parse s \<noteq> None)"
proof (induction rs)
  case Nil
  show ?case by simp
next
  case (Cons r rs)
  show ?case
  proof (cases "parse_cell parse (date r)")
    case (Inl e)
    then show ?thesis by (auto simp: parse_cell_Inl_iff)
  next
    case (Inr d)
    then have "\<forall>s. date r = Some s \<longrightarrow> parse s \<noteq> None"
      by (auto simp: parse_cell_Inr_iff)
    with Inr Cons.IH show ?thesis by (auto split: sum.splits)
  qed
qed

section \<open>Facts: the stages one by one\<close>

lemma filter_countries_location:
  "r \<in> set (filter_countries rs) \<Longrightarrow> \<exists>l \<in> set countries. location r = Some l"
  by (auto simp: filter_countries_def isin_iff)

lemma drop_missing_keys_filter:
  "drop_missing_keys rs = filter (\<lambda>r. date r \<noteq> None \<and> location r \<noteq> None) rs"
  by (simp add: drop_missing_keys_def dropna_subset_def)

lemma select_kept: "drop_missing_keys (filter_countries rs) = filter kept rs"
  unfolding drop_missing_keys_filter filter_countries_def filter_filter
  by (rule filter_cong) (auto simp: kept_def isin_iff)

lemma fill_counts_map: "fill_counts rs = map fill_row rs"
  by (simp add: fill_counts_def Let_def set_column_map fill_row_def comp_def)

lemma length_ffill_vaccinations [simp]: "length (ffill_vaccinations rs) = length rs"
  by (simp add: ffill_vaccinations_def Let_def)

lemma ffill_vaccinations_other:
  assumes "\<And>f r. sel (total_vaccinations_update f r) = sel r"
    and "\<And>f r. sel (people_vaccinated_update f r) = sel r"
  shows "map sel (ffill_vaccinations rs) = map sel rs"
  by (simp add: ffill_vaccinations_def Let_def map_set_column_other assms)

lemma total_vaccinations_ffill [frame_simps]:
  "map total_vaccinations (ffill_vaccinations rs) = ffill (map total_vaccinations rs)"
  by (simp add: ffill_vaccinations_def Let_def map_set_column_other map_set_column_same)

lemma people_vaccinated_ffill [frame_simps]:
  "map people_vaccinated (ffill_vaccinations rs) = ffill (map people_vaccinated rs)"
  by (simp add: ffill_vaccinations_def Let_def map_set_column_other map_set_column_same)

lemmas ffill_vaccinations_keeps [frame_simps] =
  ffill_vaccinations_other [of location, simplified]
  ffill_vaccinations_other [of date, simplified]
  ffill_vaccinations_other [of total_cases, simplified]
  ffill_vaccinations_other [of new_cases, simplified]
  ffill_vaccinations_other [of total_deaths, simplified]
  ffill_vaccinations_other [of new_deaths, simplified]
  ffill_vaccinations_other [of population, simplified]
  ffill_vaccinations_other [of row.more, simplified]

lemma fill_row_simps [simp]:
  "location (fill_row r) = location r"
  "date (fill_row r) = date r"
  "total_cases (fill_row r) = fillna (Fin 0) (total_cases r)"
  "new_cases (fill_row r) = fillna (Fin 0) (new_cases r)"
  "total_deaths (fill_row r) = fillna (Fin 0) (total_deaths r)"
  "new_deaths (fill_row r) = fillna (Fin 0) (new_deaths r)"
  "total_vaccinations (fill_row r) = total_vaccinations r"
  "people_vaccinated (fill_row r) = people_vaccinated r"
  "population (fill_row r) = population r"
  "row.more (fill_row r) = row.more r"
  by (simp_all add: fill_row_def)

lemma kept_fill_row [simp]: "kept (fill_row r) = kept r"
  by (simp add: kept_def)

lemma fill_row_idem [simp]: "fill_row (fill_row r) = fill_row r"
  by (simp add: fill_row_def)

section \<open>Facts: the cleaned table, column by column\<close>

lemma clean_rows_alt: "clean_rows rs = ffill_vaccinations (map fill_row (filter kept rs))"
  by (simp add: clean_rows_def select_kept fill_counts_map)

lemma length_clean_rows: "length (clean_rows rs) = length (filter kept rs)"
  by (simp add: clean_rows_alt)

lemma clean_rows_column:
  assumes "\<And>f r. sel (total_vaccinations_update f r) = sel r"
    and "\<And>f r. sel (people_vaccinated_update f r) = sel r"
  shows "map sel (clean_rows rs) = map (sel \<circ> fill_row) (filter kept rs)"
  by (simp add: clean_rows_alt ffill_vaccinations_other assms)

lemmas clean_rows_columns =
  clean_rows_column [of location, simplified comp_def, simplified]
  clean_rows_column [of date, simplified comp_def, simplified]
  clean_rows_column [of total_cases, simplified comp_def, simplified]
  clean_rows_column [of new_cases, simplified comp_def, simplified]
  clean_rows_column [of total_deaths, simplified comp_def, simplified]
  clean_rows_column [of new_deaths, simplified comp_def, simplified]
  clean_rows_column [of population, simplified comp_def, simplified]

lemma clean_rows_total_vaccinations:
  "map total_vaccinations (clean_rows rs) = ffill (map total_vaccinations (filter kept rs))"
  by (simp add: clean_rows_alt total_vaccinations_ffill comp_def)

lemma clean_rows_people_vaccinated:
  "map people_vaccinated (clean_rows rs) = ffill (map people_vaccinated (filter kept rs))"
  by (simp add: clean_rows_alt people_vaccinated_ffill comp_def)

lemma clean_rows_field:
  assumes "\<And>f r. sel (total_vaccinations_update f r) = sel r"
    and "\<And>f r. sel (people_vaccinated_update f r) = sel r"
    and "\<And>r0. kept r0 \<Longrightarrow> P (sel (fill_row r0))"
    and "r \<in> set (clean_rows rs)"
  shows "P (sel r)"
proof -
  from assms(4) have "sel r \<in> set (map sel (clean_rows rs))" by simp
  also have "map sel (clean_rows rs) = map (sel \<circ> fill_row) (filter kept rs)"
    using assms(1,2) by (rule clean_rows_column)
  finally show ?thesis using assms(3) by auto
qed

lemma filter_kept_clean_rows: "filter kept (clean_rows rs) = clean_rows rs"
proof -
  have "map kept (clean_rows rs) = map (kept \<circ> fill_row) (filter kept rs)"
    by (rule clean_rows_column) (simp_all add: kept_def)
  then have "\<forall>b \<in> set (map kept (clean_rows rs)). b" by (simp add: comp_def)
  then show ?thesis by (simp add: filter_id_conv)
qed

section \<open>Facts: the cleaned table, row by row\<close>

lemma ffill_vaccinations_nth:
  assumes "i < length rs"
  shows "ffill_vaccinations rs ! i =
     (rs ! i)\<lparr>total_vaccinations := ffill (map total_vaccinations rs) ! i,
              people_vaccinated := ffill (map people_vaccinated rs) ! i\<rparr>"
  using assms
  by (simp add: ffill_vaccinations_def Let_def set_column_nth map_set_column_other)

lemma ffill_vaccinations_idem [simp]:
  "ffill_vaccinations (ffill_vaccinations rs) = ffill_vaccinations rs"
  by (rule nth_equalityI)
    (simp_all add: ffill_vaccinations_nth total_vaccinations_ffill people_vaccinated_ffill)

lemma fill_row_ffill_vaccinations:
  "map fill_row (ffill_vaccinations rs) = ffill_vaccinations (map fill_row rs)"
  by (rule nth_equalityI) (simp_all add: ffill_vaccinations_nth comp_def fill_row_def)

section \<open>Facts: grouped forward fill\<close>

lemma length_ffill_grouped_from [simp]: "length (ffill_grouped_from prev kxs) = length kxs"
  by (induction kxs arbitrary: prev) auto

lemma ffill_grouped_from_agree:
  "prev k = p \<Longrightarrow> starts_filled_from k kxs \<Longrightarrow>
     ffill_grouped_from prev kxs = ffill_by isnull p (map snd kxs)"
proof (induction kxs arbitrary: prev k p)
  case Nil
  show ?case by simp
next
  case (Cons kx kxs)
  obtain k' x where kx: "kx = (k', x)" by (cases kx)
  show ?case
  proof (cases "isnull x")
    case True
    with Cons.prems kx have "k' = k" "starts_filled_from k kxs" by auto
    with Cons.prems(1) True kx Cons.IH [of prev k p] show ?thesis by simp
  next
    case False
    with Cons.prems kx have "starts_filled_from k' kxs" by simp
    then have "ffill_grouped_from (prev(k' := x)) kxs = ffill_by isnull x (map snd kxs)"
      by (intro Cons.IH [of _ k']) simp_all
    with False kx show ?thesis by simp
  qed
qed

text \<open>The subsequence of a grouped fill that belongs to one key is the fill of that key's subsequence.\<close>

lemma ffill_grouped_from_key:
  "map snd (filter (\<lambda>(k', x). k' = k) (zip (map fst kxs) (ffill_grouped_from prev kxs))) =
     ffill_by isnull (prev k) (map snd (filter (\<lambda>(k', x). k' = k) kxs))"
  by (induction kxs arbitrary: prev) auto

lemma ffill_agrees_grouped:
  assumes "starts_filled kxs"
  shows "ffill (map snd kxs) = ffill_grouped kxs"
proof (cases kxs)
  case Nil
  then show ?thesis by (simp add: ffill_def ffill_grouped_def)
next
  case (Cons kx kxs')
  obtain k x where "kx = (k, x)" by (cases kx)
  with Cons assms have "starts_filled_from k kxs" by (simp add: starts_filled_def)
  then have "ffill_grouped_from (\<lambda>_. NaN) kxs = ffill_by isnull NaN (map snd kxs)"
    by (intro ffill_grouped_from_agree [of _ k]) simp_all
  then show ?thesis by (simp add: ffill_def ffill_grouped_def)
qed

text \<open>
  A grouped fill leaves an entry missing exactly when its key has had no
  value so far.
\<close>

lemma ffill_grouped_from_null_iff:
  "i < length kxs \<Longrightarrow>
     isnull (ffill_grouped_from prev kxs ! i) \<longleftrightarrow>
       isnull (prev (fst (kxs ! i))) \<and>
       (\<forall>j \<le> i. fst (kxs ! j) = fst (kxs ! i) \<longrightarrow> isnull (snd (kxs ! j)))"
proof (induction kxs arbitrary: prev i)
  case Nil
  then show ?case by simp
next
  case (Cons kx kxs)
  obtain k x where kx: "kx = (k, x)" by (cases kx)
  show ?case
  proof (cases i)
    case 0
    then show ?thesis by (auto simp: kx)
  next
    case (Suc n)
    with Cons.prems have n: "n < length kxs" by simp
    have all: "(\<forall>j \<le> Suc n. P j) \<longleftrightarrow> P 0 \<and> (\<forall>j \<le> n. P (Suc j))" for P
      by (metis Suc_le_mono le0 not0_implies_Suc)
    note ih = Cons.IH [OF n]
    show ?thesis
      by (cases "isnull x"; cases "fst (kxs ! n) = k") (auto simp: kx Suc all ih)
  qed
qed

lemma ffill_grouped_null_iff:
  "i < length kxs \<Longrightarrow>
     isnull (ffill_grouped kxs ! i) \<longleftrightarrow>
       (\<forall>j \<le> i. fst (kxs ! j) = fst (kxs ! i) \<longrightarrow> isnull (snd (kxs ! j)))"
  by (simp add: ffill_grouped_def ffill_grouped_from_null_iff)

lemma ffill_grouped_key:
  "map snd (filter (\<lambda>(k', x). k' = k) (zip (map fst kxs) (ffill_grouped kxs))) =
     ffill (map snd (filter (\<lambda>(k', x). k' = k) kxs))"
  by (simp add: ffill_grouped_def ffill_def ffill_grouped_from_key)

section \<open>Facts: the sample table\<close>

lemmas sample_defs =
  sample_raw_def sample_clean_def sample_filled_def raw_row_def dated_row_def

lemmas clean_eval [frame_defs] =
  clean_def clean_rows_alt kept_def countries_def ffill_vaccinations_def ffill_def
  fill_row_def with_date_def

lemma clean_sample: "clean parse_iso sample_raw = Inr sample_clean"
  by (simp add: sample_defs clean_eval)

lemma parse_cell_bad_date:
  "parse_cell parse c =
     (if bad_date parse c then Inl (DateParseError (the c)) else Inr (Option.bind c parse))"
  by (cases c) (auto simp: bad_date_def split: option.splits)

lemma in_clean_rows_cleaned:
  assumes r: "r \<in> set (clean_rows rs)"
  shows "cleaned r"
proof -
  have "isin countries (location r)"
    by (rule clean_rows_field [where sel = location, OF _ _ _ r]) (simp_all add: kept_def)
  moreover have "date r \<noteq> None"
    by (rule clean_rows_field [where sel = date and P = "\<lambda>d. d \<noteq> None", OF _ _ _ r])
      (simp_all add: kept_def)
  moreover have "\<not> isnull (total_cases r)"
    by (rule clean_rows_field [where sel = total_cases and P = "\<lambda>v. \<not> isnull v", OF _ _ _ r])
      simp_all
  moreover have "\<not> isnull (new_cases r)"
    by (rule clean_rows_field [where sel = new_cases and P = "\<lambda>v. \<not> isnull v", OF _ _ _ r])
      simp_all
  moreover have "\<not> isnull (total_deaths r)"
    by (rule clean_rows_field [where sel = total_deaths and P = "\<lambda>v. \<not> isnull v", OF _ _ _ r])
      simp_all
  moreover have "\<not> isnull (new_deaths r)"
    by (rule clean_rows_field [where sel = new_deaths and P = "\<lambda>v. \<not> isnull v", OF _ _ _ r])
      simp_all
  ultimately show ?thesis by (simp add: cleaned_def)
qed

lemma clean_rows_location_in:
  "r \<in> set (clean_rows rs) \<Longrightarrow> \<exists>l \<in> set countries. location r = Some l"
  by (drule in_clean_rows_cleaned) (auto simp: cleaned_def isin_iff)

lemma clean_rows_dated: "r \<in> set (clean_rows rs) \<Longrightarrow> date r \<noteq> None"
  by (drule in_clean_rows_cleaned) (simp add: cleaned_def)

lemma numeric_row_columns:
  "list_all numeric_row rs \<longleftrightarrow>
     list_all finite_or_missing (map total_cases rs) \<and>
     list_all finite_or_missing (map new_cases rs) \<and>
     list_all finite_or_missing (map total_deaths rs) \<and>
     list_all finite_or_missing (map new_deaths rs) \<and>
     list_all finite_or_missing (map total_vaccinations rs) \<and>
     list_all finite_or_missing (map people_vaccinated rs)"
  by (auto simp: numeric_row_def list_all_iff)

lemma numeric_row_with_date [simp]: "numeric_row (with_date d r) = numeric_row r"
  by (simp add: numeric_row_def)

lemma numeric_row_fill_row [simp]: "numeric_row r \<Longrightarrow> numeric_row (fill_row r)"
  by (simp add: numeric_row_def)

lemma clean_rows_numeric:
  assumes "list_all numeric_row rs"
  shows "list_all numeric_row (clean_rows rs)"
proof -
  have r: "numeric_row r" if "r \<in> set rs" for r
    using assms that by (simp add: list_all_iff)
  have "list_all finite_or_missing (map total_vaccinations (filter kept rs))"
    "list_all finite_or_missing (map people_vaccinated (filter kept rs))"
    using r by (simp_all add: list_all_iff numeric_row_def)
  then have "list_all finite_or_missing (ffill (map total_vaccinations (filter kept rs)))"
    "list_all finite_or_missing (ffill (map people_vaccinated (filter kept rs)))"
    by (simp_all add: ffill_finite_or_missing)
  moreover have "finite_or_missing (fillna (Fin 0) (total_cases r))"
    "finite_or_missing (fillna (Fin 0) (new_cases r))"
    "finite_or_missing (fillna (Fin 0) (total_deaths r))"
    "finite_or_missing (fillna (Fin 0) (new_deaths r))" if "r \<in> set rs" for r
    using r [OF that] by (simp_all add: numeric_row_def)
  ultimately show ?thesis
    unfolding numeric_row_columns clean_rows_total_vaccinations clean_rows_people_vaccinated
      clean_rows_columns
    by (simp add: list_all_iff)
qed

lemma clean_numeric:
  assumes "clean parse raw = Inr df" and "list_all numeric_row raw"
  shows "list_all numeric_row df"
proof -
  from assms(1) obtain rs where rs: "to_datetime parse raw = Inr rs" and df: "df = clean_rows rs"
    by (auto simp: clean_def split: sum.splits)
  have "list_all numeric_row rs"
    using assms(2) unfolding to_datetime_Inr_map [OF rs] by (simp add: list_all_iff)
  then show ?thesis unfolding df by (rule clean_rows_numeric)
qed

text \<open>Every date of the cleaned table was read from a date string of the file.\<close>

lemma clean_dates_parsed:
  assumes "clean parse raw = Inr df" and "r \<in> set df"
  shows "\<exists>r0 \<in> set raw. \<exists>s. date r0 = Some s \<and> parse s = date r \<and> date r \<noteq> None"
proof -
  from assms(1) obtain rs where rs: "to_datetime parse raw = Inr rs" and df: "df = clean_rows rs"
    by (auto simp: clean_def split: sum.splits)
  from assms(2) have "date r \<in> set (map date (clean_rows rs))" by (simp add: df)
  then obtain r1 where r1: "r1 \<in> set rs" "date r1 = date r"
    by (auto simp: clean_rows_columns)
  moreover have "date r \<noteq> None" using assms(2) by (simp add: df clean_rows_dated)
  ultimately show ?thesis
    unfolding to_datetime_Inr_map [OF rs] by (auto simp: bind_eq_Some_conv)
qed

section \<open>Properties\<close>

text \<open>
  C1 (invariant).  Every row of the cleaned table is a Cleaned Record: its
  location is one of the three countries, its date is present, and its four
  case and death counts are present.  This holds for every input table, with
  no assumption on it.
\<close>

theorem clean_rows_cleaned: "list_all cleaned (clean_rows rs)"
  by (simp add: list_all_iff in_clean_rows_cleaned)

text \<open>
  C2 (functional).  The cleaned table, row by row: row \<open>i\<close> is the \<open>i\<close>-th
  input row that has one of the three locations and a date, with its missing
  case and death counts replaced by 0 and each of its two vaccination counts
  replaced by the last value present in that column among the selected rows
  up to and including row \<open>i\<close>, whatever their location; NaN when there is
  none.  Nothing else changes.
\<close>

theorem clean_rows_nth:
  assumes "i < length (filter kept rs)"
  shows "clean_rows rs ! i =
     (fill_row (filter kept rs ! i))
       \<lparr>total_vaccinations := last_valid (take (Suc i) (map total_vaccinations (filter kept rs))),
        people_vaccinated := last_valid (take (Suc i) (map people_vaccinated (filter kept rs)))\<rparr>"
  using assms
  by (simp add: clean_rows_alt ffill_vaccinations_nth ffill_nth comp_def)

theorem clean_rows_nth_witness:
  "3 < length (filter kept sample_raw) \<and>
   clean_rows sample_raw ! 3 =
     raw_row (Some ''Kenya'') (Some ''2021-05-01'')
       (Fin 0) (Fin 0) (Fin 0) (Fin 0) (Fin 900000) (Fin 125000000) (Fin 53000000)"
proof -
  have h: "3 < length (filter kept sample_raw)"
    by (simp add: sample_defs kept_def countries_def)
  show ?thesis
    using h clean_rows_nth [OF h]
    by (simp add: sample_defs kept_def countries_def fill_row_def last_valid_def last_valid_by_def)
qed

text \<open>
  C3 (refinement).  The specification asks for a forward fill grouped by
  location; the script fills the column as a whole (line 73).  The two agree
  on every table in which each selected row that starts a new location has a
  vaccination count: there the cleaned \<^verbatim>\<open>total_vaccinations\<close> column is the
  grouped fill of the selected rows.
\<close>

theorem clean_rows_grouped:
  assumes "starts_filled (keyed total_vaccinations (filter kept rs))"
  shows "map total_vaccinations (clean_rows rs) =
           ffill_grouped (keyed total_vaccinations (filter kept rs))"
  using ffill_agrees_grouped [OF assms]
  by (simp add: clean_rows_total_vaccinations comp_def)

theorem clean_rows_grouped_witness:
  "starts_filled (keyed total_vaccinations (filter kept sample_filled)) \<and>
   map total_vaccinations (clean_rows sample_filled) =
     [Fin 150000000, Fin 150000000, Fin 240000000]"
proof -
  have h: "starts_filled (keyed total_vaccinations (filter kept sample_filled))"
    by (simp add: sample_defs kept_def countries_def starts_filled_def)
  show ?thesis
    using h clean_rows_grouped [OF h]
    by (simp add: sample_defs kept_def countries_def ffill_grouped_def)
qed

text \<open>
  C4 (safety).  The rows to which the script's fill gives a count that the
  grouped fill of the specification would not, for every table: the cleaned
  \<^verbatim>\<open>total_vaccinations\<close> of a selected row has a value while the grouped
  fill leaves it missing exactly when no row of its location up to it has
  a count and some earlier selected row has one.  The value it then holds
  is the count of an earlier row of another location.
\<close>

theorem clean_rows_leak:
  assumes "i < length (filter kept rs)"
  shows
    "(\<not> isnull (total_vaccinations (clean_rows rs ! i)) \<and>
      isnull (ffill_grouped (keyed total_vaccinations (filter kept rs)) ! i) \<longleftrightarrow>
      (\<exists>j < i. \<not> isnull (total_vaccinations (filter kept rs ! j))) \<and>
      (\<forall>j \<le> i. location (filter kept rs ! j) = location (filter kept rs ! i) \<longrightarrow>
         isnull (total_vaccinations (filter kept rs ! j)))) \<and>
     (\<not> isnull (total_vaccinations (clean_rows rs ! i)) \<and>
      isnull (ffill_grouped (keyed total_vaccinations (filter kept rs)) ! i) \<longrightarrow>
      (\<exists>j < i. location (filter kept rs ! j) \<noteq> location (filter kept rs ! i) \<and>
         total_vaccinations (clean_rows rs ! i) = total_vaccinations (filter kept rs ! j)))"
proof -
  let ?K = "filter kept rs"
  let ?col = "map total_vaccinations ?K"
  have len: "i < length (clean_rows rs)" using assms by (simp add: length_clean_rows)
  have code: "total_vaccinations (clean_rows rs ! i) = ffill ?col ! i"
    using nth_map [OF len, of total_vaccinations] by (simp add: clean_rows_total_vaccinations)
  have filled: "isnull (ffill ?col ! i) \<longleftrightarrow> (\<forall>j \<le> i. isnull (total_vaccinations (?K ! j)))"
    using assms by (simp add: ffill_null_iff)
  have grouped: "isnull (ffill_grouped (keyed total_vaccinations ?K) ! i) \<longleftrightarrow>
      (\<forall>j \<le> i. location (?K ! j) = location (?K ! i) \<longrightarrow> isnull (total_vaccinations (?K ! j)))"
    using assms by (simp add: ffill_grouped_null_iff)
  have iff: "\<not> isnull (total_vaccinations (clean_rows rs ! i)) \<and>
      isnull (ffill_grouped (keyed total_vaccinations ?K) ! i) \<longleftrightarrow>
      (\<exists>j < i. \<not> isnull (total_vaccinations (?K ! j))) \<and>
      (\<forall>j \<le> i. location (?K ! j) = location (?K ! i) \<longrightarrow> isnull (total_vaccinations (?K ! j)))"
    unfolding code filled grouped by (metis le_eq_less_or_eq order_refl)
  moreover have "\<exists>j < i. location (?K ! j) \<noteq> location (?K ! i) \<and>
      total_vaccinations (clean_rows rs ! i) = total_vaccinations (?K ! j)"
    if "\<not> isnull (total_vaccinations (clean_rows rs ! i))"
      and "isnull (ffill_grouped (keyed total_vaccinations ?K) ! i)"
  proof -
    from that(1) obtain j where j: "j \<le> i" "ffill ?col ! i = total_vaccinations (?K ! j)"
      using ffill_nth_in [of i ?col] assms by (auto simp: code)
    with that(1) have "\<not> isnull (total_vaccinations (?K ! j))" by (simp add: code)
    with that(2) j(1) have "location (?K ! j) \<noteq> location (?K ! i)" by (auto simp: grouped)
    with j show ?thesis by (intro exI [of _ j]) (auto simp: code le_less)
  qed
  ultimately show ?thesis by blast
qed

theorem clean_rows_leak_witness:
  "2 < length (filter kept sample_raw) \<and>
   \<not> isnull (total_vaccinations (clean_rows sample_raw ! 2)) \<and>
   isnull (ffill_grouped (keyed total_vaccinations (filter kept sample_raw)) ! 2) \<and>
   (\<exists>j < 2. location (filter kept sample_raw ! j) \<noteq> location (filter kept sample_raw ! 2) \<and>
      total_vaccinations (clean_rows sample_raw ! 2) =
        total_vaccinations (filter kept sample_raw ! j))"
proof -
  have h: "2 < length (filter kept sample_raw)"
    by (simp add: sample_defs kept_def countries_def)
  have "\<not> isnull (total_vaccinations (clean_rows sample_raw ! 2)) \<and>
      isnull (ffill_grouped (keyed total_vaccinations (filter kept sample_raw)) ! 2)"
    by (simp add: sample_defs clean_eval kept_def countries_def ffill_grouped_def)
  with h clean_rows_leak [OF h] show ?thesis by blast
qed

text \<open>
  After the country filter of line 63 the \<^verbatim>\<open>location\<close>
  part of \<^verbatim>\<open>dropna(subset=['date', 'location'])\<close> (line 66) removes nothing:
  dropping on \<^verbatim>\<open>date\<close> alone gives the same table.
\<close>

theorem dropna_location_redundant:
  "drop_missing_keys (filter_countries rs) =
     dropna_subset [\<lambda>r. date r = None] (filter_countries rs)"
  unfolding drop_missing_keys_def dropna_subset_def filter_countries_def filter_filter
  by (rule filter_cong) (auto simp: isin_iff)

text \<open>
  Cleaning is idempotent: cleaning a cleaned table changes
  nothing.
\<close>

theorem clean_rows_idem: "clean_rows (clean_rows rs) = clean_rows rs"
proof -
  have "clean_rows (clean_rows rs) = ffill_vaccinations (map fill_row (clean_rows rs))"
    by (simp add: clean_rows_alt [of "clean_rows rs"] filter_kept_clean_rows)
  also have "\<dots> = clean_rows rs"
    by (simp add: clean_rows_alt fill_row_ffill_vaccinations comp_def)
  finally show ?thesis .
qed

text \<open>
  C28 (invariant).  If the vaccination counts present in the selected rows
  never decrease from one row to a later one, the same is true of the cleaned
  column: forward fill only repeats values.
\<close>

theorem clean_rows_nondecreasing:
  "nondecreasing (map total_vaccinations (filter kept rs)) \<Longrightarrow>
   nondecreasing (map total_vaccinations (clean_rows rs))"
  by (simp add: clean_rows_total_vaccinations nondecreasing_ffill)

theorem clean_rows_nondecreasing_witness:
  "nondecreasing (map total_vaccinations (filter kept sample_filled)) \<and>
   nondecreasing (map total_vaccinations (clean_rows sample_filled))"
proof -
  have h: "nondecreasing (map total_vaccinations (filter kept sample_filled))"
    by (simp add: sample_defs kept_def countries_def nondecreasing_def)
  show ?thesis
    using h clean_rows_nondecreasing [OF h] by simp
qed

text \<open>
  The date conversion of line 59, on every branch: if some date
  string of the table does not parse, the conversion raises for the first
  such string in file order; otherwise it returns the table with every date
  string replaced by its date and every missing date left missing.
\<close>

lemma to_datetime_find:
  "to_datetime parse rs =
     (case List.find (bad_date parse) (map date rs) of
        Some c \<Rightarrow> Inl (DateParseError (the c))
      | None \<Rightarrow> Inr (map (\<lambda>r. with_date (Option.bind (date r) parse) r) rs))"
  by (induction rs) (auto simp: parse_cell_bad_date split: option.splits)

text \<open>
  The conversion runs before the country filter, so a date that
  does not parse stops the cleaning even when its row belongs to a location
  the script would have discarded.
\<close>

theorem clean_raises_on_bad_date:
  assumes "r \<in> set raw" and "bad_date parse (date r)"
  shows "\<exists>s. clean parse raw = Inl (DateParseError s)"
proof -
  from assms have "date r \<in> set (map date raw)" by simp
  with assms(2) obtain c where "List.find (bad_date parse) (map date raw) = Some c"
    by (cases "List.find (bad_date parse) (map date raw)") (auto simp: find_None_iff)
  then have "to_datetime parse raw = Inl (DateParseError (the c))"
    by (induction raw) (auto simp: parse_cell_bad_date split: option.splits if_splits)
  then show ?thesis by (auto simp: clean_def)
qed

theorem clean_raises_on_bad_date_witness:
  "raw_row (Some ''Germany'') (Some ''02/05/2021'') NaN NaN NaN NaN NaN NaN NaN
     \<in> set (raw_row (Some ''Germany'') (Some ''02/05/2021'') NaN NaN NaN NaN NaN NaN NaN # sample_raw) \<and>
   bad_date parse_iso (Some ''02/05/2021'') \<and>
   (\<exists>s. clean parse_iso
          (raw_row (Some ''Germany'') (Some ''02/05/2021'') NaN NaN NaN NaN NaN NaN NaN # sample_raw) =
        Inl (DateParseError s))"
proof -
  let ?r = "raw_row (Some ''Germany'') (Some ''02/05/2021'') NaN NaN NaN NaN NaN NaN NaN"
  have h1: "?r \<in> set (?r # sample_raw)" by simp
  have h2: "bad_date parse_iso (date ?r)" by (simp add: bad_date_def parse_iso_def)
  show ?thesis
    using h1 h2 clean_raises_on_bad_date [OF h1 h2] by simp
qed

text \<open>
  C13 (refinement).  Seen from one location: on a table in which each selected
  row that starts a new location has a vaccination count, the cleaned
  vaccination series of a location is the forward fill of that location's
  own series, so no value of another location enters it.
\<close>

theorem clean_rows_per_location:
  assumes "starts_filled (keyed total_vaccinations (filter kept rs))"
  shows "map total_vaccinations (group_of location l (clean_rows rs)) =
           ffill (map total_vaccinations (group_of location l (filter kept rs)))"
proof -
  let ?K = "filter kept rs"
  have "map total_vaccinations (group_of location l (clean_rows rs)) =
      map snd (filter (\<lambda>(k', x). k' = Some l)
        (zip (map location (clean_rows rs)) (map total_vaccinations (clean_rows rs))))"
    unfolding group_of_def by (rule map_filter_key_zip)
  also have "map location (clean_rows rs) = map fst (keyed total_vaccinations ?K)"
    by (simp add: clean_rows_columns comp_def)
  also have "map total_vaccinations (clean_rows rs) = ffill_grouped (keyed total_vaccinations ?K)"
    using ffill_agrees_grouped [OF assms] by (simp add: clean_rows_total_vaccinations comp_def)
  also have "map snd (filter (\<lambda>(k', x). k' = Some l)
        (zip (map fst (keyed total_vaccinations ?K)) (ffill_grouped (keyed total_vaccinations ?K)))) =
      ffill (map snd (filter (\<lambda>(k', x). k' = Some l) (keyed total_vaccinations ?K)))"
    by (rule ffill_grouped_key)
  also have "\<dots> = ffill (map total_vaccinations (group_of location l ?K))"
    unfolding group_of_def by (simp only: keyed_filter_key)
  finally show ?thesis .
qed

theorem clean_rows_per_location_witness:
  "starts_filled (keyed total_vaccinations (filter kept sample_filled)) \<and>
   map total_vaccinations (group_of location ''India'' (clean_rows sample_filled)) =
     [Fin 150000000, Fin 150000000]"
proof -
  have h: "starts_filled (keyed total_vaccinations (filter kept sample_filled))"
    by (simp add: sample_defs kept_def countries_def starts_filled_def)
  show ?thesis
    using h clean_rows_per_location [OF h, of "''India''"]
    by (simp add: sample_defs kept_def countries_def group_of_def ffill_def)
qed

text \<open>
  C14 (invariant).  The monotonicity the specification states for forward
  filled series, per location: on a table in which each selected row that
  starts a new location has a vaccination count, a location whose own
  counts never decrease has a cleaned series that never decreases.
\<close>

theorem clean_rows_nondecreasing_per_location:
  assumes "starts_filled (keyed total_vaccinations (filter kept rs))"
    and "nondecreasing (map total_vaccinations (group_of location l (filter kept rs)))"
  shows "nondecreasing (map total_vaccinations (group_of location l (clean_rows rs)))"
proof -
  let ?K = "filter kept rs"
  have "map total_vaccinations (group_of location l (clean_rows rs)) =
      map snd (filter (\<lambda>(k', x). k' = Some l)
        (zip (map fst (keyed total_vaccinations ?K)) (ffill (map snd (keyed total_vaccinations ?K)))))"
    unfolding group_of_def map_filter_key_zip
    by (simp add: clean_rows_columns clean_rows_total_vaccinations comp_def)
  also have "\<dots> = ffill (map snd (filter (\<lambda>(k', x). k' = Some l) (keyed total_vaccinations ?K)))"
    by (simp only: ffill_agrees_grouped [OF assms(1)] ffill_grouped_key)
  also have "\<dots> = ffill (map total_vaccinations (group_of location l ?K))"
    unfolding group_of_def by (simp only: keyed_filter_key)
  finally show ?thesis using assms(2) by (simp add: nondecreasing_ffill)
qed

theorem clean_rows_nondecreasing_per_location_witness:
  "starts_filled (keyed total_vaccinations (filter kept sample_filled)) \<and>
   nondecreasing (map total_vaccinations (group_of location ''India'' (filter kept sample_filled))) \<and>
   nondecreasing (map total_vaccinations (group_of location ''India'' (clean_rows sample_filled)))"
proof -
  have h1: "starts_filled (keyed total_vaccinations (filter kept sample_filled))"
    by (simp add: sample_defs kept_def countries_def starts_filled_def)
  have h2: "nondecreasing
      (map total_vaccinations (group_of location ''India'' (filter kept sample_filled)))"
    by (simp add: sample_defs kept_def countries_def group_of_def nondecreasing_def)
  show ?thesis
    using h1 h2 clean_rows_nondecreasing_per_location [OF h1 h2] by simp
qed

text \<open>
  The condition on the starts is needed.  On the sample table the cleaned
  series of Kenya decreases, from India's count carried into Kenya's first
  row down to Kenya's own first count, although Kenya's series in the
  source never decreases.
\<close>

lemma kenya_series_decreases:
  "map total_vaccinations (group_of location ''Kenya'' (filter kept sample_raw)) = [NaN, Fin 900000] \<and>
   map total_vaccinations (group_of location ''Kenya'' (clean_rows sample_raw)) =
     [Fin 150000000, Fin 900000] \<and>
   nondecreasing (map total_vaccinations (group_of location ''Kenya'' (filter kept sample_raw))) \<and>
   \<not> nondecreasing (map total_vaccinations (group_of location ''Kenya'' (clean_rows sample_raw)))"
  by (simp add: sample_defs clean_eval group_of_def nondecreasing_def)

end
