(* ===== verification/Deriver.thy ===== *)
theory Deriver
  imports Cleaner
begin

text \<open>
  The two derived columns: \<^verbatim>\<open>death_rate\<close> (lines 93--95) and
  \<^verbatim>\<open>percent_vaccinated\<close> (line 166).

  A derived column extends the row type, as the assignment
  \<^verbatim>\<open>df['death_rate'] = ...\<close> extends the \<^verbatim>\<open>DataFrame\<close>: \<open>drow\<close> is a row with a
  death rate, \<open>vrow\<close> a \<open>drow\<close> with a vaccination percentage.  The
  arithmetic is element by element on whole columns, exactly as the script
  writes it; \<open>death_rate_of\<close> and \<open>percent_of\<close> are the same computations
  seen from one row.
\<close>

section \<open>Rows with derived columns\<close>

record 'd drow = "'d row" +
  death_rate :: fval

record 'd vrow = "'d drow" +
  percent_vaccinated :: fval

definition with_death_rate :: "fval \<Rightarrow> ('d, 'x) row_scheme \<Rightarrow> ('d, 'x) drow_scheme" where
  "with_death_rate v r =
     \<lparr>location = location r, date = date r, total_cases = total_cases r,
      new_cases = new_cases r, total_deaths = total_deaths r,
      new_deaths = new_deaths r, total_vaccinations = total_vaccinations r,
      people_vaccinated = people_vaccinated r, population = population r,
      death_rate = v, \<dots> = row.more r\<rparr>"

definition with_percent :: "fval \<Rightarrow> ('d, 'x) drow_scheme \<Rightarrow> ('d, 'x) vrow_scheme" where
  "with_percent v r =
     \<lparr>location = location r, date = date r, total_cases = total_cases r,
      new_cases = new_cases r, total_deaths = total_deaths r,
      new_deaths = new_deaths r, total_vaccinations = total_vaccinations r,
      people_vaccinated = people_vaccinated r, population = population r,
      death_rate = death_rate r, percent_vaccinated = v, \<dots> = drow.more r\<rparr>"

section \<open>Death rate (lines 94--95)\<close>

definition div_columns :: "fval column \<Rightarrow> fval column \<Rightarrow> fval column" where
  "div_columns xs ys = map2 fdiv xs ys"

definition add_death_rate :: "('d, 'x) row_scheme list \<Rightarrow> ('d, 'x) drow_scheme list" where
  "add_death_rate rs =
     (let rs1 = map2 (\<lambda>r v. with_death_rate v r) rs
                  (div_columns (map total_deaths rs) (map total_cases rs))
      in set_column death_rate_update (map (fillna (Fin 0)) (map death_rate rs1)) rs1)"

definition death_rate_of :: "('d, 'x) row_scheme \<Rightarrow> fval" where
  "death_rate_of r = fillna (Fin 0) (fdiv (total_deaths r) (total_cases r))"

section \<open>Vaccination percentage (line 166)\<close>

definition add_percent_vaccinated :: "('d, 'x) drow_scheme list \<Rightarrow> ('d, 'x) vrow_scheme list" where
  "add_percent_vaccinated rs =
     map2 (\<lambda>r v. with_percent v r) rs
       (map (\<lambda>q. fmul q (Fin 100)) (div_columns (map people_vaccinated rs) (map population rs)))"

definition percent_of :: "('d, 'x) row_scheme \<Rightarrow> fval" where
  "percent_of r = fmul (fdiv (people_vaccinated r) (population r)) (Fin 100)"

section \<open>The sample table with its death rates\<close>

definition sample_derived :: "date drow list" where
  "sample_derived = add_death_rate sample_clean"

definition no_cases_row :: "date row" where
  "no_cases_row =
     dated_row ''Kenya'' (Date 2020 3 10) (Fin 0) (Fin 0) (Fin 1) (Fin 1) NaN NaN (Fin 0)"

section \<open>Facts: the extended rows\<close>

lemma with_death_rate_simps [simp]:
  "location (with_death_rate v r) = location r"
  "date (with_death_rate v r) = date r"
  "total_cases (with_death_rate v r) = total_cases r"
  "new_cases (with_death_rate v r) = new_cases r"
  "total_deaths (with_death_rate v r) = total_deaths r"
  "new_deaths (with_death_rate v r) = new_deaths r"
  "total_vaccinations (with_death_rate v r) = total_vaccinations r"
  "people_vaccinated (with_death_rate v r) = people_vaccinated r"
  "population (with_death_rate v r) = population r"
  "death_rate (with_death_rate v r) = v"
  "drow.more (with_death_rate v r) = row.more r"
  "death_rate_update f (with_death_rate v r) = with_death_rate (f v) r"
  by (simp_all add: with_death_rate_def)

lemma with_percent_simps [simp]:
  "location (with_percent v r) = location r"
  "date (with_percent v r) = date r"
  "total_cases (with_percent v r) = total_cases r"
  "new_cases (with_percent v r) = new_cases r"
  "total_deaths (with_percent v r) = total_deaths r"
  "new_deaths (with_percent v r) = new_deaths r"
  "total_vaccinations (with_percent v r) = total_vaccinations r"
  "people_vaccinated (with_percent v r) = people_vaccinated r"
  "population (with_percent v r) = population r"
  "death_rate (with_percent v r) = death_rate r"
  "percent_vaccinated (with_percent v r) = v"
  "vrow.more (with_percent v r) = drow.more r"
  by (simp_all add: with_percent_def)

lemma kept_with_death_rate [simp]: "kept (with_death_rate v r) = kept r"
  by (simp add: kept_def)

section \<open>Facts: the columns, row by row\<close>

lemma div_columns_rows:
  "div_columns (map f rs) (map g rs) = map (\<lambda>r. fdiv (f r) (g r)) rs"
  by (simp add: div_columns_def map2_map_same)

lemma add_death_rate_map:
  "add_death_rate rs = map (\<lambda>r. with_death_rate (death_rate_of r) r) rs"
  by (simp add: add_death_rate_def Let_def div_columns_rows map2_rows_map set_column_map
      death_rate_of_def comp_def)

lemma add_percent_vaccinated_map:
  "add_percent_vaccinated rs = map (\<lambda>r. with_percent (percent_of r) r) rs"
  by (simp add: add_percent_vaccinated_def div_columns_rows map2_rows_map percent_of_def comp_def)

lemma length_add_death_rate [simp]: "length (add_death_rate rs) = length rs"
  by (simp add: add_death_rate_map)

lemma length_add_percent_vaccinated [simp]: "length (add_percent_vaccinated rs) = length rs"
  by (simp add: add_percent_vaccinated_map)

lemma add_death_rate_columns [frame_simps]:
  "map location (add_death_rate rs) = map location rs"
  "map date (add_death_rate rs) = map date rs"
  "map total_cases (add_death_rate rs) = map total_cases rs"
  "map total_deaths (add_death_rate rs) = map total_deaths rs"
  "map total_vaccinations (add_death_rate rs) = map total_vaccinations rs"
  "map people_vaccinated (add_death_rate rs) = map people_vaccinated rs"
  "map population (add_death_rate rs) = map population rs"
  "map death_rate (add_death_rate rs) = map death_rate_of rs"
  by (simp_all add: add_death_rate_map comp_def)

lemma add_percent_vaccinated_columns [frame_simps]:
  "map location (add_percent_vaccinated rs) = map location rs"
  "map date (add_percent_vaccinated rs) = map date rs"
  "map death_rate (add_percent_vaccinated rs) = map death_rate rs"
  "map percent_vaccinated (add_percent_vaccinated rs) = map percent_of rs"
  by (simp_all add: add_percent_vaccinated_map comp_def)

section \<open>Facts: death rate\<close>

lemma death_rate_of_notnull [simp]: "\<not> isnull (death_rate_of r)"
  by (simp add: death_rate_of_def)

lemma death_rate_of_finite:
  "total_deaths r = Fin d \<Longrightarrow> total_cases r = Fin c \<Longrightarrow> c \<noteq> 0 \<Longrightarrow> death_rate_of r = Fin (d / c)"
  by (simp add: death_rate_of_def)

lemma death_rate_of_zero_zero:
  "total_deaths r = Fin 0 \<Longrightarrow> total_cases r = Fin 0 \<Longrightarrow> death_rate_of r = Fin 0"
  by (simp add: death_rate_of_def)

lemma death_rate_of_zero_cases:
  "total_deaths r = Fin d \<Longrightarrow> total_cases r = Fin 0 \<Longrightarrow>
     death_rate_of r = (if d = 0 then Fin 0 else if 0 < d then PInf else NInf)"
  by (simp add: death_rate_of_def)

section \<open>Facts: vaccination percentage\<close>

lemma percent_of_finite:
  "people_vaccinated r = Fin v \<Longrightarrow> population r = Fin p \<Longrightarrow> p \<noteq> 0 \<Longrightarrow>
     percent_of r = Fin (v / p * 100)"
  by (simp add: percent_of_def)

lemma percent_of_zero_population:
  "people_vaccinated r = Fin v \<Longrightarrow> 0 < v \<Longrightarrow> population r = Fin 0 \<Longrightarrow> percent_of r = PInf"
  by (simp add: percent_of_def)

lemma percent_of_isnull_iff:
  "isnull (percent_of r) \<longleftrightarrow> isnull (fdiv (people_vaccinated r) (population r))"
  by (simp add: percent_of_def fmul_Fin_pos_isnull_iff)

lemma in_add_death_rate:
  assumes "r \<in> set (add_death_rate rs)"
  obtains r0 where "r0 \<in> set rs" "r = with_death_rate (death_rate_of r0) r0"
  using assms by (auto simp: add_death_rate_map)

lemma in_add_percent_vaccinated:
  assumes "r \<in> set (add_percent_vaccinated rs)"
  obtains r0 where "r0 \<in> set rs" "r = with_percent (percent_of r0) r0"
  using assms by (auto simp: add_percent_vaccinated_map)

lemma percent_of_with_death_rate [simp]: "percent_of (with_death_rate v r) = percent_of r"
  by (simp add: percent_of_def)

lemmas derive_eval [frame_defs] =
  add_death_rate_map add_percent_vaccinated_map death_rate_of_def percent_of_def
  with_death_rate_def with_percent_def

section \<open>Properties\<close>

text \<open>
  C5 (functional).  In the table with death rates, a row with a finite number
  of deaths and a finite, non-zero number of cases has
  \<^verbatim>\<open>death_rate = total_deaths / total_cases\<close>, exactly.
\<close>

theorem death_rate_exact:
  assumes "r \<in> set (add_death_rate rs)"
    and "total_deaths r = Fin d" and "total_cases r = Fin c" and "c \<noteq> 0"
  shows "death_rate r = Fin (d / c)"
proof -
  from assms(1) obtain r0 where "r = with_death_rate (death_rate_of r0) r0"
    by (rule in_add_death_rate)
  with assms(2-4) show ?thesis by (simp add: death_rate_of_finite)
qed

theorem death_rate_exact_witness:
  "sample_derived ! 1 \<in> set (add_death_rate sample_clean) \<and>
   total_deaths (sample_derived ! 1) = Fin 220000 \<and>
   total_cases (sample_derived ! 1) = Fin 20000000 \<and>
   (20000000 :: real) \<noteq> 0 \<and>
   death_rate (sample_derived ! 1) = Fin 0.011"
proof -
  have h1: "sample_derived ! 1 \<in> set (add_death_rate sample_clean)"
    by (simp add: sample_derived_def add_death_rate_map sample_clean_def)
  have h2: "total_deaths (sample_derived ! 1) = Fin 220000"
    and h3: "total_cases (sample_derived ! 1) = Fin 20000000"
    by (simp_all add: sample_derived_def add_death_rate_map sample_clean_def)
  have h4: "(20000000 :: real) \<noteq> 0" by simp
  show ?thesis
    using h1 h2 h3 h4 death_rate_exact [OF h1 h2 h3 h4] by simp
qed

text \<open>
  C6 (functional).  A row with zero cases: the death rate is 0 when the
  deaths are zero too (\<open>0/0\<close> is NaN, which line 95 replaces by 0), but it is
  infinite when deaths are recorded without cases, because \<open>x/0\<close> is an
  infinity and \<^verbatim>\<open>fillna\<close> leaves infinities alone.
\<close>

theorem death_rate_zero_cases:
  assumes "r \<in> set (add_death_rate rs)"
    and "total_deaths r = Fin d" and "total_cases r = Fin 0"
  shows "death_rate r = (if d = 0 then Fin 0 else if 0 < d then PInf else NInf)"
proof -
  from assms(1) obtain r0 where "r = with_death_rate (death_rate_of r0) r0"
    by (rule in_add_death_rate)
  with assms(2,3) show ?thesis by (simp add: death_rate_of_zero_cases)
qed

theorem death_rate_zero_cases_witness:
  "hd (add_death_rate [no_cases_row]) \<in> set (add_death_rate [no_cases_row]) \<and>
   total_deaths (hd (add_death_rate [no_cases_row])) = Fin 1 \<and>
   total_cases (hd (add_death_rate [no_cases_row])) = Fin 0 \<and>
   death_rate (hd (add_death_rate [no_cases_row])) = PInf"
proof -
  let ?r = "hd (add_death_rate [no_cases_row])"
  have h1: "?r \<in> set (add_death_rate [no_cases_row])"
    by (simp add: add_death_rate_map)
  have h2: "total_deaths ?r = Fin 1" and h3: "total_cases ?r = Fin 0"
    by (simp_all add: add_death_rate_map no_cases_row_def)
  show ?thesis
    using h1 h2 h3 death_rate_zero_cases [OF h1 h2 h3] by simp
qed

text \<open>
  After lines 94--95 no death rate is missing, whatever
  the table holds.
\<close>

theorem death_rate_never_missing: "list_all (\<lambda>r. \<not> isnull (death_rate r)) (add_death_rate rs)"
  by (simp add: add_death_rate_map list_all_iff)

text \<open>
  C16 (bounds).  When a row's deaths are finite, non-negative and at most its
  cases, its death rate is a finite number between 0 and 1.
\<close>

theorem death_rate_unit_interval:
  assumes "r \<in> set (add_death_rate rs)"
    and "total_deaths r = Fin d" and "total_cases r = Fin c" and "0 \<le> d" and "d \<le> c"
  shows "\<exists>x. death_rate r = Fin x \<and> 0 \<le> x \<and> x \<le> 1"
proof -
  from assms(1) obtain r0 where r: "r = with_death_rate (death_rate_of r0) r0"
    by (rule in_add_death_rate)
  show ?thesis
  proof (cases "c = 0")
    case True
    with assms r show ?thesis by (simp add: death_rate_of_zero_cases)
  next
    case False
    with assms have "0 \<le> d / c" "d / c \<le> 1" by (simp_all add: divide_le_eq_1)
    with assms r False show ?thesis by (simp add: death_rate_of_finite)
  qed
qed

theorem death_rate_unit_interval_witness:
  "sample_derived ! 4 \<in> set (add_death_rate sample_clean) \<and>
   total_deaths (sample_derived ! 4) = Fin 575000 \<and>
   total_cases (sample_derived ! 4) = Fin 32000000 \<and>
   (0 :: real) \<le> 575000 \<and> (575000 :: real) \<le> 32000000 \<and>
   (\<exists>x. death_rate (sample_derived ! 4) = Fin x \<and> 0 \<le> x \<and> x \<le> 1)"
proof -
  have h1: "sample_derived ! 4 \<in> set (add_death_rate sample_clean)"
    by (simp add: sample_derived_def add_death_rate_map sample_clean_def)
  have h2: "total_deaths (sample_derived ! 4) = Fin 575000"
    and h3: "total_cases (sample_derived ! 4) = Fin 32000000"
    by (simp_all add: sample_derived_def add_death_rate_map sample_clean_def)
  have h4: "(0 :: real) \<le> 575000" and h5: "(575000 :: real) \<le> 32000000" by simp_all
  show ?thesis
    using h1 h2 h3 h4 h5 death_rate_unit_interval [OF h1 h2 h3 h4 h5] by simp
qed

text \<open>
  C17 (bounds).  When a row's vaccinated people are finite, non-negative and
  at most its population, and the population is positive, the vaccination
  percentage is a finite number between 0 and 100.
\<close>

theorem percent_vaccinated_range:
  assumes "r \<in> set (add_percent_vaccinated rs)"
    and "people_vaccinated r = Fin v" and "population r = Fin p"
    and "0 \<le> v" and "v \<le> p" and "0 < p"
  shows "\<exists>x. percent_vaccinated r = Fin x \<and> 0 \<le> x \<and> x \<le> 100"
proof -
  from assms(1) obtain r0 where r: "r = with_percent (percent_of r0) r0"
    by (rule in_add_percent_vaccinated)
  define t where "t = v / p"
  from assms have "0 \<le> t" "t \<le> 1" by (simp_all add: t_def divide_le_eq_1)
  then have "0 \<le> t * 100" "t * 100 \<le> 100" by simp_all
  moreover from assms r have "percent_vaccinated r = Fin (t * 100)"
    by (simp add: percent_of_finite t_def)
  ultimately show ?thesis by blast
qed

theorem percent_vaccinated_range_witness:
  "hd (add_percent_vaccinated sample_derived) \<in> set (add_percent_vaccinated sample_derived) \<and>
   people_vaccinated (hd (add_percent_vaccinated sample_derived)) = Fin 125000000 \<and>
   population (hd (add_percent_vaccinated sample_derived)) = Fin 1380000000 \<and>
   (0 :: real) \<le> 125000000 \<and> (125000000 :: real) \<le> 1380000000 \<and> (0 :: real) < 1380000000 \<and>
   (\<exists>x. percent_vaccinated (hd (add_percent_vaccinated sample_derived)) = Fin x \<and>
        0 \<le> x \<and> x \<le> 100)"
proof -
  let ?r = "hd (add_percent_vaccinated sample_derived)"
  have h1: "?r \<in> set (add_percent_vaccinated sample_derived)"
    by (simp add: sample_derived_def derive_eval sample_clean_def)
  have h2: "people_vaccinated ?r = Fin 125000000" and h3: "population ?r = Fin 1380000000"
    by (simp_all add: sample_derived_def add_death_rate_map add_percent_vaccinated_map
        sample_clean_def)
  have h4: "(0 :: real) \<le> 125000000" and h5: "(125000000 :: real) \<le> 1380000000"
    and h6: "(0 :: real) < 1380000000" by simp_all
  show ?thesis
    using h1 h2 h3 h4 h5 h6 percent_vaccinated_range [OF h1 h2 h3 h4 h5 h6] by simp
qed

text \<open>
  C18 (error).  The vaccination percentage is missing exactly when the
  vaccinated people or the population are missing, both are zero, or both are
  infinite.  A zero population alone does not make it missing: with one
  vaccinated person the percentage is infinite, as it is with any positive
  number of them (\<open>percent_of_zero_population\<close>).
\<close>

theorem percent_missing_iff:
  "(isnull (percent_of r) \<longleftrightarrow>
      isnull (people_vaccinated r) \<or> isnull (population r) \<or>
      (people_vaccinated r = Fin 0 \<and> population r = Fin 0) \<or>
      (\<not> is_finite (people_vaccinated r) \<and> \<not> is_finite (population r))) \<and>
   percent_of (r\<lparr>people_vaccinated := Fin 1, population := Fin 0\<rparr>) = PInf"
  by (simp add: percent_of_isnull_iff fdiv_isnull_iff) (simp add: percent_of_def)

text \<open>
  The script computes column by column: each statement reads whole columns
  and assigns a whole column.  Because every one of these statements
  combines only cells of the same row, the three stages that fill and derive
  are maps of a function on single rows: the four \<^verbatim>\<open>fillna(0)\<close> of lines
  69--72, the death rate of lines 94--95 and the percentage of line 166.
  The lemmas above are proved through this view.
\<close>

lemma stages_row_by_row:
  "fill_counts rs = map fill_row rs \<and>
   add_death_rate rs = map (\<lambda>r. with_death_rate (death_rate_of r) r) rs \<and>
   add_percent_vaccinated ds = map (\<lambda>r. with_percent (percent_of r) r) ds"
  by (simp add: fill_counts_map add_death_rate_map add_percent_vaccinated_map)

end
