(* ===== verification/Aggregator.thy ===== *)
theory Aggregator
  imports Deriver
begin

text \<open>
  The two summary tables: \<^verbatim>\<open>latest_data\<close> (lines 97--103) and
  \<^verbatim>\<open>latest_vaccination\<close> (line 167).

  Both select the rows whose date equals the maximum of the date column,
  group them by location and take the \<^verbatim>\<open>last\<close> entry of each aggregated
  column.  In pandas the groups come out in ascending key order, rows with
  a missing key belong to no group, and \<^verbatim>\<open>last\<close> is the last entry of the
  group that is not missing (NaN when there is none).  A comparison with a
  missing date is false, so an empty or undated table has no latest row.

  The fields of a summary row carry the prefix \<open>latest_\<close> (\<open>vacc_\<close> for the
  vaccination table) to keep them apart from the columns of the full
  table, which have the same names in the script.
\<close>

section \<open>The rows of the latest date\<close>

definition latest_rows :: "('d::linorder, 'x) row_scheme list \<Rightarrow> ('d, 'x) row_scheme list" where
  "latest_rows rs =
     (case date_max (map date rs) of
        None \<Rightarrow> []
      | Some m \<Rightarrow> filter (\<lambda>r. date r = Some m) rs)"

section \<open>Aggregation\<close>

definition agg_last :: "('r \<Rightarrow> fval) \<Rightarrow> 'r list \<Rightarrow> fval" where
  "agg_last col g = last_valid (map col g)"

record summary =
  latest_location :: label
  latest_total_cases :: fval
  latest_total_deaths :: fval
  latest_total_vaccinations :: fval
  latest_death_rate :: fval

definition summarise :: "('d, 'x) drow_scheme list \<Rightarrow> label \<Rightarrow> summary" where
  "summarise rs k =
     (let g = group_of location k rs
      in \<lparr>latest_location = k,
          latest_total_cases = agg_last total_cases g,
          latest_total_deaths = agg_last total_deaths g,
          latest_total_vaccinations = agg_last total_vaccinations g,
          latest_death_rate = agg_last death_rate g\<rparr>)"

definition latest_data :: "('d::linorder, 'x) drow_scheme list \<Rightarrow> summary list" where
  "latest_data rs =
     (let latest = latest_rows rs
      in map (summarise latest) (group_keys (map location latest)))"

record vacc_summary =
  vacc_location :: label
  vacc_percent_vaccinated :: fval

definition latest_vaccination :: "('d::linorder, 'x) vrow_scheme list \<Rightarrow> vacc_summary list" where
  "latest_vaccination rs =
     (let latest = latest_rows rs
      in map (\<lambda>k. \<lparr>vacc_location = k,
                    vacc_percent_vaccinated =
                      agg_last percent_vaccinated (group_of location k latest)\<rparr>)
           (group_keys (map location latest)))"

section \<open>Facts: the latest rows\<close>

lemma latest_rows_Nil [simp]: "latest_rows [] = []"
  by (simp add: latest_rows_def)

lemma latest_rows_subset: "set (latest_rows rs) \<subseteq> set rs"
  by (auto simp: latest_rows_def split: option.splits)

lemma in_latest_rows_iff:
  "r \<in> set (latest_rows rs) \<longleftrightarrow> r \<in> set rs \<and> date r \<noteq> None \<and> date_max (map date rs) = date r"
  by (auto simp: latest_rows_def split: option.splits)

lemma latest_rows_date:
  "r \<in> set (latest_rows rs) \<Longrightarrow> r' \<in> set rs \<Longrightarrow> date r' = Some d \<Longrightarrow> \<exists>m. date r = Some m \<and> d \<le> m"
proof -
  assume r: "r \<in> set (latest_rows rs)" and r': "r' \<in> set rs" "date r' = Some d"
  from r have "date r \<noteq> None" "date_max (map date rs) = date r"
    by (auto simp: in_latest_rows_iff)
  then obtain m where m: "date r = Some m" "date_max (map date rs) = Some m"
    by (cases "date r") auto
  from r' have "Some d \<in> set (map date rs)" by force
  with m(2) have "d \<le> m" by (rule date_max_ge)
  with m(1) show ?thesis by simp
qed

lemma latest_rows_same_date:
  "r \<in> set (latest_rows rs) \<Longrightarrow> r' \<in> set (latest_rows rs) \<Longrightarrow> date r = date r'"
  by (simp add: in_latest_rows_iff)

text \<open>A table with at least one dated row has a latest row.\<close>

lemma latest_rows_nonempty_iff: "latest_rows rs \<noteq> [] \<longleftrightarrow> (\<exists>r \<in> set rs. date r \<noteq> None)"
proof
  assume "latest_rows rs \<noteq> []"
  then obtain r where "r \<in> set (latest_rows rs)" by (cases "latest_rows rs") auto
  then show "\<exists>r \<in> set rs. date r \<noteq> None" by (auto simp: in_latest_rows_iff)
next
  assume "\<exists>r \<in> set rs. date r \<noteq> None"
  then obtain m where m: "date_max (map date rs) = Some m"
    by (cases "date_max (map date rs)") (auto simp: date_max_None_iff)
  then have "Some m \<in> set (map date rs)" by (rule date_max_in)
  then obtain r where "r \<in> set rs" "date r = Some m" by auto
  with m have "r \<in> set (latest_rows rs)" by (simp add: in_latest_rows_iff)
  then show "latest_rows rs \<noteq> []" by auto
qed

lemma latest_rows_idem [simp]: "latest_rows (latest_rows rs) = latest_rows rs"
proof (cases "date_max (map date rs)")
  case None
  then show ?thesis by (simp add: latest_rows_def)
next
  case (Some m)
  let ?L = "filter (\<lambda>r. date r = Some m) rs"
  have L: "latest_rows rs = ?L" using Some by (simp add: latest_rows_def)
  show ?thesis
  proof (cases "?L = []")
    case True
    with L show ?thesis by simp
  next
    case False
    then have "date_max (map date ?L) = Some m"
      by (auto simp: date_max_Some_iff filter_empty_conv)
    with L show ?thesis by (simp add: latest_rows_def)
  qed
qed

lemma latest_rows_cong:
  assumes "map date rs' = map date rs"
  shows "map date (latest_rows rs') = map date (latest_rows rs)"
proof -
  have "map date (filter (\<lambda>r. date r = Some m) xs) = filter (\<lambda>d. d = Some m) (map date xs)"
    for m and xs :: "('a, 'c) row_scheme list"
    by (induction xs) auto
  moreover have "map date (filter (\<lambda>r. date r = Some m) xs) = filter (\<lambda>d. d = Some m) (map date xs)"
    for m and xs :: "('a, 'b) row_scheme list"
    by (induction xs) auto
  ultimately show ?thesis
    using assms by (simp add: latest_rows_def split: option.splits)
qed

section \<open>Facts: aggregation\<close>

lemma agg_last_Nil [simp]: "agg_last col [] = NaN"
  by (simp add: agg_last_def last_valid_def)

lemma agg_last_all_valid:
  "g \<noteq> [] \<Longrightarrow> (\<And>r. r \<in> set g \<Longrightarrow> \<not> isnull (col r)) \<Longrightarrow> agg_last col g = col (last g)"
  by (simp add: agg_last_def last_valid_def last_valid_by_def filter_id_conv last_map)

lemma agg_last_in: "\<not> isnull (agg_last col g) \<Longrightarrow> agg_last col g \<in> col ` set g"
  using last_valid_by_in [of isnull NaN "map col g"]
  by (auto simp: agg_last_def last_valid_def)

lemma agg_last_isnull_iff: "isnull (agg_last col g) \<longleftrightarrow> (\<forall>r \<in> set g. isnull (col r))"
proof -
  have "valid_in isnull (map col g) \<noteq> [] \<Longrightarrow> \<not> isnull (last (valid_in isnull (map col g)))"
    using last_in_set [of "valid_in isnull (map col g)"] by auto
  then show ?thesis
    by (auto simp: agg_last_def last_valid_def last_valid_by_def filter_empty_conv)
qed

lemma agg_last_settled:
  assumes "settled isnull (map col g)" and "g \<noteq> []"
  shows "agg_last col g = col (last g)"
  using last_valid_by_settled [OF assms(1), of NaN] assms(2)
  by (auto simp: agg_last_def last_valid_def last_map isnull_iff)

lemma summarise_simps [simp]:
  "latest_location (summarise rs k) = k"
  "latest_total_cases (summarise rs k) = agg_last total_cases (group_of location k rs)"
  "latest_total_deaths (summarise rs k) = agg_last total_deaths (group_of location k rs)"
  "latest_total_vaccinations (summarise rs k) = agg_last total_vaccinations (group_of location k rs)"
  "latest_death_rate (summarise rs k) = agg_last death_rate (group_of location k rs)"
  by (simp_all add: summarise_def Let_def)

section \<open>Facts: the summary tables\<close>

lemma latest_data_locations:
  "map latest_location (latest_data rs) = group_keys (map location (latest_rows rs))"
  by (simp add: latest_data_def Let_def comp_def)

lemma latest_vaccination_locations:
  "map vacc_location (latest_vaccination rs) = group_keys (map location (latest_rows rs))"
  by (simp add: latest_vaccination_def Let_def comp_def)

lemma in_latest_data_iff:
  "s \<in> set (latest_data rs) \<longleftrightarrow>
     (\<exists>r \<in> set (latest_rows rs). location r = Some (latest_location s)) \<and>
     s = summarise (latest_rows rs) (latest_location s)"
  by (auto simp: latest_data_def Let_def set_group_keys image_iff) (metis summarise_simps(1))+

section \<open>Properties\<close>

text \<open>
  C7 (functional).  The summary has a row for exactly those locations that
  have a row on the latest date of the table: a dated row such that no row
  of the table, of any location, has a later date.  A location whose rows
  are all older is absent, silently.
\<close>

theorem latest_data_locations_set:
  "set (map latest_location (latest_data rs)) =
     {l. \<exists>r \<in> set rs. \<exists>m. location r = Some l \<and> date r = Some m \<and>
           (\<forall>r' \<in> set rs. \<forall>d. date r' = Some d \<longrightarrow> d \<le> m)}"
proof -
  have max: "date_max (map date rs) = Some m \<longleftrightarrow>
      (\<exists>r \<in> set rs. date r = Some m) \<and> (\<forall>r' \<in> set rs. \<forall>d. date r' = Some d \<longrightarrow> d \<le> m)" for m
    unfolding date_max_Some_iff by (simp add: image_iff) metis
  have rows: "r \<in> set (latest_rows rs) \<longleftrightarrow>
      r \<in> set rs \<and> (\<exists>m. date r = Some m \<and> (\<forall>r' \<in> set rs. \<forall>d. date r' = Some d \<longrightarrow> d \<le> m))"
    for r :: "('a, 'b) drow_scheme"
    by (cases "date r") (auto simp: in_latest_rows_iff max)
  have "set (map latest_location (latest_data rs)) =
      {l. \<exists>r \<in> set (latest_rows rs). location r = Some l}"
    by (force simp: latest_data_locations set_group_keys image_iff)
  also have "\<dots> = {l. \<exists>r \<in> set rs. \<exists>m. location r = Some l \<and> date r = Some m \<and>
      (\<forall>r' \<in> set rs. \<forall>d. date r' = Some d \<longrightarrow> d \<le> m)}"
    by (auto simp: rows)
  finally show ?thesis .
qed

theorem latest_data_locations_set_witness:
  "''Kenya'' \<in> set (map latest_location (latest_data sample_derived)) \<and>
   ''United States'' \<notin> set (map latest_location (latest_data sample_derived))"
  unfolding latest_data_locations_set
  by (simp add: sample_derived_def sample_clean_def dated_row_def derive_eval)

text \<open>
  The summary lists each location once, in ascending order of the location
  names: pandas sorts the keys of a group-by.
\<close>

lemma latest_data_sorted_distinct:
  "sorted (map latest_location (latest_data rs)) \<and> distinct (map latest_location (latest_data rs))"
  by (simp add: latest_data_locations frame_simps)

end
