(* ===== verification/Pipeline.thy ===== *)
theory Pipeline
  imports Aggregator
begin

text \<open>
  The data flow of the script from the loaded table to the two summary
  tables, without the printing and plotting in between: cleaning (lines
  59--74), the death rate (lines 94--95), \<^verbatim>\<open>latest_data\<close> (lines 98--103),
  the vaccination percentage (line 166) and \<^verbatim>\<open>latest_vaccination\<close> (line
  167).  The only step that can raise on a table with the expected columns is
  the date conversion, so the result is an error or the pair of summaries.
\<close>

definition summaries ::
  "(string \<Rightarrow> ('d::linorder) option) \<Rightarrow> (string, 'x) row_scheme list \<Rightarrow>
     py_error + summary list \<times> vacc_summary list"
where
  "summaries parse raw =
     (case clean parse raw of
        Inl e \<Rightarrow> Inl e
      | Inr rs \<Rightarrow>
          (let df = add_death_rate rs;
               latest = latest_data df;
               df' = add_percent_vaccinated df
           in Inr (latest, latest_vaccination df')))"

lemmas aggregate_eval [frame_defs] =
  latest_data_def latest_vaccination_def latest_rows_def group_keys_def group_of_def
  summarise_def agg_last_def last_valid_def last_valid_by_def List.map_filter_def

end
