(* ===== verification/Describe.thy ===== *)
theory Describe
  imports Frame
begin

text \<open>
  The descriptive statistics of line 91,
  \<^verbatim>\<open>df[key_columns[2:]].describe()\<close>.

  For a numeric column pandas reports eight numbers, all computed from the
  entries that are not missing: their count, mean, standard deviation
  (with \<open>n - 1\<close> in the denominator), minimum, the quantiles at 25\%, 50\%
  and 75\%, and the maximum.  A quantile is read off the sorted column at
  the position \<open>q (n - 1)\<close>, interpolating linearly between the two
  neighbours when the position is not whole.  Of an empty column the count
  is 0 and everything else NaN; of a column with one entry the standard
  deviation is NaN.

  The definitions work on cells, so a column that holds an infinity gets
  the value the formula gives cell by cell (NaN as soon as \<open>\<infinity> - \<infinity>\<close> or
  \<open>0 \<cdot> \<infinity>\<close> occurs; for the interpolation the formula is that of numpy
  1.22 and later).  The theorems are about columns whose entries are
  finite or missing, which is what the data set has; there the formulas
  of all versions agree.
\<close>

section \<open>The statistics of a column\<close>

definition column_count :: "fval column \<Rightarrow> nat" where
  "column_count xs = length (valid_in isnull xs)"

definition column_mean :: "fval column \<Rightarrow> fval" where
  "column_mean xs =
     (let v = valid_in isnull xs
      in if v = [] then NaN else fdiv (sum_list v) (Fin (real (length v))))"

definition squared_deviations :: "fval column \<Rightarrow> fval column" where
  "squared_deviations xs =
     map (\<lambda>x. let d = fsub (column_mean xs) x in fmul d d) (valid_in isnull xs)"

definition column_std :: "fval column \<Rightarrow> fval" where
  "column_std xs =
     (let n = column_count xs
      in if n \<le> 1 then NaN
         else fsqrt (fdiv (sum_list (squared_deviations xs)) (Fin (real (n - 1)))))"

definition column_min :: "fval column \<Rightarrow> fval" where
  "column_min xs = (case valid_in isnull xs of [] \<Rightarrow> NaN | v # vs \<Rightarrow> fold min vs v)"

definition column_max :: "fval column \<Rightarrow> fval" where
  "column_max xs = (case valid_in isnull xs of [] \<Rightarrow> NaN | v # vs \<Rightarrow> fold max vs v)"

text \<open>
  Quantiles, as \<^verbatim>\<open>np.percentile\<close> computes them with linear interpolation:
  the virtual index \<open>q (n - 1)\<close> into the sorted column, the entries before
  and after it (the one after clipped to the last), and the fraction
  \<open>gamma\<close> between them.  The interpolation has two formulas, one from
  each end, chosen by the fraction; on finite cells they agree.
\<close>

definition lerp :: "fval \<Rightarrow> fval \<Rightarrow> real \<Rightarrow> fval" where
  "lerp a b t =
     (if t < 1 / 2 then fadd a (fmul (fsub b a) (Fin t))
      else fsub b (fmul (fsub b a) (Fin (1 - t))))"

definition virtual_index :: "real \<Rightarrow> nat \<Rightarrow> real" where
  "virtual_index q n = q * real (n - 1)"

definition previous_index :: "real \<Rightarrow> nat \<Rightarrow> nat" where
  "previous_index q n = nat \<lfloor>virtual_index q n\<rfloor>"

definition next_index :: "real \<Rightarrow> nat \<Rightarrow> nat" where
  "next_index q n = min (previous_index q n + 1) (n - 1)"

definition gamma :: "real \<Rightarrow> nat \<Rightarrow> real" where
  "gamma q n = virtual_index q n - real (previous_index q n)"

definition quantile :: "real \<Rightarrow> fval column \<Rightarrow> fval" where
  "quantile q xs =
     (let v = sort (valid_in isnull xs); n = length v
      in if n = 0 then NaN
         else lerp (v ! previous_index q n) (v ! next_index q n) (gamma q n))"

section \<open>The table of statistics\<close>

record stats =
  stat_count :: nat
  stat_mean :: fval
  stat_std :: fval
  stat_min :: fval
  stat_q25 :: fval
  stat_q50 :: fval
  stat_q75 :: fval
  stat_max :: fval

definition describe_column :: "fval column \<Rightarrow> stats" where
  "describe_column xs =
     \<lparr>stat_count = column_count xs,
      stat_mean = column_mean xs,
      stat_std = column_std xs,
      stat_min = column_min xs,
      stat_q25 = quantile (1 / 4) xs,
      stat_q50 = quantile (1 / 2) xs,
      stat_q75 = quantile (3 / 4) xs,
      stat_max = column_max xs\<rparr>"

definition describe :: "(label \<times> fval column) list \<Rightarrow> (label \<times> stats) list" where
  "describe cols = map (\<lambda>(l, xs). (l, describe_column xs)) cols"

text \<open>A column of numbers: every entry is finite or missing.\<close>

definition numeric :: "fval column \<Rightarrow> bool" where
  "numeric xs \<longleftrightarrow> list_all is_finite (valid_in isnull xs)"

text \<open>The numbers of a column, for stating what the statistics are.\<close>

definition reals :: "fval column \<Rightarrow> real list" where
  "reals xs = map the_fin (valid_in isnull xs)"

text \<open>
  The table of a column with no entry present, and what the theorems say
  of the table of any other numeric column.
\<close>

definition empty_stats :: stats where
  "empty_stats =
     \<lparr>stat_count = 0, stat_mean = NaN, stat_std = NaN, stat_min = NaN, stat_q25 = NaN,
      stat_q50 = NaN, stat_q75 = NaN, stat_max = NaN\<rparr>"

definition ordered_stats :: "stats \<Rightarrow> bool" where
  "ordered_stats s \<longleftrightarrow>
     0 < stat_count s \<and>
     stat_min s \<le> stat_q25 s \<and> stat_q25 s \<le> stat_q50 s \<and> stat_q50 s \<le> stat_q75 s \<and>
     stat_q75 s \<le> stat_max s \<and> stat_min s \<le> stat_mean s \<and> stat_mean s \<le> stat_max s \<and>
     is_finite (stat_min s) \<and> is_finite (stat_max s) \<and>
     (if stat_count s = 1 then stat_std s = NaN
      else is_finite (stat_std s) \<and> Fin 0 \<le> stat_std s)"

text \<open>A column with a gap, for the examples: 1, missing, 4, 2.\<close>

definition sample_column :: "fval column" where
  "sample_column = [Fin 1, NaN, Fin 4, Fin 2]"

section \<open>Facts: count\<close>

lemma describe_column_simps [simp]:
  "stat_count (describe_column xs) = column_count xs"
  "stat_mean (describe_column xs) = column_mean xs"
  "stat_std (describe_column xs) = column_std xs"
  "stat_min (describe_column xs) = column_min xs"
  "stat_q25 (describe_column xs) = quantile (1 / 4) xs"
  "stat_q50 (describe_column xs) = quantile (1 / 2) xs"
  "stat_q75 (describe_column xs) = quantile (3 / 4) xs"
  "stat_max (describe_column xs) = column_max xs"
  by (simp_all add: describe_column_def)

lemma map_fst_describe [simp]: "map fst (describe cols) = map fst cols"
  by (simp add: describe_def split_def comp_def)

lemma length_describe [simp]: "length (describe cols) = length cols"
  by (simp add: describe_def)

lemma column_count_plus_nulls: "column_count xs + isnull_sum isnull xs = length xs"
  using sum_length_filter_compl [of "\<lambda>x. \<not> isnull x" xs]
  by (simp add: column_count_def isnull_sum_def)

lemma column_count_all_valid:
  "(\<And>x. x \<in> set xs \<Longrightarrow> \<not> isnull x) \<Longrightarrow> column_count xs = length xs"
  by (simp add: column_count_def)

lemma column_count_zero_iff: "column_count xs = 0 \<longleftrightarrow> (\<forall>x \<in> set xs. isnull x)"
  by (auto simp: column_count_def filter_empty_conv)

section \<open>Facts: the sorted column\<close>

lemma sort_Nil_iff [simp]: "sort xs = [] \<longleftrightarrow> xs = []"
  using length_sort [of "\<lambda>x. x" xs] by (simp only: length_0_conv [symmetric])

lemma hd_sort_Min: "xs \<noteq> [] \<Longrightarrow> hd (sort xs) = Min (set xs)"
proof -
  assume ne: "xs \<noteq> []"
  then obtain y ys where s: "sort xs = y # ys" by (cases "sort xs") auto
  have "sorted (y # ys)" using sorted_sort [of xs] by (simp add: s)
  then have "Min (set (y # ys)) = y" by (intro Min_eqI) auto
  moreover have "set (y # ys) = set xs" using set_sort [of "\<lambda>x. x" xs] by (simp add: s)
  ultimately show ?thesis by (simp add: s)
qed

lemma last_sort_Max: "xs \<noteq> [] \<Longrightarrow> last (sort xs) = Max (set xs)"
proof -
  assume ne: "xs \<noteq> []"
  let ?s = "sort xs"
  have "Max (set ?s) = last ?s"
  proof (rule Max_eqI)
    show "finite (set ?s)" by simp
    show "last ?s \<in> set ?s" using ne by (intro last_in_set) simp
    fix y assume "y \<in> set ?s"
    then obtain i where i: "i < length ?s" "?s ! i = y"
      unfolding in_set_conv_nth by blast
    have "?s ! i \<le> ?s ! (length ?s - 1)"
      using i(1) by (intro sorted_nth_mono) auto
    with i(2) ne show "y \<le> last ?s" by (simp add: last_conv_nth)
  qed
  then show ?thesis by simp
qed

lemma numeric_sorted:
  assumes "numeric xs" and "i < column_count xs"
  shows "is_finite (sort (valid_in isnull xs) ! i)"
proof -
  have "sort (valid_in isnull xs) ! i \<in> set (sort (valid_in isnull xs))"
    using assms(2) by (intro nth_mem) (simp add: column_count_def)
  then have "sort (valid_in isnull xs) ! i \<in> set (valid_in isnull xs)"
    by (simp only: set_sort)
  with assms(1) show ?thesis by (simp add: numeric_def list_all_iff)
qed

lemma column_min_sorted:
  assumes "0 < column_count xs"
  shows "column_min xs = sort (valid_in isnull xs) ! 0"
proof -
  from assms obtain v vs where v: "valid_in isnull xs = v # vs"
    by (cases "valid_in isnull xs") (auto simp: column_count_def)
  have "column_min xs = Min (set (v # vs))"
    by (simp only: column_min_def v list.case Min.set_eq_fold)
  also have "\<dots> = hd (sort (v # vs))" by (rule hd_sort_Min [symmetric]) simp
  also have "\<dots> = sort (v # vs) ! 0" by (rule hd_conv_nth) (simp del: sort_key_simps)
  finally show ?thesis by (simp only: v)
qed

lemma column_max_sorted:
  assumes "0 < column_count xs"
  shows "column_max xs = sort (valid_in isnull xs) ! (column_count xs - 1)"
proof -
  from assms obtain v vs where v: "valid_in isnull xs = v # vs"
    by (cases "valid_in isnull xs") (auto simp: column_count_def)
  have "column_max xs = Max (set (v # vs))"
    by (simp only: column_max_def v list.case Max.set_eq_fold)
  also have "\<dots> = last (sort (v # vs))" by (rule last_sort_Max [symmetric]) simp
  also have "\<dots> = sort (v # vs) ! (length (sort (v # vs)) - 1)"
    by (rule last_conv_nth) (simp del: sort_key_simps)
  finally show ?thesis by (simp add: v column_count_def del: sort_key_simps)
qed

lemma column_ends_finite:
  assumes "numeric xs" and "0 < column_count xs"
  shows "is_finite (column_min xs)" "is_finite (column_max xs)"
  using assms by (simp_all add: column_min_sorted column_max_sorted numeric_sorted)

section \<open>Facts: the indices of a quantile\<close>

lemma virtual_index_bounds:
  assumes "0 \<le> q" "q \<le> 1"
  shows "0 \<le> virtual_index q n" "virtual_index q n \<le> real (n - 1)"
  using assms by (simp_all add: virtual_index_def mult_left_le_one_le)

lemma virtual_index_mono: "q \<le> q' \<Longrightarrow> virtual_index q n \<le> virtual_index q' n"
  by (simp add: virtual_index_def mult_right_mono)

lemma previous_index_le:
  assumes "0 \<le> q" "q \<le> 1"
  shows "previous_index q n \<le> n - 1"
proof -
  have "\<lfloor>virtual_index q n\<rfloor> \<le> int (n - 1)"
    using virtual_index_bounds(2) [OF assms, of n] by (simp add: floor_le_iff)
  then show ?thesis by (simp add: previous_index_def)
qed

lemma previous_index_mono: "q \<le> q' \<Longrightarrow> previous_index q n \<le> previous_index q' n"
  unfolding previous_index_def by (intro nat_mono floor_mono virtual_index_mono)

lemma previous_le_next: "previous_index q n \<le> n - 1 \<Longrightarrow> previous_index q n \<le> next_index q n"
  by (simp add: next_index_def)

lemma next_index_le [simp]: "next_index q n \<le> n - 1"
  by (simp add: next_index_def)

lemma gamma_bounds:
  assumes "0 \<le> q"
  shows "0 \<le> gamma q n" "gamma q n < 1"
proof -
  have "0 \<le> virtual_index q n" using assms by (simp add: virtual_index_def)
  then have "real (previous_index q n) = of_int \<lfloor>virtual_index q n\<rfloor>"
    by (simp add: previous_index_def)
  then show "0 \<le> gamma q n" "gamma q n < 1"
    by (simp_all add: gamma_def) linarith+
qed

lemma quantile_unfold:
  "0 < column_count xs \<Longrightarrow>
     quantile q xs =
       lerp (sort (valid_in isnull xs) ! previous_index q (column_count xs))
            (sort (valid_in isnull xs) ! next_index q (column_count xs))
            (gamma q (column_count xs))"
  by (simp add: quantile_def column_count_def Let_def)

lemma quantile_empty [simp]: "column_count xs = 0 \<Longrightarrow> quantile q xs = NaN"
  by (simp add: quantile_def column_count_def)

section \<open>Facts: interpolation\<close>

lemma lerp_Fin [simp]: "lerp (Fin a) (Fin b) t = Fin (a + (b - a) * t)"
  by (simp add: lerp_def fsub_Fin algebra_simps)

lemma lerp_between:
  assumes "a \<le> b" "0 \<le> t" "t \<le> 1"
  shows "Fin a \<le> lerp (Fin a) (Fin b) t" "lerp (Fin a) (Fin b) t \<le> Fin b"
proof -
  have "0 \<le> (b - a) * t" using assms by simp
  moreover have "(b - a) * t \<le> (b - a) * 1" using assms by (intro mult_left_mono) simp_all
  ultimately show "Fin a \<le> lerp (Fin a) (Fin b) t" "lerp (Fin a) (Fin b) t \<le> Fin b"
    by simp_all
qed

section \<open>Facts: quantiles of a numeric column\<close>

lemma sorted_valid_nth_mono:
  "i \<le> j \<Longrightarrow> j < column_count xs \<Longrightarrow>
     sort (valid_in isnull xs) ! i \<le> sort (valid_in isnull xs) ! j"
  by (intro sorted_nth_mono) (simp_all add: column_count_def)

lemma quantile_indices:
  assumes "0 < column_count xs" "0 \<le> q" "q \<le> 1"
  shows "previous_index q (column_count xs) < column_count xs"
    and "next_index q (column_count xs) < column_count xs"
    and "previous_index q (column_count xs) \<le> next_index q (column_count xs)"
  using previous_index_le [OF assms(2,3), of "column_count xs"] assms(1)
    next_index_le [of q "column_count xs"]
  by (simp_all add: previous_le_next)

lemma quantile_ends:
  assumes "numeric xs" "0 < column_count xs" "0 \<le> q" "q \<le> 1"
  obtains a b where "sort (valid_in isnull xs) ! previous_index q (column_count xs) = Fin a"
    and "sort (valid_in isnull xs) ! next_index q (column_count xs) = Fin b"
    and "a \<le> b"
proof -
  note i = quantile_indices [OF assms(2-4)]
  from numeric_sorted [OF assms(1) i(1)] obtain a
    where a: "sort (valid_in isnull xs) ! previous_index q (column_count xs) = Fin a"
    by (auto simp: is_finite_iff)
  from numeric_sorted [OF assms(1) i(2)] obtain b
    where b: "sort (valid_in isnull xs) ! next_index q (column_count xs) = Fin b"
    by (auto simp: is_finite_iff)
  from sorted_valid_nth_mono [OF i(3) i(2)] have "a \<le> b" by (simp add: a b)
  with a b that show thesis by blast
qed

lemma quantile_between:
  assumes "numeric xs" "0 < column_count xs" "0 \<le> q" "q \<le> 1"
  shows "sort (valid_in isnull xs) ! previous_index q (column_count xs) \<le> quantile q xs"
    and "quantile q xs \<le> sort (valid_in isnull xs) ! next_index q (column_count xs)"
proof -
  from assms obtain a b
    where ab: "sort (valid_in isnull xs) ! previous_index q (column_count xs) = Fin a"
      "sort (valid_in isnull xs) ! next_index q (column_count xs) = Fin b" "a \<le> b"
    by (rule quantile_ends)
  from gamma_bounds [OF assms(3), of "column_count xs"]
  have g: "0 \<le> gamma q (column_count xs)" "gamma q (column_count xs) \<le> 1" by simp_all
  show "sort (valid_in isnull xs) ! previous_index q (column_count xs) \<le> quantile q xs"
    using lerp_between(1) [OF ab(3) g] by (simp only: quantile_unfold [OF assms(2)] ab)
  show "quantile q xs \<le> sort (valid_in isnull xs) ! next_index q (column_count xs)"
    using lerp_between(2) [OF ab(3) g] by (simp only: quantile_unfold [OF assms(2)] ab)
qed

lemma quantile_finite:
  assumes "numeric xs" "0 < column_count xs" "0 \<le> q" "q \<le> 1"
  shows "is_finite (quantile q xs)"
proof -
  from assms obtain a b
    where "sort (valid_in isnull xs) ! previous_index q (column_count xs) = Fin a"
      "sort (valid_in isnull xs) ! next_index q (column_count xs) = Fin b" "a \<le> b"
    by (rule quantile_ends)
  then show ?thesis by (simp add: quantile_unfold [OF assms(2)])
qed

lemma quantile_mono:
  assumes "numeric xs" "0 < column_count xs" "0 \<le> q" "q \<le> q'" "q' \<le> 1"
  shows "quantile q xs \<le> quantile q' xs"
proof (cases "previous_index q (column_count xs) = previous_index q' (column_count xs)")
  case True
  let ?n = "column_count xs"
  have q: "q \<le> 1" using assms by simp
  from assms(1-3) q obtain a b
    where ab: "sort (valid_in isnull xs) ! previous_index q ?n = Fin a"
      "sort (valid_in isnull xs) ! next_index q ?n = Fin b" "a \<le> b"
    by (rule quantile_ends)
  have "gamma q ?n \<le> gamma q' ?n"
    using virtual_index_mono [OF assms(4), of ?n] by (simp add: gamma_def True)
  with ab(3) have "(b - a) * gamma q ?n \<le> (b - a) * gamma q' ?n"
    by (intro mult_left_mono) simp_all
  moreover have "next_index q' ?n = next_index q ?n" by (simp add: next_index_def True)
  ultimately show ?thesis
    using ab by (simp add: quantile_unfold [OF assms(2)] True [symmetric])
next
  case False
  let ?n = "column_count xs"
  have q: "q \<le> 1" "0 \<le> q'" using assms by simp_all
  have "previous_index q ?n < previous_index q' ?n"
    using previous_index_mono [OF assms(4), of ?n] False by simp
  then have "next_index q ?n \<le> previous_index q' ?n" by (simp add: next_index_def)
  then have "sort (valid_in isnull xs) ! next_index q ?n
      \<le> sort (valid_in isnull xs) ! previous_index q' ?n"
    using quantile_indices(1) [OF assms(2) q(2) assms(5)] by (rule sorted_valid_nth_mono)
  with quantile_between(2) [OF assms(1,2,3) q(1)] quantile_between(1) [OF assms(1,2) q(2) assms(5)]
  show ?thesis by (meson order_trans)
qed

lemma column_min_le_quantile:
  assumes "numeric xs" "0 < column_count xs" "0 \<le> q" "q \<le> 1"
  shows "column_min xs \<le> quantile q xs"
proof -
  have "sort (valid_in isnull xs) ! 0
      \<le> sort (valid_in isnull xs) ! previous_index q (column_count xs)"
    using quantile_indices(1) [OF assms(2-4)] by (intro sorted_valid_nth_mono) simp_all
  with quantile_between(1) [OF assms] show ?thesis
    by (simp add: column_min_sorted [OF assms(2)])
qed

lemma quantile_le_column_max:
  assumes "numeric xs" "0 < column_count xs" "0 \<le> q" "q \<le> 1"
  shows "quantile q xs \<le> column_max xs"
proof -
  have "sort (valid_in isnull xs) ! next_index q (column_count xs)
      \<le> sort (valid_in isnull xs) ! (column_count xs - 1)"
    using assms(2) next_index_le [of q "column_count xs"] by (intro sorted_valid_nth_mono) simp_all
  with quantile_between(2) [OF assms] show ?thesis
    by (simp add: column_max_sorted [OF assms(2)])
qed

lemma previous_index_zero [simp]: "previous_index 0 n = 0"
  by (simp add: previous_index_def virtual_index_def)

lemma previous_index_one [simp]: "previous_index 1 n = n - 1"
  by (simp add: previous_index_def virtual_index_def del: of_nat_diff)

lemma gamma_zero [simp]: "gamma 0 n = 0" "gamma 1 n = 0"
  by (simp_all add: gamma_def virtual_index_def del: of_nat_diff)

lemma quantile_zero:
  assumes "numeric xs" "0 < column_count xs"
  shows "quantile 0 xs = column_min xs"
proof -
  from assms obtain a b
    where "sort (valid_in isnull xs) ! previous_index 0 (column_count xs) = Fin a"
      "sort (valid_in isnull xs) ! next_index 0 (column_count xs) = Fin b"
    by (rule quantile_ends [where q = 0]) simp_all
  then show ?thesis
    by (simp add: quantile_unfold [OF assms(2)] column_min_sorted [OF assms(2)])
qed

lemma quantile_one:
  assumes "numeric xs" "0 < column_count xs"
  shows "quantile 1 xs = column_max xs"
proof -
  from assms obtain a b
    where "sort (valid_in isnull xs) ! previous_index 1 (column_count xs) = Fin a"
      "sort (valid_in isnull xs) ! next_index 1 (column_count xs) = Fin b"
    by (rule quantile_ends [where q = 1]) simp_all
  then show ?thesis
    by (simp add: quantile_unfold [OF assms(2)] column_max_sorted [OF assms(2)])
qed

section \<open>Facts: mean and standard deviation of a numeric column\<close>

lemma length_reals [simp]: "length (reals xs) = column_count xs"
  by (simp add: reals_def column_count_def)

lemma numeric_valid: "numeric xs \<Longrightarrow> valid_in isnull xs = map Fin (reals xs)"
  using map_Fin_the_fin [of "valid_in isnull xs"] by (simp add: numeric_def reals_def)

lemma column_mean_numeric:
  assumes "numeric xs" "0 < column_count xs"
  shows "column_mean xs = Fin (sum_list (reals xs) / real (column_count xs))"
proof -
  have "valid_in isnull xs \<noteq> []" using assms(2) by (auto simp: column_count_def)
  moreover have "sum_list (valid_in isnull xs) = Fin (sum_list (reals xs))"
    by (simp only: numeric_valid [OF assms(1)] sum_list_Fin)
  ultimately show ?thesis
    using assms(2) by (simp add: column_mean_def Let_def column_count_def)
qed

lemma column_min_Min: "0 < column_count xs \<Longrightarrow> column_min xs = Min (set (valid_in isnull xs))"
proof (cases "valid_in isnull xs")
  case (Cons v vs)
  show ?thesis by (simp only: column_min_def Cons list.case Min.set_eq_fold)
qed (simp add: column_count_def)

lemma column_max_Max: "0 < column_count xs \<Longrightarrow> column_max xs = Max (set (valid_in isnull xs))"
proof (cases "valid_in isnull xs")
  case (Cons v vs)
  show ?thesis by (simp only: column_max_def Cons list.case Max.set_eq_fold)
qed (simp add: column_count_def)

lemma column_min_le:
  assumes "x \<in> set xs" "\<not> isnull x"
  shows "column_min xs \<le> x"
proof -
  have x: "x \<in> set (valid_in isnull xs)" using assms by simp
  then have "0 < column_count xs" by (auto simp: column_count_def simp del: set_filter)
  with x show ?thesis by (simp only: column_min_Min) (rule Min_le, simp_all)
qed

lemma column_max_ge:
  assumes "x \<in> set xs" "\<not> isnull x"
  shows "x \<le> column_max xs"
proof -
  have x: "x \<in> set (valid_in isnull xs)" using assms by simp
  then have "0 < column_count xs" by (auto simp: column_count_def simp del: set_filter)
  with x show ?thesis by (simp only: column_max_Max) (rule Max_ge, simp_all)
qed

lemma in_reals_Fin:
  assumes "numeric xs" "r \<in> set (reals xs)"
  shows "Fin r \<in> set xs"
proof -
  have "Fin r \<in> set (map Fin (reals xs))" using assms(2) by simp
  then have "Fin r \<in> set (valid_in isnull xs)" by (simp only: numeric_valid [OF assms(1)])
  then show ?thesis by simp
qed

lemma column_mean_between:
  assumes "numeric xs" "0 < column_count xs"
  shows "column_min xs \<le> column_mean xs" "column_mean xs \<le> column_max xs"
proof -
  let ?n = "real (column_count xs)"
  have n: "0 < ?n" using assms(2) by simp
  have "is_finite (column_min xs)" "is_finite (column_max xs)"
    using assms by (rule column_ends_finite)+
  then obtain lo hi where lh: "column_min xs = Fin lo" "column_max xs = Fin hi"
    by (auto simp: is_finite_iff)
  have "lo \<le> r \<and> r \<le> hi" if "r \<in> set (reals xs)" for r
    using in_reals_Fin [OF assms(1) that] column_min_le [of "Fin r" xs] column_max_ge [of "Fin r" xs]
    by (simp add: lh)
  then have "sum_list (map (\<lambda>_. lo) (reals xs)) \<le> sum_list (map (\<lambda>r. r) (reals xs))"
    "sum_list (map (\<lambda>r. r) (reals xs)) \<le> sum_list (map (\<lambda>_. hi) (reals xs))"
    by (intro sum_list_mono; simp)+
  then have "?n * lo \<le> sum_list (reals xs)" "sum_list (reals xs) \<le> ?n * hi"
    by (simp_all add: sum_list_triv)
  with n show "column_min xs \<le> column_mean xs" "column_mean xs \<le> column_max xs"
    by (simp_all add: column_mean_numeric [OF assms] lh pos_le_divide_eq pos_divide_le_eq
        mult.commute)
qed

lemma squared_deviations_numeric:
  assumes "numeric xs" "0 < column_count xs"
  shows "squared_deviations xs =
           map Fin (map (\<lambda>r. (sum_list (reals xs) / real (column_count xs) - r)\<^sup>2) (reals xs))"
  by (simp add: squared_deviations_def column_mean_numeric [OF assms] numeric_valid [OF assms(1)]
      power2_eq_square)

lemma column_std_numeric:
  assumes "numeric xs" "1 < column_count xs"
  shows "column_std xs =
           Fin (sqrt (sum_list (map (\<lambda>r. (sum_list (reals xs) / real (column_count xs) - r)\<^sup>2)
                                   (reals xs))
                      / real (column_count xs - 1)))"
proof -
  from assms(2) have n: "0 < column_count xs" by simp
  have "0 \<le> sum_list (map (\<lambda>r. (sum_list (reals xs) / real (column_count xs) - r)\<^sup>2) (reals xs))"
    by (intro sum_list_nonneg) auto
  moreover have "sum_list (squared_deviations xs) =
      Fin (sum_list (map (\<lambda>r. (sum_list (reals xs) / real (column_count xs) - r)\<^sup>2) (reals xs)))"
    by (simp only: squared_deviations_numeric [OF assms(1) n] sum_list_Fin)
  ultimately show ?thesis
    using assms(2) by (simp add: column_std_def Let_def not_less del: of_nat_diff)
qed

lemma column_std_nonneg:
  assumes "numeric xs" "1 < column_count xs"
  shows "Fin 0 \<le> column_std xs" "is_finite (column_std xs)"
proof -
  have "0 \<le> sum_list (map (\<lambda>r. (sum_list (reals xs) / real (column_count xs) - r)\<^sup>2) (reals xs))"
    by (intro sum_list_nonneg) auto
  then show "Fin 0 \<le> column_std xs" "is_finite (column_std xs)"
    by (simp_all add: column_std_numeric [OF assms] del: of_nat_diff)
qed

lemma column_std_zero_iff:
  assumes "numeric xs" "1 < column_count xs"
  shows "column_std xs = Fin 0 \<longleftrightarrow>
           (\<forall>r \<in> set (reals xs). r = sum_list (reals xs) / real (column_count xs))"
proof -
  let ?m = "sum_list (reals xs) / real (column_count xs)"
  have "sum_list (map (\<lambda>r. (?m - r)\<^sup>2) (reals xs)) = 0 \<longleftrightarrow> (\<forall>r \<in> set (reals xs). r = ?m)"
    by (subst sum_list_nonneg_eq_0_iff) auto
  then show ?thesis
    using assms(2) by (simp add: column_std_numeric [OF assms] del: of_nat_diff)
qed

lemma column_std_small [simp]: "column_count xs \<le> 1 \<Longrightarrow> column_std xs = NaN"
  by (simp add: column_std_def)

lemma column_mean_empty [simp]: "column_count xs = 0 \<Longrightarrow> column_mean xs = NaN"
  by (simp add: column_mean_def column_count_def)

lemma column_min_empty [simp]: "column_count xs = 0 \<Longrightarrow> column_min xs = NaN"
  by (simp add: column_min_def column_count_def)

lemma column_max_empty [simp]: "column_count xs = 0 \<Longrightarrow> column_max xs = NaN"
  by (simp add: column_max_def column_count_def)

section \<open>The table of a numeric column\<close>

lemma numeric_iff: "numeric xs \<longleftrightarrow> list_all finite_or_missing xs"
  by (auto simp: numeric_def list_all_iff finite_or_missing_iff)

lemma describe_column_empty: "column_count xs = 0 \<Longrightarrow> describe_column xs = empty_stats"
  by (simp add: describe_column_def empty_stats_def)

lemma describe_column_ordered_stats:
  assumes "numeric xs" and "0 < column_count xs"
  shows "ordered_stats (describe_column xs)"
  using assms
  by (simp add: ordered_stats_def column_min_le_quantile quantile_le_column_max quantile_mono
      column_mean_between column_std_nonneg column_ends_finite)

lemma describe_column_cases:
  "numeric xs \<Longrightarrow> describe_column xs = empty_stats \<or> ordered_stats (describe_column xs)"
  using describe_column_empty [of xs] describe_column_ordered_stats [of xs] by (cases "column_count xs") auto

lemma valid_sample_column: "valid_in isnull sample_column = [Fin 1, Fin 4, Fin 2]"
  by (simp add: sample_column_def)

lemma sort_sample_column: "sort (valid_in isnull sample_column) = [Fin 1, Fin 2, Fin 4]"
  by (simp add: valid_sample_column)

text \<open>
  C11 (bounds).  The statistics that describe() reports of a column whose
  entries are finite or missing, with at least one entry present, are in
  order: the minimum is at most the first quartile, the quartiles do not
  decrease, the third quartile is at most the maximum, and the mean lies
  between minimum and maximum.  The standard deviation is NaN when one
  entry is present and a finite number that is not negative otherwise.
\<close>

theorem describe_column_ordered:
  assumes "numeric xs" and "0 < column_count xs"
  shows "stat_min (describe_column xs) \<le> stat_q25 (describe_column xs)
       \<and> stat_q25 (describe_column xs) \<le> stat_q50 (describe_column xs)
       \<and> stat_q50 (describe_column xs) \<le> stat_q75 (describe_column xs)
       \<and> stat_q75 (describe_column xs) \<le> stat_max (describe_column xs)
       \<and> stat_min (describe_column xs) \<le> stat_mean (describe_column xs)
       \<and> stat_mean (describe_column xs) \<le> stat_max (describe_column xs)
       \<and> (if column_count xs = 1 then stat_std (describe_column xs) = NaN
          else is_finite (stat_std (describe_column xs))
             \<and> Fin 0 \<le> stat_std (describe_column xs))"
  using assms
  by (simp add: column_min_le_quantile quantile_le_column_max quantile_mono
      column_mean_between column_std_nonneg)

theorem describe_column_ordered_witness:
  "numeric sample_column \<and> 0 < column_count sample_column
   \<and> stat_min (describe_column sample_column) \<le> stat_q25 (describe_column sample_column)
   \<and> stat_q50 (describe_column sample_column) \<le> stat_q75 (describe_column sample_column)
   \<and> stat_mean (describe_column sample_column) \<le> stat_max (describe_column sample_column)
   \<and> Fin 0 \<le> stat_std (describe_column sample_column)"
  using describe_column_ordered [of sample_column]
  by (simp add: numeric_def column_count_def sample_column_def)

text \<open>
  An example: the table of the column 1, missing, 4, 2, number by
  number: three entries are counted, the mean is 7/3, the standard
  deviation the root of 7/3, and the quartiles are read off the sorted
  entries 1, 2, 4 at the positions 0.5, 1 and 1.5.
\<close>

lemma describe_sample_column:
  "describe_column sample_column =
     \<lparr>stat_count = 3, stat_mean = Fin (7 / 3), stat_std = Fin (sqrt (7 / 3)),
      stat_min = Fin 1, stat_q25 = Fin (3 / 2), stat_q50 = Fin 2, stat_q75 = Fin 3,
      stat_max = Fin 4\<rparr>"
proof -
  have m: "column_mean sample_column = Fin (7 / 3)"
    by (simp add: column_mean_def valid_sample_column)
  have "squared_deviations sample_column = [Fin (16 / 9), Fin (25 / 9), Fin (1 / 9)]"
    by (simp add: squared_deviations_def valid_sample_column m)
  then have "column_std sample_column = Fin (sqrt (7 / 3))"
    by (simp add: column_std_def column_count_def valid_sample_column)
  moreover have "quantile (1 / 4) sample_column = Fin (3 / 2)"
    "quantile (1 / 2) sample_column = Fin 2" "quantile (3 / 4) sample_column = Fin 3"
    by (simp_all add: quantile_def sort_sample_column previous_index_def next_index_def
        virtual_index_def gamma_def)
  ultimately show ?thesis
    by (simp add: describe_column_def column_count_def column_min_def column_max_def m
        valid_sample_column)
qed

end
