(* ===== verification/Trace.thy ===== *)
theory Trace
  imports Pipeline Describe
begin

text \<open>
  The effects of the script, as a trace of events.

  The script has no function of its own: it is a sequence of calls to
  \<^verbatim>\<open>print\<close>, pandas, matplotlib and seaborn.  What it does to the outside
  is modelled as the list of the calls with an effect, in the order they are
  made, each with the arguments the script passes.  The text that
  \<^verbatim>\<open>print\<close> makes of a table and the pixels that matplotlib makes of a
  plot are the libraries' and are not modelled: an event carries the value
  handed over.

  A section of the script is a function to an \<open>outcome\<close>: the events it
  produced, and either the value the following sections use or \<open>None\<close>
  when the script goes no further: it has left by \<^verbatim>\<open>exit()\<close>, an
  exception nobody catches has ended it, or it waits in a call that never
  returns.  The last event of the trace tells which: \<open>Exit\<close>, \<open>Raise\<close> or
  \<open>Hang\<close>.
\<close>

section \<open>Events\<close>

datatype 'd event =
    SetStyle string
  | Print string
  | PrintRows "string row list"
  | PrintColumns "label list"
  | PrintInfo "label list" "string row list"
  | PrintNulls "(label \<times> nat) list"
  | PrintDescribe "(label \<times> stats) list"
  | PrintSummary "summary list"
  | Figure nat nat
  | Subplot nat nat nat
  | PlotLine "'d option column" "fval column" label
  | Title string
  | XLabel string
  | YLabel string
  | Legend
  | XTicks nat
  | BarPlot label label "(label \<times> fval) list"
  | HistPlot "fval column" nat bool string
  | TightLayout
  | SaveFig string
  | ShowFig
  | Hang
  | Exit
  | Raise py_error

type_synonym ('d, 'a) outcome = "'d event list \<times> 'a option"

abbreviation nl :: "string \<Rightarrow> string" where
  "nl s \<equiv> CHR 0x0A # s"

section \<open>Sequencing\<close>

definition continue :: "'d event list \<Rightarrow> 'a \<Rightarrow> ('d, 'a) outcome" where
  "continue es a = (es, Some a)"

definition stop :: "'d event list \<Rightarrow> ('d, 'a) outcome" where
  "stop es = (es, None)"

definition show_figure :: "bool \<Rightarrow> 'd event list \<Rightarrow> ('d, unit) outcome" where
  "show_figure returns es =
     (if returns then continue (es @ [ShowFig]) () else stop (es @ [ShowFig, Hang]))"

definition then_run :: "('d, 'a) outcome \<Rightarrow> ('a \<Rightarrow> ('d, 'b) outcome) \<Rightarrow> ('d, 'b) outcome" where
  "then_run p f =
     (case snd p of
        None \<Rightarrow> (fst p, None)
      | Some a \<Rightarrow> (fst p @ fst (f a), snd (f a)))"

section \<open>Observations of a trace\<close>

text \<open>
  The events after which there is no other: the two ways the process ends
  before the last line, and \<open>Hang\<close>, which says that the call before it
  never returns (\<^verbatim>\<open>plt.show()\<close> with a window nobody closes).
\<close>

fun halts :: "'d event \<Rightarrow> bool" where
  "halts Exit = True"
| "halts (Raise e) = True"
| "halts _ = False"

fun final :: "'d event \<Rightarrow> bool" where
  "final Hang = True"
| "final e = halts e"

definition terminates :: "'d event list \<Rightarrow> bool" where
  "terminates es \<longleftrightarrow> \<not> list_ex (\<lambda>e. e = Hang) es"

fun saved_file :: "'d event \<Rightarrow> string option" where
  "saved_file (SaveFig f) = Some f"
| "saved_file _ = None"

definition saved_files :: "'d event list \<Rightarrow> string list" where
  "saved_files es = List.map_filter saved_file es"

fun printed_text :: "'d event \<Rightarrow> string option" where
  "printed_text (Print s) = Some s"
| "printed_text _ = None"

definition printed :: "'d event list \<Rightarrow> string list" where
  "printed es = List.map_filter printed_text es"

fun status_of :: "'d event \<Rightarrow> nat option" where
  "status_of (Raise e) = Some 1"
| "status_of Hang = None"
| "status_of _ = Some 0"

definition exit_status :: "'d event list \<Rightarrow> nat option" where
  "exit_status es = (if es = [] then Some 0 else status_of (last es))"

text \<open>
  \<^verbatim>\<open>plt.plot(x, y)\<close> raises when the two columns differ in length; a
  missing date cannot be placed on the axis.
\<close>

fun well_formed_line :: "'d event \<Rightarrow> bool" where
  "well_formed_line (PlotLine xs ys c) \<longleftrightarrow>
     length xs = length ys \<and> list_all (\<lambda>d. d \<noteq> None) xs \<and> isin countries (Some c)"
| "well_formed_line _ \<longleftrightarrow> True"

definition well_stopped :: "('d, 'a) outcome \<Rightarrow> bool" where
  "well_stopped p \<longleftrightarrow>
     (case snd p of
        Some a \<Rightarrow> list_all (\<lambda>e. \<not> final e) (fst p)
      | None \<Rightarrow> fst p \<noteq> [] \<and> final (last (fst p)) \<and> list_all (\<lambda>e. \<not> final e) (butlast (fst p)))"

section \<open>Facts\<close>

lemma then_run_simps [simp]:
  "then_run (stop es) f = stop es"
  "then_run (continue es a) f = (es @ fst (f a), snd (f a))"
  by (simp_all add: then_run_def stop_def continue_def)

lemma then_run_pair_simps [simp]:
  "then_run (es, None) f = (es, None)"
  "then_run (es, Some a) f = (es @ fst (f a), snd (f a))"
  by (simp_all add: then_run_def)

lemma fst_then_run:
  "fst (then_run p f) = fst p @ (case snd p of None \<Rightarrow> [] | Some a \<Rightarrow> fst (f a))"
  by (simp add: then_run_def split: option.splits)

lemma snd_then_run:
  "snd (then_run p f) = (case snd p of None \<Rightarrow> None | Some a \<Rightarrow> snd (f a))"
  by (simp add: then_run_def split: option.splits)

lemma then_run_continue_right [simp]: "then_run p (continue []) = p"
  by (cases p) (auto simp: then_run_def continue_def split: option.splits)

lemma then_run_assoc:
  "then_run (then_run p f) g = then_run p (\<lambda>a. then_run (f a) g)"
  by (auto simp: then_run_def split: option.splits)

lemma saved_files_simps [simp]:
  "saved_files [] = []"
  "saved_files (e # es) = (case saved_file e of None \<Rightarrow> saved_files es | Some f \<Rightarrow> f # saved_files es)"
  "saved_files (es @ es') = saved_files es @ saved_files es'"
  by (simp_all add: saved_files_def List.map_filter_def split: option.splits)

lemma printed_simps [simp]:
  "printed [] = []"
  "printed (e # es) = (case printed_text e of None \<Rightarrow> printed es | Some s \<Rightarrow> s # printed es)"
  "printed (es @ es') = printed es @ printed es'"
  by (simp_all add: printed_def List.map_filter_def split: option.splits)

lemma saved_files_then_run:
  "saved_files (fst (then_run p f)) =
     saved_files (fst p) @ (case snd p of None \<Rightarrow> [] | Some a \<Rightarrow> saved_files (fst (f a)))"
  by (simp add: then_run_def split: option.splits)

lemma printed_then_run:
  "printed (fst (then_run p f)) =
     printed (fst p) @ (case snd p of None \<Rightarrow> [] | Some a \<Rightarrow> printed (fst (f a)))"
  by (simp add: then_run_def split: option.splits)

lemma then_run_not_Nil [simp]: "fst p \<noteq> [] \<Longrightarrow> fst (then_run p f) \<noteq> []"
  by (simp add: fst_then_run)

lemma last_then_run:
  "last (fst (then_run p f)) =
     (case snd p of
        None \<Rightarrow> last (fst p)
      | Some a \<Rightarrow> if fst (f a) = [] then last (fst p) else last (fst (f a)))"
  by (simp add: then_run_def split: option.splits)

lemma set_then_run:
  "set (fst (then_run p f)) =
     set (fst p) \<union> (case snd p of None \<Rightarrow> {} | Some a \<Rightarrow> set (fst (f a)))"
  by (simp add: then_run_def split: option.splits)

lemma list_all_then_run:
  "list_all P (fst (then_run p f)) \<longleftrightarrow>
     list_all P (fst p) \<and> (case snd p of None \<Rightarrow> True | Some a \<Rightarrow> list_all P (fst (f a)))"
  by (simp add: then_run_def split: option.splits)

lemma terminates_simps [simp]:
  "terminates []"
  "terminates (e # es) \<longleftrightarrow> e \<noteq> Hang \<and> terminates es"
  "terminates (es @ es') \<longleftrightarrow> terminates es \<and> terminates es'"
  by (auto simp: terminates_def list_ex_iff)

lemma terminates_then_run:
  "terminates (fst (then_run p f)) \<longleftrightarrow>
     terminates (fst p) \<and> (case snd p of None \<Rightarrow> True | Some a \<Rightarrow> terminates (fst (f a)))"
  by (simp add: then_run_def split: option.splits)

lemma final_cases: "final e \<longleftrightarrow> e = Hang \<or> halts e"
  by (cases e) simp_all

lemma show_figure_simps [simp]:
  "fst (show_figure returns es) = es @ (if returns then [ShowFig] else [ShowFig, Hang])"
  "snd (show_figure returns es) = (if returns then Some () else None)"
  by (simp_all add: show_figure_def continue_def stop_def)

lemma well_stopped_show_figure [simp]:
  "well_stopped (show_figure returns es) \<longleftrightarrow> list_all (\<lambda>e. \<not> final e) es"
  by (simp add: well_stopped_def butlast_append)

lemma well_stopped_continue [simp]:
  "well_stopped (continue es a) \<longleftrightarrow> list_all (\<lambda>e. \<not> final e) es"
  by (simp add: well_stopped_def continue_def)

lemma well_stopped_stop [simp]:
  "well_stopped (stop es) \<longleftrightarrow> es \<noteq> [] \<and> final (last es) \<and> list_all (\<lambda>e. \<not> final e) (butlast es)"
  by (simp add: well_stopped_def stop_def)

text \<open>Sequencing keeps a trace well stopped: nothing follows a halt.\<close>

lemma well_stopped_then_run:
  assumes "well_stopped p" and "\<And>a. snd p = Some a \<Longrightarrow> well_stopped (f a)"
  shows "well_stopped (then_run p f)"
proof (cases "snd p")
  case None
  with assms(1) show ?thesis by (simp add: then_run_def well_stopped_def)
next
  case (Some a)
  with assms have p: "list_all (\<lambda>e. \<not> final e) (fst p)" and f: "well_stopped (f a)"
    by (simp_all add: well_stopped_def)
  show ?thesis
  proof (cases "snd (f a)")
    case None
    with f have "fst (f a) \<noteq> []" "final (last (fst (f a)))"
      "list_all (\<lambda>e. \<not> final e) (butlast (fst (f a)))"
      by (simp_all add: well_stopped_def)
    with p Some None show ?thesis
      by (simp add: then_run_def well_stopped_def butlast_append)
  next
    case (Some b)
    with f p \<open>snd p = Some a\<close> show ?thesis
      by (simp add: then_run_def well_stopped_def)
  qed
qed

lemma well_stopped_halt_last:
  assumes "well_stopped p" and "i < length (fst p)" and "final (fst p ! i)"
  shows "snd p = None \<and> i = length (fst p) - 1"
proof (cases "snd p")
  case (Some a)
  with assms show ?thesis by (auto simp: well_stopped_def list_all_length)
next
  case None
  with assms(1) have b: "list_all (\<lambda>e. \<not> final e) (butlast (fst p))"
    by (simp add: well_stopped_def)
  have "\<not> i < length (fst p) - 1"
  proof
    assume "i < length (fst p) - 1"
    with b have "\<not> final (butlast (fst p) ! i)" by (simp add: list_all_length)
    with \<open>i < length (fst p) - 1\<close> assms(3) show False by (simp add: nth_butlast)
  qed
  with assms(2) None show ?thesis by simp
qed

end
