(* ===== verification/Loader.thy ===== *)
theory Loader
  imports Trace
begin

text \<open>
  Section 1 of the script, Data Collection (lines 13--27): the plotting
  style is set, the banner printed and the file read.

  Reading the file is the operating system's and pandas' business; the
  model takes its result as an input.  \<open>Loaded cols rows\<close> is a table
  with the column names \<open>cols\<close> of the file's header; of its cells the
  model keeps those of the nine columns the script uses (a column that the
  header lacks has no meaning in the rows).  The other two results are the
  two \<^verbatim>\<open>except\<close> branches: both print a message and call \<^verbatim>\<open>exit()\<close>.
\<close>

datatype read_result =
    FileNotFound
  | ReadError string
  | Loaded "label list" "string row list"

definition not_found_message :: string where
  "not_found_message =
     ''Error: 'owid-covid-data.csv' not found. Please download from https://covid.ourworldindata.org/data/owid-covid-data.csv''"

definition load_error_message :: "string \<Rightarrow> string" where
  "load_error_message e = ''Error loading dataset: '' @ e"

definition data_collection :: "read_result \<Rightarrow> ('d, label list \<times> string row list) outcome" where
  "data_collection res =
     (let banner = [SetStyle ''whitegrid'', Print ''=== 1. Data Collection ===''] in
      case res of
        Loaded cols raw \<Rightarrow> continue (banner @ [Print ''Dataset loaded successfully!'']) (cols, raw)
      | FileNotFound \<Rightarrow> stop (banner @ [Print not_found_message, Exit])
      | ReadError e \<Rightarrow> stop (banner @ [Print (load_error_message e), Exit]))"

lemma data_collection_simps [simp]:
  "data_collection (Loaded cols raw) =
     continue [SetStyle ''whitegrid'', Print ''=== 1. Data Collection ==='',
               Print ''Dataset loaded successfully!''] (cols, raw)"
  "data_collection FileNotFound =
     stop [SetStyle ''whitegrid'', Print ''=== 1. Data Collection ==='', Print not_found_message, Exit]"
  "data_collection (ReadError e) =
     stop [SetStyle ''whitegrid'', Print ''=== 1. Data Collection ==='',
           Print (load_error_message e), Exit]"
  by (simp_all add: data_collection_def)

lemma well_stopped_data_collection [simp]: "well_stopped (data_collection res)"
  by (cases res) simp_all

end
