(* ===== verification/Reporter.thy ===== *)
theory Reporter
  imports Loader
begin

text \<open>
  The console report: the \<^verbatim>\<open>print\<close> calls of sections 2, 3, 4 and 7
  (lines 30--53, 56, 77--84, 87--91, 105--113 and 179--194), with the
  computations they print: the counts of missing values of lines 47 and
  78, and the statistics of line 91, which theory \<open>Describe\<close> defines.

  Selecting several columns at once (\<^verbatim>\<open>df[key_columns]\<close>, line 47) raises
  \<^verbatim>\<open>KeyError\<close> when the table lacks one of them.  Line 47 is the first
  access to a column, so a file without one of the eight key columns stops
  the script there; the later accesses to these columns cannot fail.
\<close>

section \<open>Missing values of the key columns\<close>

definition key_columns :: "label list" where
  "key_columns =
     [''date'', ''location'', ''total_cases'', ''new_cases'', ''total_deaths'', ''new_deaths'',
      ''total_vaccinations'', ''people_vaccinated'']"

definition missing_columns :: "label list \<Rightarrow> label list \<Rightarrow> label list" where
  "missing_columns cols wanted = filter (\<lambda>c. c \<notin> set cols) wanted"

definition null_counts :: "('d, 'x) row_scheme list \<Rightarrow> (label \<times> nat) list" where
  "null_counts rs =
     [(''date'', isnull_sum (\<lambda>d. d = None) (map date rs)),
      (''location'', isnull_sum (\<lambda>l. l = None) (map location rs)),
      (''total_cases'', isnull_sum isnull (map total_cases rs)),
      (''new_cases'', isnull_sum isnull (map new_cases rs)),
      (''total_deaths'', isnull_sum isnull (map total_deaths rs)),
      (''new_deaths'', isnull_sum isnull (map new_deaths rs)),
      (''total_vaccinations'', isnull_sum isnull (map total_vaccinations rs)),
      (''people_vaccinated'', isnull_sum isnull (map people_vaccinated rs))]"

definition described :: "('d, 'x) row_scheme list \<Rightarrow> (label \<times> fval column) list" where
  "described rs =
     [(''total_cases'', map total_cases rs),
      (''new_cases'', map new_cases rs),
      (''total_deaths'', map total_deaths rs),
      (''new_deaths'', map new_deaths rs),
      (''total_vaccinations'', map total_vaccinations rs),
      (''people_vaccinated'', map people_vaccinated rs)]"

section \<open>Section 2: exploration\<close>

definition exploration :: "label list \<Rightarrow> string row list \<Rightarrow> ('d, unit) outcome" where
  "exploration cols raw =
     (let preview =
            [Print (nl ''=== 2. Data Loading & Exploration ===''),
             Print (nl ''First 5 rows of the dataset:''),
             PrintRows (take 5 raw),
             Print (nl ''Columns in dataset:''),
             PrintColumns cols,
             Print (nl ''Dataset Info:''),
             PrintInfo cols raw,
             Print ''None'',
             Print (nl ''Missing Values (selected columns):'')];
          absent = missing_columns cols key_columns
      in if absent \<noteq> [] then stop (preview @ [Raise (KeyError absent)])
         else continue
           (preview @
            [PrintNulls (null_counts raw),
             Print (nl ''Initial Observations:''),
             Print ''- Dataset contains global COVID-19 data by date and location.'',
             Print ''- Key columns include cases, deaths, and vaccinations.'',
             Print ''- Missing values are present, especially in vaccination data (expected for early pandemic).''])
           ())"

section \<open>Section 3: cleaning, with its report\<close>

definition cleaning ::
  "(string \<Rightarrow> 'd option) \<Rightarrow> string row list \<Rightarrow> ('d, 'd row list) outcome"
where
  "cleaning parse raw =
     (case clean parse raw of
        Inl e \<Rightarrow> stop [Print (nl ''=== 3. Data Cleaning ===''), Raise e]
      | Inr df \<Rightarrow>
          continue
            [Print (nl ''=== 3. Data Cleaning ===''),
             Print (nl ''Missing Values After Cleaning:''),
             PrintNulls (null_counts df),
             Print (nl ''Cleaning Observations:''),
             Print ''- Filtered for Kenya, USA, and India.'',
             Print ''- Converted 'date' to datetime.'',
             Print ''- Filled missing cases/deaths with 0, used forward fill for vaccinations.'']
            df)"

section \<open>Section 4: exploratory analysis\<close>

definition eda :: "('d::linorder) row list \<Rightarrow> ('d, 'd drow list \<times> summary list) outcome" where
  "eda df =
     (let df' = add_death_rate df;
          latest = latest_data df'
      in continue
           [Print (nl ''=== 4. Exploratory Data Analysis ===''),
            Print (nl ''Basic Statistics for Numerical Columns:''),
            PrintDescribe (describe (described df)),
            Print (nl ''Latest Data by Country (most recent date):''),
            PrintSummary latest,
            Print (nl ''EDA Observations:''),
            Print ''- USA has the highest total cases and deaths.'',
            Print ''- India has a high number of cases but lower death rate compared to USA.'',
            Print ''- Kenya has significantly fewer cases and deaths.'',
            Print ''- Vaccination data shows progress, but coverage varies.'']
           (df', latest))"

section \<open>Section 7: insights\<close>

definition completion_message :: string where
  "completion_message =
     nl ''Script completed. Visualizations saved as 'covid_visualizations.png' and 'vaccination_progress.png'.''"

definition insights :: "('d, unit) outcome" where
  "insights =
     continue
       [Print (nl ''=== 7. Insights & Reporting ===''),
        Print (nl ''Key Insights:''),
        Print ''1. The USA has the highest total COVID-19 cases and deaths among the selected countries, reflecting its large population and early pandemic impact.'',
        Print ''2. India shows a high number of cases but a lower death rate, possibly due to a younger population or underreporting.'',
        Print ''3. Kenya has the lowest cases and deaths, likely due to lower testing capacity or effective early interventions.'',
        Print ''4. Vaccination progress is significant in the USA and India, with the USA leading in % vaccinated.'',
        Print ''5. Daily new cases show a right-skewed distribution, with most days having low case counts but occasional large spikes.'',
        Print (nl ''Interesting Patterns:''),
        Print ''- Vaccination rollouts accelerated in 2021, with the USA and India showing steep increases.'',
        Print ''- Kenya's vaccination data is sparse, indicating slower rollout or data reporting issues.'',
        Print ''- Case spikes in India (e.g., 2021 Delta wave) are visible in the line chart.'',
        Print completion_message]
       ()"

section \<open>Facts\<close>

lemma missing_columns_Nil_iff: "missing_columns cols wanted = [] \<longleftrightarrow> set wanted \<subseteq> set cols"
  by (auto simp: missing_columns_def filter_empty_conv)

lemma map_fst_null_counts [simp]: "map fst (null_counts rs) = key_columns"
  by (simp add: null_counts_def key_columns_def)

lemma map_fst_described [simp]: "map fst (described rs) = drop 2 key_columns"
  by (simp add: described_def key_columns_def)

lemma snd_exploration_iff:
  "snd (exploration cols raw) = Some () \<longleftrightarrow> set key_columns \<subseteq> set cols"
  by (simp add: exploration_def Let_def continue_def stop_def missing_columns_Nil_iff)

lemma well_stopped_exploration [simp]: "well_stopped (exploration cols raw)"
  by (simp add: exploration_def Let_def)

lemma snd_cleaning:
  "snd (cleaning parse raw) = (case clean parse raw of Inl e \<Rightarrow> None | Inr df \<Rightarrow> Some df)"
  by (simp add: cleaning_def continue_def stop_def split: sum.splits)

lemma well_stopped_cleaning [simp]: "well_stopped (cleaning parse raw)"
  by (simp add: cleaning_def split: sum.splits)

lemma snd_eda [simp]:
  "snd (eda df) = Some (add_death_rate df, latest_data (add_death_rate df))"
  by (simp add: eda_def Let_def continue_def)

lemma well_stopped_eda [simp]: "well_stopped (eda df)"
  by (simp add: eda_def Let_def)

lemma well_stopped_insights [simp]: "well_stopped insights"
  by (simp add: insights_def)

lemma reports_not_Nil [simp]:
  "fst (exploration cols raw) \<noteq> []"
  "fst (cleaning parse raw) \<noteq> []"
  "fst (eda df) \<noteq> []"
  "fst insights \<noteq> []"
  by (simp_all add: exploration_def cleaning_def eda_def insights_def Let_def continue_def stop_def
      split: sum.splits)

lemma last_exploration:
  "last (fst (exploration cols raw)) =
     (if set key_columns \<subseteq> set cols
      then Print ''- Missing values are present, especially in vaccination data (expected for early pandemic).''
      else Raise (KeyError (missing_columns cols key_columns)))"
  by (simp add: exploration_def Let_def continue_def stop_def missing_columns_Nil_iff)

lemma last_cleaning:
  "last (fst (cleaning parse raw)) =
     (case clean parse raw of
        Inl e \<Rightarrow> Raise e
      | Inr df \<Rightarrow> Print ''- Filled missing cases/deaths with 0, used forward fill for vaccinations.'')"
  by (simp add: cleaning_def continue_def stop_def split: sum.splits)

lemma last_insights [simp]: "last (fst insights) = Print completion_message"
  by (simp add: insights_def continue_def)

lemma completion_message_printed [simp]:
  "completion_message \<notin> set (printed (fst (exploration cols raw)))"
  "completion_message \<notin> set (printed (fst (cleaning parse raw)))"
  "completion_message \<notin> set (printed (fst (eda df)))"
  "completion_message \<in> set (printed (fst insights))"
  by (simp_all add: exploration_def cleaning_def eda_def insights_def Let_def continue_def stop_def
      completion_message_def split: sum.splits)

lemma completion_message_data_collection [simp]:
  "completion_message \<notin> set (printed (fst (data_collection res)))"
  by (cases res)
    (simp_all add: continue_def stop_def completion_message_def not_found_message_def
      load_error_message_def)

lemma well_formed_reports [simp]:
  "list_all well_formed_line (fst (data_collection res))"
  "list_all well_formed_line (fst (exploration cols raw))"
  "list_all well_formed_line (fst (cleaning parse raw))"
  "list_all well_formed_line (fst (eda df))"
  "list_all well_formed_line (fst insights)"
  by (simp_all add: data_collection_def exploration_def cleaning_def eda_def insights_def Let_def
      continue_def stop_def split: sum.splits read_result.splits)

lemma terminates_reports [simp]:
  "terminates (fst (data_collection res))"
  "terminates (fst (exploration cols raw))"
  "terminates (fst (cleaning parse raw))"
  "terminates (fst (eda df))"
  "terminates (fst insights)"
  by (simp_all add: data_collection_def exploration_def cleaning_def eda_def insights_def Let_def
      continue_def stop_def split: sum.splits read_result.splits)

lemma saved_files_reports [simp]:
  "saved_files (fst (exploration cols raw)) = []"
  "saved_files (fst (cleaning parse raw)) = []"
  "saved_files (fst (eda df)) = []"
  "saved_files (fst insights) = []"
  by (simp_all add: exploration_def cleaning_def eda_def insights_def Let_def continue_def stop_def
      split: sum.splits)

section \<open>Properties\<close>

text \<open>
  C26 (functional).  What the count of missing values after cleaning (line 78)
  shows, for every input: nothing is missing in the date, the location and
  the four count columns; in a vaccination column, the entries before the
  first value among the selected rows, which no forward fill can reach.
\<close>

theorem null_counts_clean_rows:
  "null_counts (clean_rows rs) =
     [(''date'', 0), (''location'', 0), (''total_cases'', 0), (''new_cases'', 0),
      (''total_deaths'', 0), (''new_deaths'', 0),
      (''total_vaccinations'',
         length (takeWhile isnull (map total_vaccinations (filter kept rs)))),
      (''people_vaccinated'',
         length (takeWhile isnull (map people_vaccinated (filter kept rs))))]"
proof -
  have c: "cleaned r" if "r \<in> set (clean_rows rs)" for r
    using that by (rule in_clean_rows_cleaned)
  have "isnull_sum (\<lambda>d. d = None) (map date (clean_rows rs)) = 0"
    "isnull_sum (\<lambda>l. l = None) (map location (clean_rows rs)) = 0"
    "isnull_sum isnull (map total_cases (clean_rows rs)) = 0"
    "isnull_sum isnull (map new_cases (clean_rows rs)) = 0"
    "isnull_sum isnull (map total_deaths (clean_rows rs)) = 0"
    "isnull_sum isnull (map new_deaths (clean_rows rs)) = 0"
    using c by (auto intro!: isnull_sum_map_zero simp: cleaned_def isin_iff)
  then show ?thesis
    by (simp add: null_counts_def clean_rows_total_vaccinations clean_rows_people_vaccinated
        isnull_sum_ffill)
qed

lemma describe_described:
  "describe (described df) =
     [(''total_cases'', describe_column (map total_cases df)),
      (''new_cases'', describe_column (map new_cases df)),
      (''total_deaths'', describe_column (map total_deaths df)),
      (''new_deaths'', describe_column (map new_deaths df)),
      (''total_vaccinations'', describe_column (map total_vaccinations df)),
      (''people_vaccinated'', describe_column (map people_vaccinated df))]"
  by (simp add: describe_def described_def)

text \<open>
  Line 91 against lines 47 and 78, for every table: the
  statistics have the six numeric key columns in their order, and column by
  column the count that describe() reports and the count of missing values
  add up to the number of rows.
\<close>

lemma describe_counts:
  "map2 (\<lambda>(l, s) (l', k). (l, l', stat_count s + k))
      (describe (described df)) (drop 2 (null_counts df)) =
     map (\<lambda>l. (l, l, length df)) (drop 2 key_columns)"
  using column_count_plus_nulls [of "map sel df" for sel]
  by (simp add: describe_described null_counts_def key_columns_def)

text \<open>After cleaning the four case and death columns are counted in full.\<close>

lemma describe_counts_clean_rows:
  "map (\<lambda>(l, s). stat_count s) (take 4 (describe (described (clean_rows rs)))) =
     replicate 4 (length (clean_rows rs))"
proof -
  have "\<not> isnull (total_cases r) \<and> \<not> isnull (new_cases r) \<and> \<not> isnull (total_deaths r)
      \<and> \<not> isnull (new_deaths r)" if "r \<in> set (clean_rows rs)" for r
    using in_clean_rows_cleaned [OF that] by (simp add: cleaned_def)
  then show ?thesis
    by (simp add: describe_described column_count_def numeral_eq_Suc)
qed

lemma list_all_snd_describe:
  "list_all (\<lambda>(l, s). P s) (describe cols) \<longleftrightarrow> list_all (\<lambda>(l, xs). P (describe_column xs)) cols"
  by (simp add: describe_def list_all_iff split_def)

lemma numeric_described:
  "list_all numeric_row df \<Longrightarrow> list_all (\<lambda>(l, xs). numeric xs) (described df)"
  by (simp add: numeric_row_columns described_def numeric_iff)

text \<open>
  C12 (invariant).  The statistics printed by section 4, for a file whose
  counts are numbers or missing: every row of the table is either that of
  a column with nothing in it (count 0, the rest NaN), or it has a finite
  minimum and maximum with the quartiles in order and the mean between
  them, and a standard deviation that is finite and not negative, or NaN
  for a single entry.  The cleaning before it keeps the counts numbers.
\<close>

theorem described_clean_ordered:
  assumes "clean parse raw = Inr df" and "list_all numeric_row raw"
  shows "list_all (\<lambda>(l, s). s = empty_stats \<or> ordered_stats s) (describe (described df))"
proof -
  have "list_all (\<lambda>(l, xs). numeric xs) (described df)"
    using clean_numeric [OF assms] by (rule numeric_described)
  then show ?thesis
    unfolding list_all_snd_describe by (auto simp: list_all_iff dest: describe_column_cases)
qed

theorem described_clean_ordered_witness:
  "list_all (\<lambda>(l, s). s = empty_stats \<or> ordered_stats s) (describe (described sample_clean))"
  by (rule described_clean_ordered [OF clean_sample])
    (simp add: sample_raw_def numeric_row_def)

end
