(* ===== verification/Visualizer.thy ===== *)
theory Visualizer
  imports Reporter
begin

text \<open>
  The charts: sections 5 and 6 of the script (lines 116--176).

  The first figure is a grid of four charts saved as
  \<^verbatim>\<open>covid_visualizations.png\<close>; the second is one bar chart saved as
  \<^verbatim>\<open>vaccination_progress.png\<close>.  An event per matplotlib or seaborn call
  records what is handed to the library: for a line the two columns of the
  country's rows, for a bar chart the pairs of location and value of the
  summary table, for the histogram the column and its parameters.

  The line charts loop over \<open>countries\<close> in the order of line 62; the bars
  follow the summary table, which is sorted by name.  Section 6 reads the
  column \<^verbatim>\<open>population\<close>, which is not one of the key columns checked in
  section 2: a file without it stops the script here, after the first
  image has been written.

  Each section ends with \<^verbatim>\<open>plt.show()\<close>.  With an interactive display
  this call returns when the window is closed, and never if nobody closes
  it; without a display it returns at once.  Whether it returns is not the
  script's to decide: it is the argument \<open>returns\<close> of the section.
\<close>

section \<open>Section 5: the grid of four charts\<close>

definition plot_country ::
  "(('d, 'x) row_scheme \<Rightarrow> fval) \<Rightarrow> ('d, 'x) row_scheme list \<Rightarrow> label \<Rightarrow> 'd event"
where
  "plot_country col df country =
     (let country_data = group_of location country df
      in PlotLine (map date country_data) (map col country_data) country)"

definition country_lines ::
  "(('d, 'x) row_scheme \<Rightarrow> fval) \<Rightarrow> ('d, 'x) row_scheme list \<Rightarrow> 'd event list"
where
  "country_lines col df = map (plot_country col df) countries"

text \<open>The same loop, step by step.\<close>

definition country_loop ::
  "(('d, 'x) row_scheme \<Rightarrow> fval) \<Rightarrow> ('d, 'x) row_scheme list \<Rightarrow> (label list \<times> 'd event list) option"
where
  "country_loop col df = for_each (plot_country col df) countries"

definition bars :: "('s \<Rightarrow> label) \<Rightarrow> ('s \<Rightarrow> fval) \<Rightarrow> 's list \<Rightarrow> (label \<times> fval) list" where
  "bars x y table = map (\<lambda>s. (x s, y s)) table"

definition visualization ::
  "bool \<Rightarrow> ('d, 'x) drow_scheme list \<Rightarrow> summary list \<Rightarrow> ('d, unit) outcome"
where
  "visualization returns df latest =
     show_figure returns
       ([Print (nl ''=== 5. Data Visualization ===''),
         Figure 14 12,
         Subplot 2 2 1] @
        country_lines total_cases df @
        [Title ''Total COVID-19 Cases Over Time'',
         XLabel ''Date'',
         YLabel ''Total Cases'',
         Legend,
         XTicks 45,
         Subplot 2 2 2,
         BarPlot ''location'' ''total_cases'' (bars latest_location latest_total_cases latest),
         Title ''Total Cases by Country (Latest Date)'',
         XLabel ''Country'',
         YLabel ''Total Cases'',
         Subplot 2 2 3] @
        country_lines total_vaccinations df @
        [Title ''Total Vaccinations Over Time'',
         XLabel ''Date'',
         YLabel ''Total Vaccinations'',
         Legend,
         XTicks 45,
         Subplot 2 2 4,
         HistPlot (map new_cases df) 30 True ''skyblue'',
         Title ''Distribution of Daily New Cases'',
         XLabel ''Daily New Cases'',
         YLabel ''Frequency'',
         TightLayout,
         SaveFig ''covid_visualizations.png''])"

section \<open>Section 6: vaccination progress\<close>

definition vaccination_progress ::
  "bool \<Rightarrow> label list \<Rightarrow> ('d::linorder, 'x) drow_scheme list \<Rightarrow> ('d, unit) outcome"
where
  "vaccination_progress returns cols df =
     (if ''population'' \<notin> set cols then
        stop [Print (nl ''=== 6. Visualizing Vaccination Progress ===''),
              Raise (KeyError [''population''])]
      else
        (let df' = add_percent_vaccinated df;
             latest = latest_vaccination df'
         in show_figure returns
              [Print (nl ''=== 6. Visualizing Vaccination Progress ===''),
               Figure 8 6,
               BarPlot ''location'' ''percent_vaccinated''
                 (bars vacc_location vacc_percent_vaccinated latest),
               Title ''Percentage of Population Vaccinated (Latest Date)'',
               XLabel ''Country'',
               YLabel ''% Vaccinated'',
               SaveFig ''vaccination_progress.png'']))"

section \<open>Facts\<close>

lemma country_loop_lines: "country_loop col df = Some ([], country_lines col df)"
  by (simp add: country_loop_def country_lines_def for_each_map)

lemma length_country_lines [simp]: "length (country_lines col df) = 3"
  by (simp add: country_lines_def countries_def)

lemma country_lines_no_halt [simp]: "list_all (\<lambda>e. \<not> final e) (country_lines col df)"
  by (simp add: country_lines_def plot_country_def countries_def Let_def)

lemma saved_files_country_lines [simp]: "saved_files (country_lines col df) = []"
  by (simp add: country_lines_def plot_country_def countries_def Let_def)

lemma printed_country_lines [simp]: "printed (country_lines col df) = []"
  by (simp add: country_lines_def plot_country_def countries_def Let_def)

lemma map_fst_bars [simp]: "map fst (bars x y table) = map x table"
  by (simp add: bars_def comp_def)

lemma map_snd_bars [simp]: "map snd (bars x y table) = map y table"
  by (simp add: bars_def comp_def)

lemma well_formed_country_lines:
  assumes "\<And>r. r \<in> set df \<Longrightarrow> date r \<noteq> None"
  shows "list_all well_formed_line (country_lines col df)"
  using assms by (auto simp: country_lines_def plot_country_def countries_def Let_def list_all_iff group_of_def)

lemma well_formed_visualization:
  assumes "\<And>r. r \<in> set df \<Longrightarrow> date r \<noteq> None"
  shows "list_all well_formed_line (fst (visualization b df latest))"
  using well_formed_country_lines [OF assms, where col = total_cases]
    well_formed_country_lines [OF assms, where col = total_vaccinations]
  by (simp add: visualization_def)

lemma well_formed_vaccination_progress [simp]:
  "list_all well_formed_line (fst (vaccination_progress b cols df))"
  by (simp add: vaccination_progress_def Let_def stop_def)

lemma snd_visualization [simp]:
  "snd (visualization b df latest) = (if b then Some () else None)"
  by (simp add: visualization_def)

lemma well_stopped_visualization [simp]: "well_stopped (visualization b df latest)"
  by (simp add: visualization_def)

lemma saved_files_visualization [simp]:
  "saved_files (fst (visualization b df latest)) = [''covid_visualizations.png'']"
  by (simp add: visualization_def)

lemma charts_not_Nil [simp]:
  "fst (visualization b df latest) \<noteq> []"
  "fst (vaccination_progress b cols df) \<noteq> []"
  by (simp_all add: visualization_def vaccination_progress_def Let_def stop_def)

lemma last_visualization [simp]:
  "last (fst (visualization b df latest)) = (if b then ShowFig else Hang)"
  by (simp add: visualization_def)

lemma last_vaccination_progress:
  "last (fst (vaccination_progress b cols df)) =
     (if ''population'' \<notin> set cols then Raise (KeyError [''population''])
      else if b then ShowFig else Hang)"
  by (simp add: vaccination_progress_def Let_def stop_def)

lemma completion_message_charts [simp]:
  "completion_message \<notin> set (printed (fst (visualization b df latest)))"
  "completion_message \<notin> set (printed (fst (vaccination_progress b cols df)))"
  by (simp_all add: visualization_def vaccination_progress_def Let_def stop_def
      completion_message_def)

lemma snd_vaccination_progress:
  "snd (vaccination_progress b cols df) =
     (if ''population'' \<in> set cols \<and> b then Some () else None)"
  by (simp add: vaccination_progress_def Let_def stop_def)

lemma well_stopped_vaccination_progress [simp]: "well_stopped (vaccination_progress b cols df)"
  by (simp add: vaccination_progress_def Let_def)

lemma saved_files_vaccination_progress [simp]:
  "saved_files (fst (vaccination_progress b cols df)) =
     (if ''population'' \<in> set cols then [''vaccination_progress.png''] else [])"
  by (simp add: vaccination_progress_def Let_def stop_def)

text \<open>A section hangs exactly when it reaches its \<^verbatim>\<open>plt.show()\<close> and that does not return.\<close>

lemma terminates_country_lines [simp]: "terminates (country_lines col df)"
  by (simp add: country_lines_def plot_country_def countries_def Let_def)

lemma terminates_visualization [simp]:
  "terminates (fst (visualization b df latest)) \<longleftrightarrow> b"
  by (simp add: visualization_def)

lemma terminates_vaccination_progress [simp]:
  "terminates (fst (vaccination_progress b cols df)) \<longleftrightarrow> ''population'' \<notin> set cols \<or> b"
  by (simp add: vaccination_progress_def Let_def stop_def)

end
