(* ===== verification/Script.thy ===== *)
theory Script
  imports Visualizer
begin

text \<open>
  The script as a whole (lines 13--194): its seven sections in the order of
  the file, each run only if the one before did not stop.

  \<open>run\<close> takes the three things the script gets from outside: whether the
  first and the second call of \<^verbatim>\<open>plt.show()\<close> return (\<open>returns 0\<close> and
  \<open>returns 1\<close>), the reader of date strings, and the result of reading the
  file.  \<open>script\<close> is the trace of a run.  The theorems of this theory say how a run ends and what it has
  written by then, for every input, and tie the tables it shows to the
  pipeline of theory \<open>Pipeline\<close>.
\<close>

definition run ::
  "(nat \<Rightarrow> bool) \<Rightarrow> (string \<Rightarrow> ('d::linorder) option) \<Rightarrow> read_result \<Rightarrow> ('d, unit) outcome"
where
  "run returns parse res =
     then_run (data_collection res) (\<lambda>(cols, raw).
     then_run (exploration cols raw) (\<lambda>_.
     then_run (cleaning parse raw) (\<lambda>df.
     then_run (eda df) (\<lambda>(df, latest).
     then_run (visualization (returns 0) df latest) (\<lambda>_.
     then_run (vaccination_progress (returns 1) cols df) (\<lambda>_.
     insights))))))"

definition script ::
  "(nat \<Rightarrow> bool) \<Rightarrow> (string \<Rightarrow> ('d::linorder) option) \<Rightarrow> read_result \<Rightarrow> 'd event list"
where
  "script returns parse res = fst (run returns parse res)"

definition completes ::
  "(nat \<Rightarrow> bool) \<Rightarrow> (string \<Rightarrow> ('d::linorder) option) \<Rightarrow> read_result \<Rightarrow> bool"
where
  "completes returns parse res \<longleftrightarrow> snd (run returns parse res) = Some ()"

definition usable :: "(string \<Rightarrow> 'd option) \<Rightarrow> label list \<Rightarrow> string row list \<Rightarrow> bool" where
  "usable parse cols raw \<longleftrightarrow>
     set key_columns \<subseteq> set cols \<and> \<not> list_ex (\<lambda>r. bad_date parse (date r)) raw"

section \<open>A sample run\<close>

text \<open>
  The header of the sample file: the columns of the data set the script
  uses, among others it does not.
\<close>

definition sample_columns :: "label list" where
  "sample_columns =
     [''iso_code'', ''continent'', ''location'', ''date'', ''total_cases'', ''new_cases'',
      ''total_deaths'', ''new_deaths'', ''total_vaccinations'', ''people_vaccinated'',
      ''population'']"

section \<open>Facts\<close>

lemma clean_Inr_iff:
  "(\<exists>df. clean parse raw = Inr df) \<longleftrightarrow> \<not> list_ex (\<lambda>r. bad_date parse (date r)) raw"
proof -
  have "(\<exists>df. clean parse raw = Inr df) \<longleftrightarrow> (\<exists>rs. to_datetime parse raw = Inr rs)"
    by (cases "to_datetime parse raw") (auto simp: clean_def)
  also have "\<dots> \<longleftrightarrow> \<not> list_ex (\<lambda>r. bad_date parse (date r)) raw"
    by (auto simp: to_datetime_Inr_iff bad_date_def list_ex_iff split: option.splits)
  finally show ?thesis .
qed

lemma snd_data_collection:
  "snd (data_collection res) = (case res of Loaded cols raw \<Rightarrow> Some (cols, raw) | _ \<Rightarrow> None)"
  by (simp add: continue_def stop_def split: read_result.splits)

lemma snd_insights [simp]: "snd insights = Some ()"
  by (simp add: insights_def continue_def)

lemma snd_run_Loaded:
  "snd (run returns parse (Loaded cols raw)) =
     (if usable parse cols raw \<and> returns 0 \<and> ''population'' \<in> set cols \<and> returns 1
      then Some () else None)"
proof (cases "clean parse raw")
  case (Inl e)
  then have "list_ex (\<lambda>r. bad_date parse (date r)) raw"
    using clean_Inr_iff [of parse raw] by auto
  with Inl show ?thesis
    by (simp add: run_def snd_then_run snd_data_collection snd_cleaning usable_def
        split: option.splits)
next
  case (Inr df)
  then have "\<not> list_ex (\<lambda>r. bad_date parse (date r)) raw"
    using clean_Inr_iff [of parse raw] by auto
  with Inr show ?thesis
    using snd_exploration_iff [of cols raw, where 'a = 'a]
    by (auto simp: run_def snd_then_run snd_data_collection snd_cleaning usable_def
        snd_vaccination_progress split: option.splits)
qed

lemma snd_run_not_Loaded [simp]:
  "snd (run returns parse FileNotFound) = None" "snd (run returns parse (ReadError e)) = None"
  by (simp_all add: run_def snd_then_run stop_def)

lemma script_not_Nil [simp]: "script returns parse res \<noteq> []"
  by (cases res) (simp_all add: script_def run_def fst_then_run stop_def continue_def)

lemma well_stopped_run: "well_stopped (run returns parse res)"
  unfolding run_def
  apply (intro well_stopped_then_run | simp add: split_def)+
  done

lemma saved_files_run_Loaded:
  "saved_files (fst (run returns parse (Loaded cols raw))) =
     (if usable parse cols raw
      then ''covid_visualizations.png'' #
           (if returns 0 \<and> ''population'' \<in> set cols then [''vaccination_progress.png''] else [])
      else [])"
proof (cases "clean parse raw")
  case (Inl e)
  then have "list_ex (\<lambda>r. bad_date parse (date r)) raw"
    using clean_Inr_iff [of parse raw] by auto
  with Inl show ?thesis
    by (simp add: run_def saved_files_then_run snd_cleaning usable_def continue_def
        split: option.splits)
next
  case (Inr df)
  then have "\<not> list_ex (\<lambda>r. bad_date parse (date r)) raw"
    using clean_Inr_iff [of parse raw] by auto
  with Inr show ?thesis
    using snd_exploration_iff [of cols raw, where 'a = 'a]
    by (auto simp: run_def saved_files_then_run snd_cleaning usable_def continue_def
        snd_vaccination_progress split: option.splits)
qed

lemma last_run_Loaded:
  "last (fst (run returns parse (Loaded cols raw))) =
     (if \<not> set key_columns \<subseteq> set cols then Raise (KeyError (missing_columns cols key_columns))
      else case clean parse raw of
             Inl e \<Rightarrow> Raise e
           | Inr df \<Rightarrow>
               if returns 0 then
                 if ''population'' \<in> set cols then
                   if returns 1 then Print completion_message else Hang
                 else Raise (KeyError [''population''])
               else Hang)"
  using snd_exploration_iff [of cols raw, where 'a = 'a]
  by (cases "snd (exploration cols raw :: ('a, unit) outcome)")
    (auto simp: run_def last_then_run snd_then_run snd_cleaning last_exploration last_cleaning
      snd_vaccination_progress last_vaccination_progress continue_def
      split: sum.splits option.splits)

lemma completion_printed_iff:
  "completion_message \<in> set (printed (fst (run returns parse res))) \<longleftrightarrow> snd (run returns parse res) = Some ()"
  by (cases "snd (data_collection res :: ('a, label list \<times> string row list) outcome)")
    (auto simp: run_def printed_then_run snd_then_run split_def snd_cleaning
      snd_vaccination_progress split: sum.splits option.splits if_splits)

text \<open>The events of a run that passes the cleaning, section by section.\<close>

lemma set_run_cleaned:
  assumes "set key_columns \<subseteq> set cols" and "clean parse raw = Inr df"
  shows "set (fst (run returns parse (Loaded cols raw))) =
           set (fst (exploration cols raw)) \<union> set (fst (cleaning parse raw)) \<union>
           set (fst (eda df)) \<union>
           set (fst (visualization (returns 0) (add_death_rate df)
                       (latest_data (add_death_rate df)))) \<union>
           (if returns 0
            then set (fst (vaccination_progress (returns 1) cols (add_death_rate df))) else {}) \<union>
           (if returns 0 \<and> ''population'' \<in> set cols \<and> returns 1
            then set (fst insights) else {}) \<union>
           {SetStyle ''whitegrid'', Print ''=== 1. Data Collection ==='',
            Print ''Dataset loaded successfully!''}"
proof -
  from assms(1) have "snd (exploration cols raw :: ('a, unit) outcome) = Some ()"
    by (simp add: snd_exploration_iff)
  with assms(2) show ?thesis
    by (auto simp: run_def set_then_run snd_cleaning continue_def snd_vaccination_progress)
qed

lemma sample_usable:
  "usable parse_iso sample_columns sample_raw" "''population'' \<in> set sample_columns"
  by (simp_all add: usable_def sample_columns_def key_columns_def sample_raw_def bad_date_def)

lemma terminates_run_Loaded:
  "terminates (fst (run returns parse (Loaded cols raw))) \<longleftrightarrow>
     (if usable parse cols raw
      then returns 0 \<and> (if ''population'' \<in> set cols then returns 1 else True)
      else True)"
proof (cases "clean parse raw")
  case (Inl e)
  then have "list_ex (\<lambda>r. bad_date parse (date r)) raw"
    using clean_Inr_iff [of parse raw] by auto
  with Inl show ?thesis
    by (simp add: run_def terminates_then_run snd_cleaning usable_def continue_def
        split: option.splits)
next
  case (Inr df)
  then have "\<not> list_ex (\<lambda>r. bad_date parse (date r)) raw"
    using clean_Inr_iff [of parse raw] by auto
  with Inr show ?thesis
    using snd_exploration_iff [of cols raw, where 'a = 'a]
    by (auto simp: run_def terminates_then_run snd_cleaning usable_def continue_def
        snd_vaccination_progress split: option.splits)
qed

lemma sample_completes: "completes (\<lambda>_. True) parse_iso (Loaded sample_columns sample_raw)"
  by (simp add: completes_def snd_run_Loaded sample_usable)

section \<open>Properties\<close>

text \<open>
  Nothing happens after the script has stopped: an
  \<^verbatim>\<open>exit()\<close>, an uncaught exception, or a \<^verbatim>\<open>plt.show()\<close> that does not
  return can only be the last event of a run, and the last event is one of
  them exactly when the run does not reach the end of the file.
\<close>

theorem halts_only_last:
  "list_all (\<lambda>e. \<not> final e) (butlast (script returns parse res)) \<and>
   (final (last (script returns parse res)) \<longleftrightarrow> \<not> completes returns parse res)"
proof (cases "snd (run returns parse res)")
  case None
  with well_stopped_run [of returns parse res] show ?thesis
    by (simp add: well_stopped_def script_def completes_def)
next
  case (Some u)
  with well_stopped_run [of returns parse res]
  have "list_all (\<lambda>e. \<not> final e) (script returns parse res)"
    by (simp add: well_stopped_def script_def)
  then have "list_all (\<lambda>e. \<not> final e) (butlast (script returns parse res))"
    and "\<not> final (last (script returns parse res))"
    by (auto simp: list_all_iff dest: in_set_butlastD)
  with Some show ?thesis by (simp add: completes_def)
qed

text \<open>
  C9 (functional).  The script runs to its last line exactly when the file
  was read, its header has the eight key columns and \<^verbatim>\<open>population\<close>, no
  row, of whatever location, has a date string that does not parse, and both
  calls of \<^verbatim>\<open>plt.show()\<close> return.
\<close>

theorem completes_iff:
  "completes returns parse res \<longleftrightarrow>
     (case res of
        Loaded cols raw \<Rightarrow>
          set key_columns \<subseteq> set cols \<and> ''population'' \<in> set cols \<and>
          \<not> list_ex (\<lambda>r. bad_date parse (date r)) raw \<and> returns 0 \<and> returns 1
      | _ \<Rightarrow> False)"
  by (cases res) (auto simp: completes_def snd_run_Loaded usable_def)

text \<open>
  C10 (safety).  The images written, in order, for every outcome of reading
  the file: none when the file is not read, a key column is absent or a date
  does not parse; otherwise the first, and the second as well when the
  header has a \<^verbatim>\<open>population\<close> column and the first \<^verbatim>\<open>plt.show()\<close> has
  returned: the second image is written only after the first window was
  closed.  No other file is ever written.
\<close>

theorem saved_files_script:
  "saved_files (script returns parse res) =
     (case res of
        Loaded cols raw \<Rightarrow>
          if set key_columns \<subseteq> set cols \<and> \<not> list_ex (\<lambda>r. bad_date parse (date r)) raw
          then ''covid_visualizations.png'' #
               (if returns 0 \<and> ''population'' \<in> set cols
                then [''vaccination_progress.png''] else [])
          else []
      | _ \<Rightarrow> [])"
  by (cases res)
    (simp_all add: script_def saved_files_run_Loaded usable_def, simp_all add: run_def stop_def)

text \<open>
  The two runs on a file that cannot be loaded, event by event.  When the
  file is missing or cannot be read, the script prints
  the banner and one message and leaves through \<^verbatim>\<open>exit()\<close>, whose exit
  status is 0: the caller cannot tell the failure from a success.
\<close>

lemma load_failure_trace:
  "script returns parse FileNotFound =
     [SetStyle ''whitegrid'', Print ''=== 1. Data Collection ==='', Print not_found_message, Exit] \<and>
   script returns parse (ReadError e) =
     [SetStyle ''whitegrid'', Print ''=== 1. Data Collection ==='',
      Print (load_error_message e), Exit] \<and>
   exit_status (script returns parse FileNotFound) = Some 0 \<and>
   exit_status (script returns parse (ReadError e)) = Some 0"
  by (simp add: script_def run_def stop_def exit_status_def)

text \<open>
  C24 (safety).  The last line of the report says that both images were
  saved.  Whenever it is printed this is true.  It is printed whenever both
  were saved and the run did not hang: a run that waits in the second
  \<^verbatim>\<open>plt.show()\<close> has written both images and says nothing.
\<close>

theorem completion_message_truthful:
  "completion_message \<in> set (printed (script returns parse res)) \<longleftrightarrow>
     saved_files (script returns parse res) =
       [''covid_visualizations.png'', ''vaccination_progress.png''] \<and>
     terminates (script returns parse res)"
proof (cases res)
  case (Loaded cols raw)
  then show ?thesis
    by (auto simp: script_def completion_printed_iff saved_files_run_Loaded snd_run_Loaded
        terminates_run_Loaded)
qed (simp_all add: script_def completion_printed_iff, simp_all add: run_def stop_def)

text \<open>
  C22 (error).  How a run ends once the file has been read.  A header without
  one of the key columns raises \<^verbatim>\<open>KeyError\<close> at line 47, naming the absent
  columns; otherwise a date that does not parse raises at line 59; otherwise
  the run hangs at line 160 if the first \<^verbatim>\<open>plt.show()\<close> does not return;
  otherwise a header without \<^verbatim>\<open>population\<close> raises \<^verbatim>\<open>KeyError\<close> at line
  166; otherwise the run hangs at line 176 if the second \<^verbatim>\<open>plt.show()\<close>
  does not return; otherwise the last event is the completion message.
\<close>

theorem last_event:
  "last (script returns parse (Loaded cols raw)) =
     (if \<not> set key_columns \<subseteq> set cols then Raise (KeyError (missing_columns cols key_columns))
      else case clean parse raw of
             Inl e \<Rightarrow> Raise e
           | Inr df \<Rightarrow>
               if returns 0 then
                 if ''population'' \<in> set cols then
                   if returns 1 then Print completion_message else Hang
                 else Raise (KeyError [''population''])
               else Hang)"
  by (simp add: script_def last_run_Loaded)

text \<open>
  C23 (error).  The exit status of the process: 0 when the run completes
  and also when the file could not be read; 1 when the file was read and an
  exception stopped the run; none when the run hangs.
\<close>

theorem exit_status_script:
  "exit_status (script returns parse res) =
     (case res of
        Loaded cols raw \<Rightarrow>
          if completes returns parse res then Some 0
          else if terminates (script returns parse res) then Some 1 else None
      | _ \<Rightarrow> Some 0)"
proof (cases res)
  case (Loaded cols raw)
  have "exit_status (script returns parse res) = status_of (last (fst (run returns parse (Loaded cols raw))))"
    unfolding Loaded by (simp add: exit_status_def) (simp add: script_def)
  then show ?thesis
    unfolding Loaded last_run_Loaded
    using clean_Inr_iff [of parse raw]
    by (auto simp: completes_def snd_run_Loaded usable_def script_def terminates_run_Loaded
        split: sum.splits)
qed (simp_all add: exit_status_def script_def run_def stop_def)

text \<open>
  C27 (safety).  Every line handed to \<^verbatim>\<open>plt.plot\<close>, in every run, has as
  many dates as values, no missing date, and the name of one of the three
  countries as its label: the plotting calls of lines 125 and 143 get
  columns of equal length.
\<close>

theorem plot_lines_well_formed: "list_all well_formed_line (script returns parse res)"
proof -
  have "list_all well_formed_line (fst (visualization b (add_death_rate df) latest))"
    if "snd (cleaning parse raw) = Some df" for b raw latest and df :: "'a row list"
  proof (rule well_formed_visualization)
    fix r assume r: "r \<in> set (add_death_rate df)"
    from that obtain rs where "df = clean_rows rs"
      by (auto simp: snd_cleaning clean_def split: sum.splits)
    with r show "date r \<noteq> None"
      by (auto simp: add_death_rate_map dest: clean_rows_dated)
  qed
  then show ?thesis
    unfolding script_def run_def
    by (simp add: list_all_then_run split_def split: option.splits)
qed

text \<open>
  C25 (refinement).  A run that completes shows the tables of the pipeline:
  the table printed at line 106 and drawn at line 134 is the first summary
  of \<open>summaries\<close>, the bars of line 171 are the second.
\<close>

theorem script_shows_summaries:
  assumes "completes returns parse (Loaded cols raw)"
  shows "case summaries parse raw of
           Inl e \<Rightarrow> False
         | Inr (latest, vacc) \<Rightarrow>
             PrintSummary latest \<in> set (script returns parse (Loaded cols raw)) \<and>
             BarPlot ''location'' ''total_cases'' (bars latest_location latest_total_cases latest)
               \<in> set (script returns parse (Loaded cols raw)) \<and>
             BarPlot ''location'' ''percent_vaccinated''
               (bars vacc_location vacc_percent_vaccinated vacc)
               \<in> set (script returns parse (Loaded cols raw))"
proof -
  from assms have u: "set key_columns \<subseteq> set cols" "''population'' \<in> set cols"
    "returns 0" "returns 1"
    and "\<not> list_ex (\<lambda>r. bad_date parse (date r)) raw"
    by (auto simp: completes_def snd_run_Loaded usable_def split: if_splits)
  then obtain df where df: "clean parse raw = Inr df"
    using clean_Inr_iff [of parse raw] by auto
  show ?thesis
    unfolding script_def set_run_cleaned [OF u(1) df]
    using df
    by (simp add: summaries_def Let_def)
      (simp add: eda_def visualization_def vaccination_progress_def Let_def continue_def u)
qed

theorem script_shows_summaries_witness:
  "completes (\<lambda>_. True) parse_iso (Loaded sample_columns sample_raw) \<and>
   (case summaries parse_iso sample_raw of
      Inl e \<Rightarrow> False
    | Inr (latest, vacc) \<Rightarrow>
        PrintSummary latest \<in> set (script (\<lambda>_. True) parse_iso (Loaded sample_columns sample_raw)) \<and>
        BarPlot ''location'' ''total_cases'' (bars latest_location latest_total_cases latest)
          \<in> set (script (\<lambda>_. True) parse_iso (Loaded sample_columns sample_raw)) \<and>
        BarPlot ''location'' ''percent_vaccinated''
          (bars vacc_location vacc_percent_vaccinated vacc)
          \<in> set (script (\<lambda>_. True) parse_iso (Loaded sample_columns sample_raw)))"
  using script_shows_summaries [OF sample_completes] sample_completes by simp

text \<open>
  An example: the run on the sample file.  It completes; the first
  count of missing values is that of the file, the second has only zeros;
  the chart of vaccinations over time draws Kenya's line from India's last
  count down to Kenya's own, and the lines are drawn in the order of the
  list of line 62, not in the order of the bars.
\<close>

lemma sample_run:
  "completes (\<lambda>_. True) parse_iso (Loaded sample_columns sample_raw) \<and>
   PrintNulls
     [(''date'', 1), (''location'', 1), (''total_cases'', 1), (''new_cases'', 2),
      (''total_deaths'', 1), (''new_deaths'', 2), (''total_vaccinations'', 3),
      (''people_vaccinated'', 4)]
     \<in> set (script (\<lambda>_. True) parse_iso (Loaded sample_columns sample_raw)) \<and>
   PrintNulls (map (\<lambda>c. (c, 0)) key_columns)
     \<in> set (script (\<lambda>_. True) parse_iso (Loaded sample_columns sample_raw)) \<and>
   PlotLine [Some (Date 2021 4 30), Some (Date 2021 5 1)] [Fin 150000000, Fin 900000] ''Kenya''
     \<in> set (script (\<lambda>_. True) parse_iso (Loaded sample_columns sample_raw)) \<and>
   country_lines total_vaccinations (add_death_rate sample_clean) =
     [PlotLine [Some (Date 2021 4 30), Some (Date 2021 5 1)] [Fin 150000000, Fin 900000] ''Kenya'',
      PlotLine [Some (Date 2021 4 30)] [Fin 240000000] ''United States'',
      PlotLine [Some (Date 2021 4 30), Some (Date 2021 5 1)] [Fin 150000000, Fin 150000000]
        ''India'']"
proof -
  have e: "snd (exploration sample_columns sample_raw :: (date, unit) outcome) = Some ()"
    using sample_usable by (simp add: snd_exploration_iff usable_def)
  have l: "country_lines total_vaccinations (add_death_rate sample_clean) =
     [PlotLine [Some (Date 2021 4 30), Some (Date 2021 5 1)] [Fin 150000000, Fin 900000] ''Kenya'',
      PlotLine [Some (Date 2021 4 30)] [Fin 240000000] ''United States'',
      PlotLine [Some (Date 2021 4 30), Some (Date 2021 5 1)] [Fin 150000000, Fin 150000000]
        ''India'']"
    by (simp add: country_lines_def plot_country_def countries_def group_of_def add_death_rate_map sample_clean_def
        Let_def)
  have n1: "null_counts sample_raw =
     [(''date'', 1), (''location'', 1), (''total_cases'', 1), (''new_cases'', 2),
      (''total_deaths'', 1), (''new_deaths'', 2), (''total_vaccinations'', 3),
      (''people_vaccinated'', 4)]"
    by (simp add: null_counts_def isnull_sum_def sample_raw_def)
  have n2: "null_counts sample_clean = map (\<lambda>c. (c, 0)) key_columns"
    by (simp add: null_counts_def isnull_sum_def sample_clean_def key_columns_def)
  have k: "set key_columns \<subseteq> set sample_columns"
    using sample_usable by (simp add: usable_def)
  have "PrintNulls (null_counts sample_raw) \<in> set (fst (exploration sample_columns sample_raw))"
    using e by (auto simp: exploration_def Let_def continue_def stop_def split: if_splits)
  moreover have "PrintNulls (null_counts sample_clean) \<in> set (fst (cleaning parse_iso sample_raw))"
    by (simp add: cleaning_def clean_sample continue_def)
  moreover have "set (country_lines total_vaccinations (add_death_rate sample_clean))
      \<subseteq> set (fst (visualization True (add_death_rate sample_clean) latest))" for latest
    by (auto simp: visualization_def)
  ultimately show ?thesis
    using sample_completes
    unfolding n1 n2 l script_def set_run_cleaned [OF k clean_sample]
    by auto
qed

text \<open>
  C20 (termination).  A run ends unless it reaches a \<^verbatim>\<open>plt.show()\<close> that
  does not return.  It reaches the first one exactly when the file was read,
  has the key columns and all its dates parse, and the second one when
  moreover the first has returned and the header has \<^verbatim>\<open>population\<close>.  So
  every run ends when both calls return, as they do without a display, and a
  run that fails before section 5 ends whatever the display does.
\<close>

theorem run_terminates:
  "terminates (script returns parse res) \<longleftrightarrow>
     (case res of
        Loaded cols raw \<Rightarrow>
          if set key_columns \<subseteq> set cols \<and> \<not> list_ex (\<lambda>r. bad_date parse (date r)) raw
          then returns 0 \<and> (if ''population'' \<in> set cols then returns 1 else True)
          else True
      | _ \<Rightarrow> True)"
  by (cases res)
    (simp_all add: script_def terminates_run_Loaded usable_def, simp_all add: run_def stop_def)

end
