(* ===== verification/Machine.thy ===== *)
theory Machine
  imports Script
begin

text \<open>
  The script as a machine that runs one section at a time.

  The file has seven numbered sections.  Between two sections the state of
  the script is the place it has reached and the variables that the
  sections still to come read: the header and the table \<^verbatim>\<open>df\<close> as loaded,
  then \<^verbatim>\<open>df\<close> as cleaned, then \<^verbatim>\<open>df\<close> with its death rate and
  \<^verbatim>\<open>latest_data\<close>.  A \<open>point\<close> is such a state; \<open>section_at\<close> runs the
  section that starts there and gives its events and the point after it,
  which is \<open>Stopped\<close> when the section left by \<^verbatim>\<open>exit()\<close>, raised, or
  waits in a \<^verbatim>\<open>plt.show()\<close> that does not return.

  \<open>reaches\<close> is the reachability relation of this machine, with the events
  produced so far.  Rule induction over it proves what holds between the
  sections of every run: which table the variables hold, which images
  have been written, and that no event that ends a run has occurred.
  \<open>exec\<close> runs the machine to its end; it is total because every section
  leaves fewer sections to run.  The machine and the function \<open>run\<close> of
  theory \<open>Script\<close> describe the same runs.
\<close>

section \<open>Points and sections\<close>

datatype 'd point =
    At_Collection
  | At_Exploration "label list" "string row list"
  | At_Cleaning "label list" "string row list"
  | At_Eda "label list" "'d row list"
  | At_Visualization "label list" "'d drow list" "summary list"
  | At_Vaccination "label list" "'d drow list"
  | At_Insights
  | Finished
  | Stopped

definition goto :: "('d, 'a) outcome \<Rightarrow> ('a \<Rightarrow> 'd point) \<Rightarrow> 'd event list \<times> 'd point" where
  "goto out k = (fst out, case snd out of None \<Rightarrow> Stopped | Some a \<Rightarrow> k a)"

fun section_at ::
  "(nat \<Rightarrow> bool) \<Rightarrow> (string \<Rightarrow> ('d::linorder) option) \<Rightarrow> read_result \<Rightarrow> 'd point \<Rightarrow>
     ('d event list \<times> 'd point) option"
where
  "section_at returns parse res At_Collection =
     Some (goto (data_collection res) (\<lambda>(cols, raw). At_Exploration cols raw))"
| "section_at returns parse res (At_Exploration cols raw) =
     Some (goto (exploration cols raw) (\<lambda>_. At_Cleaning cols raw))"
| "section_at returns parse res (At_Cleaning cols raw) =
     Some (goto (cleaning parse raw) (\<lambda>df. At_Eda cols df))"
| "section_at returns parse res (At_Eda cols df) =
     Some (goto (eda df) (\<lambda>(df', latest). At_Visualization cols df' latest))"
| "section_at returns parse res (At_Visualization cols df latest) =
     Some (goto (visualization (returns 0) df latest) (\<lambda>_. At_Vaccination cols df))"
| "section_at returns parse res (At_Vaccination cols df) =
     Some (goto (vaccination_progress (returns 1) cols df) (\<lambda>_. At_Insights))"
| "section_at returns parse res At_Insights = Some (goto insights (\<lambda>_. Finished))"
| "section_at returns parse res Finished = None"
| "section_at returns parse res Stopped = None"

text \<open>The sections still to run from a point.\<close>

fun sections_left :: "'d point \<Rightarrow> nat" where
  "sections_left At_Collection = 7"
| "sections_left (At_Exploration cols raw) = 6"
| "sections_left (At_Cleaning cols raw) = 5"
| "sections_left (At_Eda cols df) = 4"
| "sections_left (At_Visualization cols df latest) = 3"
| "sections_left (At_Vaccination cols df) = 2"
| "sections_left At_Insights = 1"
| "sections_left Finished = 0"
| "sections_left Stopped = 0"

section \<open>Reachable points\<close>

inductive reaches ::
  "(nat \<Rightarrow> bool) \<Rightarrow> (string \<Rightarrow> ('d::linorder) option) \<Rightarrow> read_result \<Rightarrow>
     'd event list \<Rightarrow> 'd point \<Rightarrow> bool"
  for returns parse res
where
  start: "reaches returns parse res [] At_Collection"
| step: "reaches returns parse res es p \<Longrightarrow> section_at returns parse res p = Some (es', p') \<Longrightarrow>
     reaches returns parse res (es @ es') p'"

inductive_cases reaches_NilE: "reaches returns parse res [] p"

fun_cases section_at_NoneE: "section_at returns parse res p = None"

code_pred reaches .

section \<open>What holds between the sections\<close>

definition images :: "string list" where
  "images = [''covid_visualizations.png'', ''vaccination_progress.png'']"

fun images_at :: "'d point \<Rightarrow> nat list" where
  "images_at (At_Vaccination cols df) = [1]"
| "images_at At_Insights = [2]"
| "images_at Finished = [2]"
| "images_at Stopped = [0, 1, 2]"
| "images_at p = [0]"

text \<open>
  The events so far: none of them ends a run unless the machine has
  stopped, and then it is the last; the images written are those due at
  the point.
\<close>

definition trace_ok :: "'d event list \<Rightarrow> 'd point \<Rightarrow> bool" where
  "trace_ok es p \<longleftrightarrow>
     well_stopped (es, if p = Stopped then None else Some ()) \<and>
     list_ex (\<lambda>n. saved_files es = take n images) (images_at p)"

text \<open>
  The variables: the table at a point is the one the pipeline computes
  from the file, and the header has passed the checks made so far.
\<close>

definition table_from ::
  "(string \<Rightarrow> 'd option) \<Rightarrow> read_result \<Rightarrow> label list \<Rightarrow> ('d row list \<Rightarrow> bool) \<Rightarrow> bool"
where
  "table_from parse res cols P \<longleftrightarrow>
     (case res of
        Loaded cols' raw \<Rightarrow>
          cols' = cols \<and> set key_columns \<subseteq> set cols \<and>
          (case clean parse raw of Inl e \<Rightarrow> False | Inr df \<Rightarrow> P df)
      | _ \<Rightarrow> False)"

fun table_ok :: "(string \<Rightarrow> ('d::linorder) option) \<Rightarrow> read_result \<Rightarrow> 'd point \<Rightarrow> bool" where
  "table_ok parse res At_Collection \<longleftrightarrow> True"
| "table_ok parse res (At_Exploration cols raw) \<longleftrightarrow> res = Loaded cols raw"
| "table_ok parse res (At_Cleaning cols raw) \<longleftrightarrow>
     res = Loaded cols raw \<and> set key_columns \<subseteq> set cols"
| "table_ok parse res (At_Eda cols df) \<longleftrightarrow> table_from parse res cols (\<lambda>df0. df = df0)"
| "table_ok parse res (At_Visualization cols df latest) \<longleftrightarrow>
     table_from parse res cols (\<lambda>df0. df = add_death_rate df0 \<and> latest = latest_data df)"
| "table_ok parse res (At_Vaccination cols df) \<longleftrightarrow>
     table_from parse res cols (\<lambda>df0. df = add_death_rate df0)"
| "table_ok parse res At_Insights \<longleftrightarrow>
     (case res of Loaded cols raw \<Rightarrow> usable parse cols raw \<and> ''population'' \<in> set cols
      | _ \<Rightarrow> False)"
| "table_ok parse res Finished \<longleftrightarrow>
     (case res of Loaded cols raw \<Rightarrow> usable parse cols raw \<and> ''population'' \<in> set cols
      | _ \<Rightarrow> False)"
| "table_ok parse res Stopped \<longleftrightarrow> True"

section \<open>Running to the end\<close>

lemma section_at_decreases:
  "section_at returns parse res p = Some (es, p') \<Longrightarrow> sections_left p' < sections_left p"
  by (cases p) (auto simp: goto_def split: option.splits)

function exec ::
  "(nat \<Rightarrow> bool) \<Rightarrow> (string \<Rightarrow> ('d::linorder) option) \<Rightarrow> read_result \<Rightarrow> 'd point \<Rightarrow>
     'd event list \<times> 'd point"
where
  "exec returns parse res p =
     (case section_at returns parse res p of
        None \<Rightarrow> ([], p)
      | Some (es, p') \<Rightarrow>
          (es @ fst (exec returns parse res p'), snd (exec returns parse res p')))"
  by pat_completeness auto

termination
  by (relation "measure (\<lambda>(returns, parse, res, p). sections_left p)")
    (auto dest: section_at_decreases)

declare exec.simps [simp del]

text \<open>Where a run ends: at the end of the file or stopped.\<close>

fun fin :: "unit option \<Rightarrow> 'd point" where
  "fin None = Stopped"
| "fin (Some u) = Finished"

section \<open>Facts: one section\<close>

lemma goto_simps [simp]:
  "fst (goto out k) = fst out"
  "snd (goto out k) = (case snd out of None \<Rightarrow> Stopped | Some a \<Rightarrow> k a)"
  by (simp_all add: goto_def)

lemma section_at_None_iff:
  "section_at returns parse res p = None \<longleftrightarrow> p = Finished \<or> p = Stopped"
  by (auto elim: section_at_NoneE)

lemma section_at_fin [simp]: "section_at returns parse res (fin x) = None"
  by (cases x) simp_all

lemma goto_eq_iff:
  "goto out k = (es', p') \<longleftrightarrow>
     es' = fst out \<and> p' = (case snd out of None \<Rightarrow> Stopped | Some a \<Rightarrow> k a)"
  by (auto simp: goto_def)

lemma well_stopped_append:
  assumes "well_stopped (es, Some ())" and "well_stopped out"
  shows "well_stopped (es @ fst out, if snd out = None then None else Some ())"
proof -
  have "well_stopped (then_run (es, Some ()) (\<lambda>_. out))"
    using assms by (intro well_stopped_then_run) simp_all
  then show ?thesis
    by (cases "snd out") (simp_all add: well_stopped_def then_run_def)
qed

text \<open>A section keeps the trace in order, given what it saves.\<close>

lemma trace_ok_goto:
  assumes "trace_ok es p" and "p \<noteq> Stopped" and "well_stopped out"
    and "\<And>a. k a \<noteq> Stopped"
    and "list_ex (\<lambda>n. saved_files es @ saved_files (fst out) = take n images)
           (images_at (snd (goto out k)))"
  shows "trace_ok (es @ fst out) (snd (goto out k))"
proof -
  have "snd (goto out k) = Stopped \<longleftrightarrow> snd out = None"
    using assms(4) by (cases "snd out") simp_all
  moreover have "well_stopped (es, Some ())"
    using assms(1,2) by (simp add: trace_ok_def)
  ultimately show ?thesis
    using well_stopped_append [OF _ assms(3), of es] assms(5) by (simp add: trace_ok_def)
qed

lemma saved_files_data_collection [simp]: "saved_files (fst (data_collection res)) = []"
  by (cases res) (simp_all add: continue_def stop_def)

lemma trace_ok_saved: "trace_ok es p \<Longrightarrow> list_ex (\<lambda>n. saved_files es = take n images) (images_at p)"
  by (simp add: trace_ok_def)

lemma trace_ok_step:
  assumes "trace_ok es p" and "section_at returns parse res p = Some (es', p')"
  shows "trace_ok (es @ es') p'"
proof -
  note saved = trace_ok_saved [OF assms(1)]
    and goto = trace_ok_goto [OF assms(1), unfolded goto_simps]
  from assms(2) show ?thesis
    by (cases rule: section_at.elims; (simp only: goto_def prod.inject option.inject)?;
        (elim conjE)?; hypsubst)
      ((rule goto; insert saved;
        auto simp: images_def snd_vaccination_progress split: option.splits if_splits)+, simp_all)
qed

lemma table_from_Loaded:
  "table_from parse (Loaded cols raw) cols' P \<longleftrightarrow>
     cols = cols' \<and> set key_columns \<subseteq> set cols \<and>
     (case clean parse raw of Inl e \<Rightarrow> False | Inr df \<Rightarrow> P df)"
  by (auto simp: table_from_def)

lemma table_from_usable:
  "table_from parse res cols P \<Longrightarrow> \<exists>raw. res = Loaded cols raw \<and> usable parse cols raw"
  using clean_Inr_iff [of parse]
  by (auto simp: table_from_def usable_def split: read_result.splits sum.splits)

lemma table_ok_step:
  assumes "table_ok parse res p" and "section_at returns parse res p = Some (es', p')"
  shows "table_ok parse res p'"
proof -
  note usable = table_from_usable [of parse res _ "\<lambda>df0. _ = add_death_rate df0"]
    and explored = snd_exploration_iff [where 'a = 'a]
  from assms(2) show ?thesis
    by (cases rule: section_at.elims; insert assms(1) usable)
      (auto simp: goto_def snd_data_collection explored snd_cleaning snd_vaccination_progress
        table_from_def split: option.splits read_result.splits sum.splits if_splits)
qed

section \<open>Facts: running to the end\<close>

lemma exec_terminal [simp]:
  "exec returns parse res Finished = ([], Finished)"
  "exec returns parse res Stopped = ([], Stopped)"
  by (simp_all add: exec.simps)

lemma exec_step:
  "section_at returns parse res p = Some (es, p') \<Longrightarrow>
     exec returns parse res p = (es @ fst (exec returns parse res p'), snd (exec returns parse res p'))"
  by (subst exec.simps) simp

lemma exec_ends: "section_at returns parse res (snd (exec returns parse res p)) = None"
proof (induction returns parse res p rule: exec.induct)
  case (1 returns parse res p)
  then show ?case
    by (cases "section_at returns parse res p") (auto simp: exec.simps [of returns parse res p])
qed

text \<open>
  Running from a point is running its section and then the rest: the
  sequencing \<open>then_run\<close> of theory \<open>Trace\<close>.
\<close>

lemma exec_goto:
  assumes "section_at returns parse res p = Some (goto out k)"
    and "\<And>a. snd out = Some a \<Longrightarrow> exec returns parse res (k a) = (fst (f a), fin (snd (f a)))"
  shows "exec returns parse res p = (fst (then_run out f), fin (snd (then_run out f)))"
proof (cases "snd out")
  case None
  then show ?thesis
    using exec_step [OF assms(1) [unfolded goto_def]] by (simp add: then_run_def)
next
  case (Some a)
  then show ?thesis
    using exec_step [OF assms(1) [unfolded goto_def]] assms(2) [OF Some]
    by (simp add: then_run_def split_def)
qed

lemma exec_insights:
  "exec returns parse res At_Insights = (fst insights, fin (snd insights))"
  using exec_goto [of returns parse res At_Insights insights "\<lambda>_. Finished" "continue []"]
  by (simp add: continue_def [of "[]"])

lemma exec_run:
  "exec returns parse res At_Collection =
     (fst (run returns parse res), fin (snd (run returns parse res)))"
  unfolding run_def
  by (rule exec_goto, rule section_at.simps, (clarify)?)+ (rule exec_insights)

lemma reaches_exec:
  "reaches returns parse res es p \<Longrightarrow>
     reaches returns parse res (es @ fst (exec returns parse res p)) (snd (exec returns parse res p))"
proof (induction returns parse res p arbitrary: es rule: exec.induct)
  case (1 returns parse res p)
  show ?case
  proof (cases "section_at returns parse res p")
    case None
    with "1.prems" show ?thesis by (simp add: exec.simps [of returns parse res p])
  next
    case (Some a)
    obtain es' p' where a: "a = (es', p')" by (cases a)
    from "1.prems" Some have "reaches returns parse res (es @ es') p'"
      unfolding a by (rule reaches.step)
    from "1.IH" [OF Some a [symmetric] this] show ?thesis
      by (simp add: exec_step [OF Some [unfolded a]])
  qed
qed

text \<open>Every reachable point lies on the one run of the machine.\<close>

lemma reaches_unique:
  "reaches returns parse res es p \<Longrightarrow>
     es @ fst (exec returns parse res p) = fst (exec returns parse res At_Collection) \<and>
     snd (exec returns parse res p) = snd (exec returns parse res At_Collection)"
  by (induction rule: reaches.induct) (simp_all add: exec_step)

lemma reaches_script:
  "reaches returns parse res (script returns parse res) (fin (snd (run returns parse res)))"
  using reaches_exec [OF reaches.start, of returns parse res]
  by (simp add: exec_run script_def)

text \<open>Every section prints its heading, so only the start has no events.\<close>

lemma section_at_not_Nil:
  "section_at returns parse res p = Some (es', p') \<Longrightarrow> es' \<noteq> []"
  by (cases p; cases res) (auto simp: goto_eq_iff insights_def continue_def stop_def)

lemma reaches_Nil_iff: "reaches returns parse res [] p \<longleftrightarrow> p = At_Collection"
  by (auto elim: reaches_NilE dest: section_at_not_Nil intro: reaches.start)

lemma reaches_prefix:
  "reaches returns parse res es p \<Longrightarrow> take (length es) (script returns parse res) = es"
  using reaches_unique [of returns parse res es p]
  by (auto simp: exec_run script_def dest: arg_cong [where f = "take (length es)"])

section \<open>Properties\<close>

text \<open>
  C21 (invariant).  Between the sections of every run, by induction over the
  sections run so far: the variables hold the tables the pipeline computes
  from the file (the cleaned table after section 3, the table with its
  death rate and the summary of its latest rows after section 4), the
  header has the columns checked so far, no image has been written before
  section 5, the first one after it and both after section 6, and no
  \<^verbatim>\<open>exit()\<close>, exception or blocked call has occurred unless the run has
  stopped, where it is the last event.
\<close>

theorem reaches_invariant:
  assumes "reaches returns parse res es p"
  shows "table_ok parse res p \<and> trace_ok es p"
  using assms
proof (induction rule: reaches.induct)
  case start
  show ?case by (simp add: trace_ok_def well_stopped_def images_def)
next
  case (step es p es' p')
  then show ?case
    using table_ok_step [of parse res p returns es' p'] trace_ok_step [of es p returns parse res es' p']
    by simp
qed

theorem reaches_invariant_witness:
  "table_ok parse_iso (Loaded sample_columns sample_raw) (Finished :: date point) \<and>
   trace_ok (script (\<lambda>_. True) parse_iso (Loaded sample_columns sample_raw)) (Finished :: date point)"
  using reaches_invariant [OF reaches_script [of "\<lambda>_. True" parse_iso "Loaded sample_columns sample_raw"]]
    sample_completes
  by (simp add: completes_def)

text \<open>
  The machine and the script agree.  Running section
  after section from the first line always comes to an end, in at most
  seven steps, and the only point where it ends is the one \<open>run\<close> gives:
  with the events of \<open>script\<close>, at the end of the file when the run
  completes and stopped otherwise.
\<close>

lemma machine_runs_script:
  "reaches returns parse res es p \<and> section_at returns parse res p = None \<longleftrightarrow>
     es = script returns parse res \<and>
     p = (if completes returns parse res then Finished else Stopped)"
proof -
  have fin: "fin (snd (run returns parse res)) =
      (if completes returns parse res then Finished else Stopped)"
    by (cases "snd (run returns parse res)") (simp_all add: completes_def)
  show ?thesis
  proof
    assume "reaches returns parse res es p \<and> section_at returns parse res p = None"
    then show "es = script returns parse res \<and>
        p = (if completes returns parse res then Finished else Stopped)"
      using reaches_unique [of returns parse res es p]
      by (simp add: exec.simps [of returns parse res p] exec_run script_def fin)
  next
    assume "es = script returns parse res \<and>
        p = (if completes returns parse res then Finished else Stopped)"
    then show "reaches returns parse res es p \<and> section_at returns parse res p = None"
      using reaches_script [of returns parse res] by (simp add: fin [symmetric])
  qed
qed

end
