(* ===== verification/Spec2Isabelle.thy ===== *)
theory Spec2Isabelle
  imports Machine
begin

text \<open>
  \<^bold>\<open>A verification of the COVID-19 data tracker\<close>, the script
  \<^verbatim>\<open>src/covid_traker.py\<close>.

  \<^bold>\<open>The program.\<close>  The script reads \<^verbatim>\<open>owid-covid-data.csv\<close> into a pandas
  table, prints a preview of it, cleans it (date conversion, selection of
  three countries, removal of rows without date, filling of missing
  numbers), derives a death rate, summarises the rows of the latest date per
  country, draws four charts into one image, derives a vaccination
  percentage, draws it into a second image, and prints fixed remarks.  It
  has no function of its own; its seven numbered sections run top to bottom
  and communicate through the variables \<^verbatim>\<open>df\<close>, \<^verbatim>\<open>countries\<close>,
  \<^verbatim>\<open>key_columns\<close>, \<^verbatim>\<open>latest_data\<close> and \<^verbatim>\<open>latest_vaccination\<close>.

  \<^bold>\<open>The model.\<close>  A table is the list of its rows, in file order; a row is a
  record of the nine columns the script reads (\<open>row\<close>), extended by
  \<^verbatim>\<open>death_rate\<close> (\<open>drow\<close>) and \<^verbatim>\<open>percent_vaccinated\<close> (\<open>vrow\<close>) where the
  script adds these columns.  A numeric cell is an \<open>fval\<close>: a real number,
  one of the two infinities, or NaN, which pandas uses for a missing number.
  A location or date cell is an option.  A statement of the script that
  assigns to \<^verbatim>\<open>df\<close> is a function from tables to tables; a statement that
  can raise returns a sum type with the error on the left; a statement with
  an effect outside the process is an event of the trace.  The model has
  three inputs: the result of reading the file, the reader of date strings,
  and whether each of the two calls of \<^verbatim>\<open>plt.show()\<close> returns.  Every
  definition is executable, and the sample table of \<open>Sample_Data\<close> runs
  through all of them by simplification.

  \<^bold>\<open>The theories\<close>, in the order of their dependencies:
  \<^descr>[\<open>Covid_Prelude\<close>] the collections of facts (\<open>frame_defs\<close>, the
    definitions that run a stage on a concrete table, and \<open>frame_simps\<close>,
    rewrite rules about the table operations), the type synonyms \<open>label\<close> and \<open>column\<close>,
    facts about \<open>filter\<close>, \<open>last\<close>, \<open>take\<close> and sorted duplicate-free
    lists that the other theories share, and Python's \<^verbatim>\<open>for\<close> statement
    over a list, \<open>for_each\<close>, as a while loop that is proved to end with
    the results of the body in list order.
  \<^descr>[\<open>Float_Cell\<close>] the cells: \<open>fval\<close>, \<open>isnull\<close>, \<open>fillna\<close>, division
    \<open>fdiv\<close>, multiplication \<open>fmul\<close>, addition \<open>fadd\<close>, subtraction \<open>fsub\<close>
    and square root \<open>fsqrt\<close> with the results numpy gives on zero,
    infinity and NaN, the IEEE comparison \<open>fle\<close>, and the order in which
    numpy sorts (NaN last).  The cells are instances of \<open>comm_monoid_add\<close>
    and \<open>linorder\<close>, so that \<open>sum_list\<close>, \<open>sort\<close>, \<open>min\<close> and \<open>max\<close> are
    the library's.  Lemmas: when a quotient or product is missing or
    finite; \<open>fle\<close> is a total order on what is not NaN and agrees with the
    sorting order there.
  \<^descr>[\<open>Dates\<close>] calendar dates with their order as an instance of
    \<open>linorder\<close>, and \<open>parse_iso\<close>, a reader of \<^verbatim>\<open>YYYY-MM-DD\<close>.  The pipeline
    is stated over any linear order and any reader; this is the instance
    used by the examples, and no theorem about the script depends on it.
  \<^descr>[\<open>Frame\<close>] the pandas operations the script calls, each with the
    meaning the pandas documentation gives it: \<open>isin\<close> (line 63),
    \<open>dropna_subset\<close> (66), column assignment \<open>set_column\<close>, forward fill
    \<open>ffill\<close> (73--74), the \<^verbatim>\<open>last\<close> aggregate \<open>last_valid\<close> (99--102),
    \<open>date_max\<close>, \<open>group_keys\<close> and \<open>group_of\<close> (98), \<open>isnull_sum\<close> (47), and
    the errors \<open>py_error\<close>.  Lemmas: what a forward fill puts at each index,
    that it is idempotent, leaves an entry missing exactly when nothing
    is present up to it, and keeps a column non-decreasing; the maximum of
    a date column; the keys of a group-by are sorted and distinct.
  \<^descr>[\<open>Describe\<close>] line 91, \<^verbatim>\<open>describe()\<close>: of a column the count of the
    entries present, their mean (\<open>column_mean\<close>), standard deviation with
    \<open>n - 1\<close> in the denominator (\<open>column_std\<close>), minimum, maximum, and the
    quartiles (\<open>quantile\<close>) by linear interpolation at the position
    \<open>q (n - 1)\<close> of the sorted entries (\<open>virtual_index\<close>, \<open>previous_index\<close>,
    \<open>next_index\<close>, \<open>gamma\<close>, \<open>lerp\<close>); \<open>describe\<close> is the table of these
    for a list of columns.  The script only calls \<^verbatim>\<open>describe()\<close>: the
    formulas of the statistics are those of the pandas and numpy
    documentation, not code of the repository.  Lemmas, for a column of finite or missing
    entries: the statistics as formulas on the reals; a quantile lies
    between its two neighbours in the sorted column, does not decrease
    with \<open>q\<close>, is the minimum at 0 and the maximum at 1; the mean lies
    between minimum and maximum; the standard deviation is 0 exactly when
    every entry equals the mean.  Theorems: the order of the eight numbers
    (\<open>ordered_stats\<close>), and the table of an example column.
  \<^descr>[\<open>Sample_Data\<close>] a table of eight rows in the layout of the data set
    that takes every branch of the pipeline.
  \<^descr>[\<open>Cleaner\<close>] lines 59--74, one definition per statement
    (\<open>to_datetime\<close>, \<open>filter_countries\<close>, \<open>drop_missing_keys\<close>,
    \<open>fill_counts\<close>, \<open>ffill_vaccinations\<close>) and their compositions
    \<open>clean_rows\<close> and \<open>clean\<close>; beside them the specification's reading of
    the fill, grouped by location (\<open>ffill_grouped\<close>), and its Cleaned Record
    (\<open>cleaned\<close>).  Theorems: the invariant of the cleaned table, its rows
    one by one, idempotence, the errors of the date conversion, and the
    relation to the grouped fill: equal when every location starts with a
    value; otherwise different exactly at the rows that have no value of
    their own location before them but a value of another location, which
    is the value they get; and that the counts of one location stay
    non-decreasing when every location starts with a value.
  \<^descr>[\<open>Deriver\<close>] lines 94--95 and 166: \<open>add_death_rate\<close> and
    \<open>add_percent_vaccinated\<close>.  Theorems: the exact value of the death rate,
    its value when the cases are zero, that it is never missing, and the
    ranges of both metrics under the conditions that give them.
  \<^descr>[\<open>Aggregator\<close>] lines 98--103 and 167: \<open>latest_rows\<close>, \<open>agg_last\<close>,
    \<open>summarise\<close>, \<open>latest_data\<close> and \<open>latest_vaccination\<close>.  Theorems: the
    summary has exactly the locations with a row that no row of the table
    is dated after, sorted without duplicates, and each of its rows holds
    the last entries present of its group.
  \<^descr>[\<open>Pipeline\<close>] \<open>summaries\<close>, the data flow from the loaded table to the
    two summary tables, without the effects.
  \<^descr>[\<open>Trace\<close>] the effects: the type \<open>event\<close> of the calls to \<^verbatim>\<open>print\<close>,
    matplotlib, seaborn and \<^verbatim>\<open>exit\<close>; an \<open>outcome\<close> is the events of a
    section with the value it hands on, or none if it stopped; \<open>then_run\<close>
    runs a section after another; \<open>show_figure\<close> is \<^verbatim>\<open>plt.show()\<close>, which
    either returns or leaves the event \<open>Hang\<close> as the last of the trace.
    Observations of a trace: \<open>printed\<close>, \<open>saved_files\<close>, \<open>exit_status\<close>,
    \<open>halts\<close>, \<open>terminates\<close>.
  \<^descr>[\<open>Loader\<close>] section 1 (lines 13--27), \<open>data_collection\<close>, over the
    three results of reading the file.
  \<^descr>[\<open>Reporter\<close>] the printing sections 2, 3, 4 and 7 (\<open>exploration\<close>,
    \<open>cleaning\<close>, \<open>eda\<close>, \<open>insights\<close>) with the counts of missing values
    \<open>null_counts\<close> and the statistics \<open>describe\<close> of the six columns
    \<open>described\<close>.  Theorems: what the count after cleaning shows, that
    the counts of the statistics and the counts of missing values add up
    to the number of rows, and that for a file whose counts are numbers
    or missing every row of the statistics printed is in order, because
    cleaning keeps such counts (\<open>clean_numeric\<close>).
  \<^descr>[\<open>Visualizer\<close>] sections 5 and 6 (\<open>visualization\<close>,
    \<open>vaccination_progress\<close>): each plotting call with its data.  The loop
    over the countries is \<open>country_loop\<close>, which ends with the three lines
    \<open>country_lines\<close> in the order of the list of line 62.
  \<^descr>[\<open>Script\<close>] \<open>run\<close> and \<open>script\<close>, lines 13--194 as a whole.
    Theorems: when a run completes, when it terminates, how it ends
    otherwise, which images it has written by then, its exit status, that
    nothing follows a stop, that
    the final message is true when printed, that the charts get well-formed
    lines, and that the tables shown are those of \<open>summaries\<close>.
  \<^descr>[\<open>Machine\<close>] the same script as a machine that runs one section at
    a time: a \<open>point\<close> is a place between two sections with the variables
    the later sections read, \<open>section_at\<close> runs the section that starts
    there, \<open>reaches\<close> is the inductive reachability relation with the
    events so far, and \<open>exec\<close> runs to the end.  Theorems: the invariant
    of the reachable points (\<open>table_ok\<close> for the variables, \<open>trace_ok\<close>
    for the events), by rule induction, and that the machine ends exactly
    where \<open>run\<close> does, with the trace \<open>script\<close>.
  \<^descr>[\<open>Spec2Isabelle\<close>] this theory: the properties that need cleaning,
    derivation and aggregation together, and the sample table run end to
    end as an example.

  \<^bold>\<open>Assumptions of the model.\<close>
  \<^item> Numbers are exact reals.  Rounding, overflow to infinity and the sign
    of zero of 64-bit floats are not modelled; division by zero, infinities
    and NaN are.  The counts of the data set are integers far below
    \<^verbatim>\<open>2**53\<close>, which floats represent exactly; the two quotients are rounded
    by the machine and exact here.
  \<^item> The numeric columns hold numbers or nothing (dtype \<^verbatim>\<open>float64\<close>), as
    they do in the data set.
  \<^item> pandas behaves as versions 1.x and 2.x do: \<^verbatim>\<open>fillna(method='ffill')\<close>
    is accepted, group-by sorts its keys and drops missing keys, \<^verbatim>\<open>last\<close>
    skips missing entries, comparisons with a missing date are false.
  \<^item> The reader of dates is a parameter of the model: any function from
    strings to optional dates.  The conversion raises on the first string
    the reader rejects.
  \<^item> The result of reading the file is an input: the model does not read
    files.  A table comes with the names of its columns; a cell of a column
    that is not in the header has no meaning.
  \<^item> Printing and plotting calls do not raise.  Whether \<^verbatim>\<open>plt.show()\<close>
    returns is not assumed: it is the input \<open>returns\<close> of \<open>run\<close>, one
    answer for the call of line 160 and one for the call of line 176.
  \<^item> The statistics of line 91 follow pandas and numpy: missing entries
    are skipped, the standard deviation divides by \<open>n - 1\<close>, the quantiles
    interpolate linearly, and of no entries everything but the count is
    NaN.
  \<^item> Strings are lists of characters; the order of location names is the
    lexicographic order of their characters, which is Python's on ASCII.

  \<^bold>\<open>Bounds and fuel.\<close>  None are needed.  A pandas operation over a
  column is a structural recursion over a finite list.  The \<^verbatim>\<open>for\<close> over
  the countries is a \<open>while_option\<close> loop, which has a value only if the
  loop ends; \<open>for_each_map\<close> proves that it does, for every list and
  body.  The machine's \<open>exec\<close> is a general recursion; it terminates
  because each section leaves fewer sections to run (\<open>sections_left\<close>, at
  most seven).  The only way a run does not end is a \<^verbatim>\<open>plt.show()\<close> that does
  not return, which is an input and shows in the trace as \<open>Hang\<close>.

  \<^bold>\<open>Not modelled.\<close>  What the libraries make of a value handed to them,
  none of which is code of the script or changes what the script computes
  afterwards: the characters pandas prints for a table and the layout of
  \<^verbatim>\<open>df.info()\<close> (line 42), where the event carries the table; the
  rendering of the charts, that is the 30 bins and the density estimate
  seaborn computes for the histogram of line 148, colours, pixels and the
  bytes of the images, where the event carries the column and the
  parameters.  Warnings written to the error stream.  The columns of the
  data set the script never reads.  Rounding of floats (see the
  assumptions).  With these the script has no statement left that is not
  a definition of the development.
\<close>

section \<open>The sample run\<close>

definition india_summary :: summary where
  "india_summary =
     \<lparr>latest_location = ''India'', latest_total_cases = Fin 20000000,
      latest_total_deaths = Fin 220000, latest_total_vaccinations = Fin 150000000,
      latest_death_rate = Fin 0.011\<rparr>"

definition kenya_summary :: summary where
  "kenya_summary =
     \<lparr>latest_location = ''Kenya'', latest_total_cases = Fin 0,
      latest_total_deaths = Fin 0, latest_total_vaccinations = Fin 900000,
      latest_death_rate = Fin 0\<rparr>"

lemmas pipeline_eval =
  india_summary_def kenya_summary_def sample_clean_def dated_row_def
  frame_defs

lemma sample_latest:
  "latest_data (add_death_rate (clean_rows sample_clean)) = [india_summary, kenya_summary]"
  by (simp add: pipeline_eval)

section \<open>Properties that span the stages\<close>

text \<open>
  C8 (functional).  On a cleaned table the skipping of missing entries by
  \<^verbatim>\<open>last\<close> never shows: each summary row belongs to a non-empty group of
  latest rows of its location, and its cases, deaths, vaccinations and death
  rate are those of the last row of that group, in the order the cleaning
  stage left the rows in.
\<close>

theorem summary_is_last_row:
  assumes "s \<in> set (latest_data (add_death_rate (clean_rows rs)))"
  shows "let g = group_of location (latest_location s) (latest_rows (add_death_rate (clean_rows rs)))
         in g \<noteq> [] \<and>
            latest_total_cases s = total_cases (last g) \<and>
            latest_total_deaths s = total_deaths (last g) \<and>
            latest_total_vaccinations s = total_vaccinations (last g) \<and>
            latest_death_rate s = death_rate (last g)"
proof -
  let ?T = "add_death_rate (clean_rows rs)"
  let ?g = "group_of location (latest_location s) (latest_rows ?T)"
  from assms have s: "s = summarise (latest_rows ?T) (latest_location s)"
    and ne: "?g \<noteq> []"
    by (auto simp: in_latest_data_iff group_of_def filter_empty_conv)
  have sub: "set ?g \<subseteq> set ?T"
    using latest_rows_subset [of ?T] by (auto simp: group_of_def)
  have valid: "\<not> isnull (total_cases r) \<and> \<not> isnull (total_deaths r) \<and> \<not> isnull (death_rate r)"
    if "r \<in> set ?g" for r
  proof -
    from that sub obtain r0 where "r0 \<in> set (clean_rows rs)"
      "r = with_death_rate (death_rate_of r0) r0"
      by (auto elim: in_add_death_rate)
    moreover from this(1) have "cleaned r0" by (rule in_clean_rows_cleaned)
    ultimately show ?thesis by (simp add: cleaned_def)
  qed
  have "settled isnull (map total_vaccinations ?T)"
    by (simp add: frame_simps clean_rows_total_vaccinations)
  then have "settled isnull (map total_vaccinations ?g)"
    by (auto simp: group_of_def latest_rows_def intro: settled_filter split: option.splits)
  from this ne have "agg_last total_vaccinations ?g = total_vaccinations (last ?g)"
    by (rule agg_last_settled)
  moreover have "agg_last total_cases ?g = total_cases (last ?g)"
    "agg_last total_deaths ?g = total_deaths (last ?g)"
    "agg_last death_rate ?g = death_rate (last ?g)"
    using ne valid by (simp_all add: agg_last_all_valid)
  ultimately show ?thesis
    using ne s by (metis summarise_simps)
qed

theorem summary_is_last_row_witness:
  "india_summary \<in> set (latest_data (add_death_rate (clean_rows sample_clean))) \<and>
   (let g = group_of location (latest_location india_summary)
              (latest_rows (add_death_rate (clean_rows sample_clean)))
    in g \<noteq> [] \<and>
       latest_total_cases india_summary = total_cases (last g) \<and>
       latest_total_deaths india_summary = total_deaths (last g) \<and>
       latest_total_vaccinations india_summary = total_vaccinations (last g) \<and>
       latest_death_rate india_summary = death_rate (last g))"
proof -
  have h: "india_summary \<in> set (latest_data (add_death_rate (clean_rows sample_clean)))"
    by (simp add: sample_latest)
  show ?thesis
    using h summary_is_last_row [OF h] by simp
qed

text \<open>
  C15 (error).  The pipeline from the loaded table to the summaries fails
  exactly when some row of the loaded table, of any location, has a date
  string that does not parse; otherwise it produces both summary tables.
\<close>

theorem summaries_error_iff:
  "(\<exists>e. summaries parse raw = Inl e) \<longleftrightarrow> (\<exists>r \<in> set raw. bad_date parse (date r))"
proof -
  have "(\<exists>e. summaries parse raw = Inl e) \<longleftrightarrow> \<not> (\<exists>rs. to_datetime parse raw = Inr rs)"
    by (cases "to_datetime parse raw") (auto simp: summaries_def clean_def Let_def)
  also have "\<dots> \<longleftrightarrow> (\<exists>r \<in> set raw. bad_date parse (date r))"
    by (auto simp: to_datetime_Inr_iff bad_date_def split: option.splits)
  finally show ?thesis .
qed

text \<open>
  An example: the whole pipeline on the sample table.  The summary has
  India and Kenya, in this order; the United States, whose only dated row is
  a day older than the latest date, is missing from both tables; the death
  rate of India is \<open>220000 / 20000000 = 0.011\<close> and that of Kenya, with no
  cases, is 0.
\<close>

lemma sample_summaries:
  "summaries parse_iso sample_raw =
     Inr ([india_summary, kenya_summary],
          [\<lparr>vacc_location = ''India'', vacc_percent_vaccinated = Fin (625 / 69)\<rparr>,
           \<lparr>vacc_location = ''Kenya'', vacc_percent_vaccinated = Fin (12500 / 53)\<rparr>])"
  unfolding summaries_def clean_sample
  by (simp add: Let_def india_summary_def kenya_summary_def sample_clean_def dated_row_def
      derive_eval aggregate_eval)

text \<open>
  An example of the fill across locations reaching the second chart: no row of Kenya in the sample has a count of vaccinated
  people, yet the vaccination table gives Kenya a percentage, computed from
  India's count and Kenya's population, and it exceeds 100.
\<close>

lemma kenya_percent_above_100:
  "map people_vaccinated (group_of location ''Kenya'' sample_raw) = [NaN, NaN] \<and>
   map vacc_percent_vaccinated
     (filter (\<lambda>v. vacc_location v = ''Kenya'')
        (latest_vaccination (add_percent_vaccinated (add_death_rate sample_clean)))) =
     [Fin (12500 / 53)] \<and>
   (100 :: real) < 12500 / 53"
  by (simp add: sample_raw_def group_of_def pipeline_eval)

text \<open>
  Whatever the input, the summary of a cleaned table has at
  most three rows, one per country of the script's list.
\<close>

theorem summary_at_most_three: "length (latest_data (add_death_rate (clean_rows rs))) \<le> 3"
proof -
  let ?T = "add_death_rate (clean_rows rs)"
  have "k \<in> set countries" if "Some k \<in> set (map location (latest_rows ?T))" for k
  proof -
    from that obtain r where "r \<in> set ?T" "location r = Some k"
      using latest_rows_subset [of ?T] by auto
    then have "Some k \<in> set (map location ?T)" by force
    then have "Some k \<in> set (map location (clean_rows rs))" by (simp add: frame_simps)
    then show ?thesis by (auto dest: clean_rows_location_in)
  qed
  then have "length (group_keys (map location (latest_rows ?T))) \<le> length (remdups countries)"
    by (rule group_keys_length_le)
  then show ?thesis
    by (simp add: latest_data_def Let_def countries_def)
qed

text \<open>
  C19 (liveness).  If at least one row of the table has one of the three
  locations and a date, the summary is not empty: the latest date is the date
  of some cleaned row, and that row has a location.
\<close>

theorem summary_nonempty:
  assumes "filter kept rs \<noteq> []"
  shows "latest_data (add_death_rate (clean_rows rs)) \<noteq> []"
proof -
  let ?T = "add_death_rate (clean_rows rs)"
  from assms have "clean_rows rs \<noteq> []"
    using length_clean_rows [of rs] by auto
  then obtain r0 where r0: "r0 \<in> set (clean_rows rs)" by (cases "clean_rows rs") auto
  then have "date r0 \<noteq> None" by (rule clean_rows_dated)
  with r0 have "\<exists>r \<in> set ?T. date r \<noteq> None"
    by (auto simp: add_death_rate_map)
  then have "latest_rows ?T \<noteq> []" by (simp add: latest_rows_nonempty_iff)
  then obtain r where r: "r \<in> set (latest_rows ?T)" by (cases "latest_rows ?T") auto
  then have "r \<in> set ?T" using latest_rows_subset by blast
  then have "location r \<in> set (map location (clean_rows rs))"
    using add_death_rate_columns(1) [of "clean_rows rs"] by (metis image_eqI list.set_map)
  then obtain l where "location r = Some l" by (auto dest: clean_rows_location_in)
  with r have "l \<in> set (group_keys (map location (latest_rows ?T)))"
    by (force simp: set_group_keys)
  then show ?thesis by (auto simp: latest_data_def Let_def)
qed

theorem summary_nonempty_witness:
  "filter kept sample_clean \<noteq> [] \<and>
   latest_data (add_death_rate (clean_rows sample_clean)) \<noteq> []"
proof -
  have h: "filter kept sample_clean \<noteq> []"
    by (simp add: sample_clean_def kept_def countries_def)
  show ?thesis
    using h summary_nonempty [OF h] by simp
qed

end
